theory Spec2Isabelle
  imports Complex_Main
begin

section \<open>Values of the Python program\<close>

text \<open>
  A Python float is a finite number, one of the two infinities, or NaN. The program only
  compares floats and hands them to libraries, so the finite ones are carried as reals:
  the order of the doubles is the order of the reals they denote.
\<close>

datatype pyfloat = Finite real | PosInf | NegInf | NaN

text \<open>Python's \<^verbatim>\<open><\<close> on floats: every comparison with NaN is false.\<close>

fun flt_less :: "pyfloat \<Rightarrow> pyfloat \<Rightarrow> bool" where
  "flt_less NaN b = False"
| "flt_less (Finite a) NaN = False"
| "flt_less PosInf NaN = False"
| "flt_less NegInf NaN = False"
| "flt_less (Finite a) (Finite b) = (a < b)"
| "flt_less (Finite a) PosInf = True"
| "flt_less (Finite a) NegInf = False"
| "flt_less PosInf (Finite b) = False"
| "flt_less PosInf PosInf = False"
| "flt_less PosInf NegInf = False"
| "flt_less NegInf (Finite b) = True"
| "flt_less NegInf PosInf = True"
| "flt_less NegInf NegInf = False"

text \<open>Python's \<^verbatim>\<open><=\<close> on floats.\<close>

definition flt_le :: "pyfloat \<Rightarrow> pyfloat \<Rightarrow> bool" where
  "flt_le a b = (flt_less a b \<or> (a = b \<and> a \<noteq> NaN))"

text \<open>The exceptions the program can meet; a library may raise any of them.\<close>

datatype exn =
    FileNotFoundError
  | IsADirectoryError
  | NotADirectoryError
  | FileExistsError
  | KeyError string
  | TypeError
  | AttributeError
  | IndexError
  | LibraryError string

text \<open>
  A cell of a pandas frame: a float (a missing value is the float NaN), a string of an
  object column, a timestamp or the missing timestamp NaT.
\<close>

datatype cell = Flt pyfloat | Txt string | Ts int | NaT

definition isna :: "cell \<Rightarrow> bool" where
  "isna c = (c = Flt NaN \<or> c = NaT)"

text \<open>
  A frame has its column labels in order and its rows in order; a row gives a cell for
  every label, so a frame is rectangular by construction.
\<close>

record frame =
  columns :: "string list"
  rows :: "(string \<Rightarrow> cell) list"

text \<open>\<^verbatim>\<open>len(df)\<close>\<close>

definition len :: "frame \<Rightarrow> nat" where
  "len df = length (rows df)"

text \<open>\<^verbatim>\<open>df[name]\<close> (and \<^verbatim>\<open>.values\<close>): the cells of one column, KeyError for an unknown label.\<close>

definition get_col :: "frame \<Rightarrow> string \<Rightarrow> exn + cell list" where
  "get_col df name =
     (if name \<in> set (columns df) then Inr (map (\<lambda>r. r name) (rows df))
      else Inl (KeyError name))"

text \<open>\<^verbatim>\<open>df[name] = values\<close>, for as many values as the frame has rows.\<close>

definition set_col :: "frame \<Rightarrow> string \<Rightarrow> cell list \<Rightarrow> frame" where
  "set_col df name vals =
     df\<lparr>columns := (if name \<in> set (columns df) then columns df else columns df @ [name]),
        rows := map (\<lambda>(r, v). r(name := v)) (zip (rows df) vals)\<rparr>"

text \<open>\<^verbatim>\<open>df.dropna()\<close>: the rows without a missing value in any column.\<close>

definition row_has_na :: "string list \<Rightarrow> (string \<Rightarrow> cell) \<Rightarrow> bool" where
  "row_has_na cols r = (\<exists>c \<in> set cols. isna (r c))"

definition dropna :: "frame \<Rightarrow> frame" where
  "dropna df = df\<lparr>rows := filter (\<lambda>r. \<not> row_has_na (columns df) r) (rows df)\<rparr>"

text \<open>\<^verbatim>\<open>df.iloc[:k, :]\<close> and \<^verbatim>\<open>df.iloc[k:, :]\<close> for \<open>k \<ge> 0\<close>.\<close>

definition iloc_to :: "nat \<Rightarrow> frame \<Rightarrow> frame" where
  "iloc_to k df = df\<lparr>rows := take k (rows df)\<rparr>"

definition iloc_from :: "nat \<Rightarrow> frame \<Rightarrow> frame" where
  "iloc_from k df = df\<lparr>rows := drop k (rows df)\<rparr>"

text \<open>\<^verbatim>\<open>df.drop(columns=names)\<close>: KeyError for a label the frame does not have.\<close>

definition drop_columns :: "frame \<Rightarrow> string list \<Rightarrow> exn + frame" where
  "drop_columns df names =
     (case filter (\<lambda>n. n \<notin> set (columns df)) names of
        [] \<Rightarrow> Inr (df\<lparr>columns := filter (\<lambda>c. c \<notin> set names) (columns df)\<rparr>)
      | n # _ \<Rightarrow> Inl (KeyError n))"

text \<open>The first exception of a list of results, or all the values.\<close>

fun collect :: "(exn + 'a) list \<Rightarrow> exn + 'a list" where
  "collect [] = Inr []"
| "collect (Inl e # xs) = Inl e"
| "collect (Inr v # xs) = (case collect xs of Inl e \<Rightarrow> Inl e | Inr vs \<Rightarrow> Inr (v # vs))"

section \<open>The libraries and constants the program imports\<close>

text \<open>
  pandas, orbit, scikit-learn, the operating system and the modules \<^verbatim>\<open>commons\<close> and
  \<^verbatim>\<open>modules\<close> are not part of the two source files. What the program calls in them is a
  parameter: a record of functions, each returning its value or the exception it raises.
  \<open>'m\<close> is orbit's model object.
\<close>

record 'm library =
  DATA_PATH :: string
  listdir :: "string \<Rightarrow> exn + string list"
  parse_csv :: "string list list \<Rightarrow> exn + frame"
  datetime_of :: "cell \<Rightarrow> exn + int option"
  numeric_of :: "cell \<Rightarrow> pyfloat option"
  DLT :: "int option \<Rightarrow> string \<Rightarrow> string \<Rightarrow> string \<Rightarrow> string \<Rightarrow> nat \<Rightarrow> string list
            \<Rightarrow> nat \<Rightarrow> real list option \<Rightarrow> exn + 'm"
  fit :: "'m \<Rightarrow> frame \<Rightarrow> exn + 'm"
  predict :: "'m \<Rightarrow> frame \<Rightarrow> exn + frame"
  mean_absolute_error :: "cell list \<Rightarrow> cell list \<Rightarrow> exn + pyfloat"
  MAE :: "cell list \<Rightarrow> cell list \<Rightarrow> exn + pyfloat"
  MAPE :: "cell list \<Rightarrow> cell list \<Rightarrow> exn + pyfloat"
  MSE :: "cell list \<Rightarrow> cell list \<Rightarrow> exn + pyfloat"
  RMSE :: "cell list \<Rightarrow> cell list \<Rightarrow> exn + pyfloat"
  round2 :: "pyfloat \<Rightarrow> pyfloat"
  csv_float :: "pyfloat \<Rightarrow> string"

section \<open>hypertune_dlt_model\<close>

definition trend_options :: "string list" where
  "trend_options = [''linear'', ''loglinear'', ''flat'', ''logistic'']"

definition estimators :: "string list" where
  "estimators = [''stan-map'', ''stan-mcmc'']"

definition penalties :: "real option list" where
  "penalties = [None, Some 0.01, Some 0.1, Some 1.0]"

text \<open>The dictionary \<^verbatim>\<open>best_config\<close>.\<close>

record config =
  trend :: string
  estimator :: string
  penalty :: "real option"

text \<open>
  The variables of the search, and a history the source does not keep: the combinations
  whose model was fitted and scored so far, in order.
\<close>

record 'm search =
  best_mae :: pyfloat
  best_model :: "'m option"
  best_config :: "config option"
  evaluated :: "config list"

text \<open>
  Lines 33 to 52: build the model for one combination, fit it on the training frame,
  predict the testing frame and score the predictions. The positional arguments of
  \<open>DLT\<close> are seasonality, response\_col, date\_col, estimator, global\_trend\_option,
  seed, regressor\_col, n\_bootstrap\_draws and regressor\_sign.
\<close>

definition fit_and_score ::
  "'m library \<Rightarrow> frame \<Rightarrow> frame \<Rightarrow> cell list \<Rightarrow> frame \<Rightarrow> int option
     \<Rightarrow> string \<Rightarrow> string \<Rightarrow> real option \<Rightarrow> exn + ('m \<times> pyfloat)" where
  "fit_and_score L training_df x_train y_test testing_df seasonality tr es pen =
     (case DLT L seasonality ''SQALE_INDEX'' ''COMMIT_DATE'' es tr 8888 (columns x_train) 1000
             (case pen of None \<Rightarrow> None
                | Some p \<Rightarrow> Some (replicate (length (columns x_train)) p)) of
        Inl e \<Rightarrow> Inl e
      | Inr model \<Rightarrow>
     (case fit L model training_df of
        Inl e \<Rightarrow> Inl e
      | Inr fitted \<Rightarrow>
     (case predict L fitted testing_df of
        Inl e \<Rightarrow> Inl e
      | Inr predicted_df \<Rightarrow>
     (case get_col predicted_df ''prediction'' of
        Inl e \<Rightarrow> Inl e
      | Inr predicted \<Rightarrow>
     (case mean_absolute_error L y_test predicted of
        Inl e \<Rightarrow> Inl e
      | Inr mae \<Rightarrow> Inr (fitted, mae))))))"

text \<open>Lines 57 to 64: keep the combination when its MAE is strictly below the best one.\<close>

definition keep_better :: "'m search \<Rightarrow> config \<Rightarrow> 'm \<Rightarrow> pyfloat \<Rightarrow> 'm search" where
  "keep_better s c model mae =
     (if flt_less mae (best_mae s)
      then s\<lparr>best_mae := mae, best_model := Some model, best_config := Some c,
             evaluated := evaluated s @ [c]\<rparr>
      else s\<lparr>evaluated := evaluated s @ [c]\<rparr>)"

text \<open>The body of the innermost loop; an exception leaves the loops.\<close>

definition try_combination ::
  "'m library \<Rightarrow> frame \<Rightarrow> frame \<Rightarrow> cell list \<Rightarrow> frame \<Rightarrow> int option
     \<Rightarrow> string \<Rightarrow> string \<Rightarrow> real option \<Rightarrow> 'm search \<Rightarrow> exn + 'm search" where
  "try_combination L training_df x_train y_test testing_df seasonality tr es pen s =
     (case fit_and_score L training_df x_train y_test testing_df seasonality tr es pen of
        Inl e \<Rightarrow> Inl e
      | Inr (model, mae) \<Rightarrow>
          Inr (keep_better s \<lparr>trend = tr, estimator = es, penalty = pen\<rparr> model mae))"

text \<open>
  The three nested \<^verbatim>\<open>for\<close> loops. Each returns the variables as they are when it is left,
  and the exception that left it, if one did.
\<close>

fun for_penalty ::
  "'m library \<Rightarrow> frame \<Rightarrow> frame \<Rightarrow> cell list \<Rightarrow> frame \<Rightarrow> int option
     \<Rightarrow> string \<Rightarrow> string \<Rightarrow> real option list \<Rightarrow> 'm search \<Rightarrow> 'm search \<times> exn option" where
  "for_penalty L training_df x_train y_test testing_df seasonality tr es [] s = (s, None)"
| "for_penalty L training_df x_train y_test testing_df seasonality tr es (pen # pens) s =
     (case try_combination L training_df x_train y_test testing_df seasonality tr es pen s of
        Inl e \<Rightarrow> (s, Some e)
      | Inr s' \<Rightarrow> for_penalty L training_df x_train y_test testing_df seasonality tr es pens s')"

fun for_estimator ::
  "'m library \<Rightarrow> frame \<Rightarrow> frame \<Rightarrow> cell list \<Rightarrow> frame \<Rightarrow> int option
     \<Rightarrow> string \<Rightarrow> string list \<Rightarrow> 'm search \<Rightarrow> 'm search \<times> exn option" where
  "for_estimator L training_df x_train y_test testing_df seasonality tr [] s = (s, None)"
| "for_estimator L training_df x_train y_test testing_df seasonality tr (es # ess) s =
     (case for_penalty L training_df x_train y_test testing_df seasonality tr es penalties s of
        (s', Some e) \<Rightarrow> (s', Some e)
      | (s', None) \<Rightarrow> for_estimator L training_df x_train y_test testing_df seasonality tr ess s')"

fun for_trend ::
  "'m library \<Rightarrow> frame \<Rightarrow> frame \<Rightarrow> cell list \<Rightarrow> frame \<Rightarrow> int option
     \<Rightarrow> string list \<Rightarrow> 'm search \<Rightarrow> 'm search \<times> exn option" where
  "for_trend L training_df x_train y_test testing_df seasonality [] s = (s, None)"
| "for_trend L training_df x_train y_test testing_df seasonality (tr # trs) s =
     (case for_estimator L training_df x_train y_test testing_df seasonality tr estimators s of
        (s', Some e) \<Rightarrow> (s', Some e)
      | (s', None) \<Rightarrow> for_trend L training_df x_train y_test testing_df seasonality trs s')"

text \<open>
  The function: its result (the pair it returns, or the exception it raises) and the
  combinations it fitted and scored. \<open>y_train\<close> is a parameter the source never reads.
\<close>

definition hypertune_dlt_model ::
  "'m library \<Rightarrow> frame \<Rightarrow> cell list \<Rightarrow> frame \<Rightarrow> cell list \<Rightarrow> frame \<Rightarrow> int option
     \<Rightarrow> (exn + ('m option \<times> config option)) \<times> config list" where
  "hypertune_dlt_model L training_df y_train x_train y_test testing_df seasonality =
     (case for_trend L training_df x_train y_test testing_df seasonality trend_options
             \<lparr>best_mae = PosInf, best_model = None, best_config = None, evaluated = []\<rparr> of
        (s, Some e) \<Rightarrow> (Inl e, evaluated s)
      | (s, None) \<Rightarrow> (Inr (best_model s, best_config s), evaluated s))"

text \<open>
  The combinations in the order the loops visit them, the score of one combination, and the
  loops as one pass over a list of combinations.
\<close>

definition grid :: "config list" where
  "grid = concat (map (\<lambda>tr. concat (map (\<lambda>es. map (\<lambda>pen.
            \<lparr>trend = tr, estimator = es, penalty = pen\<rparr>) penalties) estimators)) trend_options)"

definition score_config ::
  "'m library \<Rightarrow> frame \<Rightarrow> frame \<Rightarrow> cell list \<Rightarrow> frame \<Rightarrow> int option
     \<Rightarrow> config \<Rightarrow> exn + ('m \<times> pyfloat)" where
  "score_config L training_df x_train y_test testing_df seasonality c =
     fit_and_score L training_df x_train y_test testing_df seasonality
       (trend c) (estimator c) (penalty c)"

fun run_combos ::
  "(config \<Rightarrow> exn + ('m \<times> pyfloat)) \<Rightarrow> config list \<Rightarrow> 'm search \<Rightarrow> 'm search \<times> exn option" where
  "run_combos f [] s = (s, None)"
| "run_combos f (c # cs) s =
     (case f c of
        Inl e \<Rightarrow> (s, Some e)
      | Inr (model, mae) \<Rightarrow> run_combos f cs (keep_better s c model mae))"

text \<open>
  What the variables of the search say about the combinations \<open>hist\<close> scored so far:
  nothing is kept while no score was below infinity; otherwise the kept combination is
  one of them, no score is below its score, and no earlier score is at most its score.
\<close>

definition selected ::
  "(config \<Rightarrow> exn + ('m \<times> pyfloat)) \<Rightarrow> config list \<Rightarrow> 'm search \<Rightarrow> bool" where
  "selected f hist s =
     (case best_config s of
        None \<Rightarrow> best_model s = None \<and> best_mae s = PosInf
                 \<and> (\<forall>j < length hist. \<forall>m v. f (hist ! j) = Inr (m, v) \<longrightarrow> \<not> flt_less v PosInf)
      | Some c \<Rightarrow>
          (\<exists>i < length hist. \<exists>m v.
              hist ! i = c \<and> f c = Inr (m, v) \<and> best_model s = Some m \<and> best_mae s = v
            \<and> flt_less v PosInf
            \<and> (\<forall>j < length hist. \<forall>m' v'. f (hist ! j) = Inr (m', v') \<longrightarrow> \<not> flt_less v' v)
            \<and> (\<forall>j < i. \<forall>m' v'. f (hist ! j) = Inr (m', v') \<longrightarrow> \<not> flt_le v' v)))"

section \<open>The file system\<close>

text \<open>
  A path names a directory or a file; a file holds lines, and a line of a CSV file is the
  list of its fields. Paths are the strings the program builds: two different strings are
  two different entries.
\<close>

datatype node = Dir | File "string list list"

type_synonym filesystem = "string \<rightharpoonup> node"

text \<open>\<^verbatim>\<open>os.path.join\<close> on POSIX: a component that starts with a slash replaces the path.\<close>

definition join_step :: "string \<Rightarrow> string \<Rightarrow> string" where
  "join_step path b =
     (if take 1 b = ''/'' then b
      else if path = [] \<or> last path = CHR ''/'' then path @ b
      else path @ ''/'' @ b)"

definition os_path_join :: "string \<Rightarrow> string list \<Rightarrow> string" where
  "os_path_join a ps = foldl join_step a ps"

text \<open>\<^verbatim>\<open>os.path.isfile\<close>\<close>

definition isfile :: "filesystem \<Rightarrow> string \<Rightarrow> bool" where
  "isfile fs path = (case fs path of Some (File ls) \<Rightarrow> True | _ \<Rightarrow> False)"

text \<open>The directories above a path: its proper prefixes that end before a slash.\<close>

definition ancestors :: "string \<Rightarrow> string list" where
  "ancestors path = map (\<lambda>i. take i path) (filter (\<lambda>i. path ! i = CHR ''/'') [1..<length path])"

text \<open>
  \<^verbatim>\<open>os.makedirs(path, exist_ok=True)\<close>: it raises, and creates nothing, when the path or a
  directory above it is a file; otherwise the path and the directories above it exist after it.
\<close>

definition makedirs :: "filesystem \<Rightarrow> string \<Rightarrow> exn + filesystem" where
  "makedirs fs path =
     (if \<exists>a \<in> set (ancestors path). isfile fs a then Inl NotADirectoryError
      else if isfile fs path then Inl FileExistsError
      else Inr (fold (\<lambda>d f. f(d \<mapsto> Dir)) (ancestors path @ [path]) fs))"

text \<open>\<^verbatim>\<open>pd.read_csv(path)\<close>: the file is opened, and pandas parses its lines.\<close>

definition read_csv :: "'m library \<Rightarrow> filesystem \<Rightarrow> string \<Rightarrow> exn + frame" where
  "read_csv L fs path =
     (case fs path of
        None \<Rightarrow> Inl FileNotFoundError
      | Some Dir \<Rightarrow> Inl IsADirectoryError
      | Some (File ls) \<Rightarrow> parse_csv L ls)"

text \<open>The values of the dictionary \<^verbatim>\<open>result_data\<close>, which keeps its keys in order.\<close>

datatype pyval = Str string | Float pyfloat | PyNone

type_synonym result_data = "(string \<times> pyval) list"

definition csv_field :: "'m library \<Rightarrow> pyval \<Rightarrow> string" where
  "csv_field L v = (case v of Str s \<Rightarrow> s | Float x \<Rightarrow> csv_float L x | PyNone \<Rightarrow> [])"

definition csv_header :: "result_data \<Rightarrow> string list" where
  "csv_header d = map fst d"

definition csv_row :: "'m library \<Rightarrow> result_data \<Rightarrow> string list" where
  "csv_row L d = map (\<lambda>kv. csv_field L (snd kv)) d"

text \<open>
  \<^verbatim>\<open>pd.DataFrame([d]).to_csv(path, mode=mode, index=False, header=header)\<close>: mode
  \<^verbatim>\<open>w\<close> replaces the content of the file, mode \<^verbatim>\<open>a\<close> writes after it.
\<close>

definition to_csv ::
  "'m library \<Rightarrow> filesystem \<Rightarrow> result_data \<Rightarrow> string \<Rightarrow> string \<Rightarrow> bool \<Rightarrow> exn + filesystem" where
  "to_csv L fs d path mode header =
     (let new = (if header then [csv_header d] else []) @ [csv_row L d] in
      case fs path of
        Some Dir \<Rightarrow> Inl IsADirectoryError
      | Some (File old) \<Rightarrow> Inr (fs(path \<mapsto> File ((if mode = ''a'' then old else []) @ new)))
      | None \<Rightarrow> Inr (fs(path \<mapsto> File new)))"

section \<open>trigger_prediction\<close>

text \<open>
  Line 77, \<^verbatim>\<open>pd.to_datetime\<close>, cell by cell: a missing value becomes NaT, a value
  pandas cannot read as a date raises.
\<close>

definition to_datetime :: "'m library \<Rightarrow> cell \<Rightarrow> exn + cell" where
  "to_datetime L c =
     (if isna c then Inr NaT
      else case datetime_of L c of
             Inl e \<Rightarrow> Inl e
           | Inr None \<Rightarrow> Inr NaT
           | Inr (Some t) \<Rightarrow> Inr (Ts t))"

text \<open>
  Line 78, \<^verbatim>\<open>pd.to_numeric(..., errors='coerce')\<close>, cell by cell: a missing value
  becomes NaN, a float stays, any other value becomes the number pandas reads in it, or NaN
  when it reads none.
\<close>

definition to_numeric_coerce :: "'m library \<Rightarrow> cell \<Rightarrow> cell" where
  "to_numeric_coerce L c =
     (if isna c then Flt NaN
      else case c of
             Flt v \<Rightarrow> Flt v
           | _ \<Rightarrow> (case numeric_of L c of None \<Rightarrow> Flt NaN | Some v \<Rightarrow> Flt v))"

text \<open>Lines 74 to 79: read the frame, convert the two columns, drop the incomplete rows.\<close>

definition load_frame :: "'m library \<Rightarrow> filesystem \<Rightarrow> string \<Rightarrow> exn + frame" where
  "load_frame L fs df_path =
     (case read_csv L fs df_path of
        Inl e \<Rightarrow> Inl e
      | Inr df \<Rightarrow>
     (case get_col df ''COMMIT_DATE'' of
        Inl e \<Rightarrow> Inl e
      | Inr dates \<Rightarrow>
     (case collect (map (to_datetime L) dates) of
        Inl e \<Rightarrow> Inl e
      | Inr parsed \<Rightarrow>
     (case get_col (set_col df ''COMMIT_DATE'' parsed) ''SQALE_INDEX'' of
        Inl e \<Rightarrow> Inl e
      | Inr sqale \<Rightarrow>
          Inr (dropna (set_col (set_col df ''COMMIT_DATE'' parsed) ''SQALE_INDEX''
                         (map (to_numeric_coerce L) sqale)))))))"

text \<open>
  Python's \<^verbatim>\<open>round\<close> with one argument: the nearest integer, the even one of two that
  are equally near.
\<close>

definition py_round :: "real \<Rightarrow> int" where
  "py_round x =
     (let f = \<lfloor>x\<rfloor>; d = x - of_int f
      in if d < 1 / 2 then f else if 1 / 2 < d then f + 1 else if even f then f else f + 1)"

text \<open>
  Line 82. The product is a double in the source and the exact product here. The exact
  product is a multiple of one fifth, so it is never nearer than three tenths to a tie of
  the rounding, and the error of the double, below one part in \<open>2 ^ 52\<close>, does not
  change the rounded value for any number of rows a frame can have.
\<close>

definition split_point :: "nat \<Rightarrow> nat" where
  "split_point n = nat (py_round (real n * 0.8))"

text \<open>Lines 83 and 84.\<close>

definition train_test_split :: "frame \<Rightarrow> frame \<times> frame" where
  "train_test_split df = (iloc_to (split_point (len df)) df, iloc_from (split_point (len df)) df)"

text \<open>Lines 87 to 90: \<open>y_train\<close>, \<open>x_train\<close>, \<open>y_test\<close> and \<open>x_test\<close>.\<close>

definition split_variables ::
  "frame \<Rightarrow> frame \<Rightarrow> exn + (cell list \<times> frame \<times> cell list \<times> frame)" where
  "split_variables training_df testing_df =
     (case get_col training_df ''SQALE_INDEX'' of
        Inl e \<Rightarrow> Inl e
      | Inr y_train \<Rightarrow>
     (case drop_columns training_df [''COMMIT_DATE'', ''SQALE_INDEX''] of
        Inl e \<Rightarrow> Inl e
      | Inr x_train \<Rightarrow>
     (case get_col testing_df ''SQALE_INDEX'' of
        Inl e \<Rightarrow> Inl e
      | Inr y_test \<Rightarrow>
     (case drop_columns testing_df [''COMMIT_DATE'', ''SQALE_INDEX''] of
        Inl e \<Rightarrow> Inl e
      | Inr x_test \<Rightarrow> Inr (y_train, x_train, y_test, x_test)))))"

text \<open>
  Lines 103 to 131: the predictions of the best model, the four metrics and the
  dictionary. Calling \<^verbatim>\<open>predict\<close> on \<^verbatim>\<open>None\<close> raises AttributeError, subscripting
  \<^verbatim>\<open>None\<close> raises TypeError.
\<close>

definition final_result ::
  "'m library \<Rightarrow> 'm option \<Rightarrow> config option \<Rightarrow> frame \<Rightarrow> cell list \<Rightarrow> string
     \<Rightarrow> exn + result_data" where
  "final_result L best_model' best_config' testing_df y_test project_name =
     (case best_model' of
        None \<Rightarrow> Inl AttributeError
      | Some model \<Rightarrow>
     (case predict L model testing_df of
        Inl e \<Rightarrow> Inl e
      | Inr predicted_df \<Rightarrow>
     (case get_col predicted_df ''prediction'' of
        Inl e \<Rightarrow> Inl e
      | Inr predicted \<Rightarrow>
     (case MAE L predicted y_test of
        Inl e \<Rightarrow> Inl e
      | Inr mae \<Rightarrow>
     (case MAPE L predicted y_test of
        Inl e \<Rightarrow> Inl e
      | Inr mape_value \<Rightarrow>
     (case MSE L predicted y_test of
        Inl e \<Rightarrow> Inl e
      | Inr mse \<Rightarrow>
     (case RMSE L predicted y_test of
        Inl e \<Rightarrow> Inl e
      | Inr rmse \<Rightarrow>
     (case best_config' of
        None \<Rightarrow> Inl TypeError
      | Some c \<Rightarrow>
          Inr [(''Project'', Str project_name),
               (''Model'', Str ''DLT''),
               (''Trend'', Str (trend c)),
               (''Estimator'', Str (estimator c)),
               (''Penalty'', (case penalty c of None \<Rightarrow> PyNone | Some p \<Rightarrow> Float (Finite p))),
               (''MAE'', Float (round2 L mae)),
               (''MAPE'', Float (round2 L mape_value)),
               (''RMSE'', Float (round2 L rmse)),
               (''MSE'', Float (round2 L mse))]))))))))"

text \<open>Lines 134 and 136: where the results of one periodicity go.\<close>

definition assessment_dir :: "'m library \<Rightarrow> string \<Rightarrow> string" where
  "assessment_dir L periodicity =
     os_path_join (DATA_PATH L) [''ORBIT_ML'', ''DLT_Result'', periodicity]"

definition assessment_path :: "'m library \<Rightarrow> string \<Rightarrow> string" where
  "assessment_path L periodicity =
     os_path_join (assessment_dir L periodicity) [''assessment.csv'']"

text \<open>
  Lines 134 to 143, with the file system as it is when they end and the exception that
  ended them, if one did. \<^verbatim>\<open>os.path.join\<close> raises TypeError for the default
  \<^verbatim>\<open>periodicity=None\<close>.
\<close>

definition save_result ::
  "'m library \<Rightarrow> filesystem \<Rightarrow> string option \<Rightarrow> result_data \<Rightarrow> exn option \<times> filesystem" where
  "save_result L fs periodicity d =
     (case periodicity of
        None \<Rightarrow> (Some TypeError, fs)
      | Some per \<Rightarrow>
     (case makedirs fs (assessment_dir L per) of
        Inl e \<Rightarrow> (Some e, fs)
      | Inr fs1 \<Rightarrow>
     (case (if \<not> isfile fs1 (assessment_path L per)
            then to_csv L fs1 d (assessment_path L per) ''w'' True
            else to_csv L fs1 d (assessment_path L per) ''a'' False) of
        Inl e \<Rightarrow> (Some e, fs1)
      | Inr fs2 \<Rightarrow> (None, fs2))))"

text \<open>
  The function: the dictionary it returns or the exception it raises, and the file system
  it leaves.
\<close>

definition trigger_prediction ::
  "'m library \<Rightarrow> filesystem \<Rightarrow> string \<Rightarrow> string \<Rightarrow> string option \<Rightarrow> int option
     \<Rightarrow> (exn + result_data) \<times> filesystem" where
  "trigger_prediction L fs df_path project_name periodicity seasonality =
     (case load_frame L fs df_path of
        Inl e \<Rightarrow> (Inl e, fs)
      | Inr df \<Rightarrow>
     (case train_test_split df of (training_df, testing_df) \<Rightarrow>
     (case split_variables training_df testing_df of
        Inl e \<Rightarrow> (Inl e, fs)
      | Inr (y_train, x_train, y_test, x_test) \<Rightarrow>
     (case fst (hypertune_dlt_model L training_df y_train x_train y_test testing_df seasonality) of
        Inl e \<Rightarrow> (Inl e, fs)
      | Inr (best_model', best_config') \<Rightarrow>
     (case final_result L best_model' best_config' testing_df y_test project_name of
        Inl e \<Rightarrow> (Inl e, fs)
      | Inr d \<Rightarrow>
     (case save_result L fs periodicity d of
        (Some e, fs') \<Rightarrow> (Inl e, fs')
      | (None, fs') \<Rightarrow> (Inr d, fs')))))))"

text \<open>Calls of \<open>trigger_prediction\<close> one after the other, for one periodicity.\<close>

fun successive_calls ::
  "'m library \<Rightarrow> filesystem \<Rightarrow> string \<Rightarrow> (string \<times> string \<times> int option) list
     \<Rightarrow> (exn + result_data list) \<times> filesystem" where
  "successive_calls L fs per [] = (Inr [], fs)"
| "successive_calls L fs per ((df_path, project_name, seasonality) # rest) =
     (case trigger_prediction L fs df_path project_name (Some per) seasonality of
        (Inl e, fs') \<Rightarrow> (Inl e, fs')
      | (Inr d, fs') \<Rightarrow>
          (case successive_calls L fs' per rest of
             (Inl e, fs'') \<Rightarrow> (Inl e, fs'')
           | (Inr ds, fs'') \<Rightarrow> (Inr (d # ds), fs'')))"

section \<open>bayesian_orbit\<close>

text \<open>\<^verbatim>\<open>xs[i]\<close> for \<open>i \<ge> 0\<close>.\<close>

definition index :: "'a list \<Rightarrow> nat \<Rightarrow> exn + 'a" where
  "index xs i = (if i < length xs then Inr (xs ! i) else Inl IndexError)"

text \<open>
  A call of \<open>trigger_prediction\<close> as the run records it: the arguments (path, project,
  periodicity, seasonality) and what the call returned or raised.
\<close>

type_synonym invocation = "(string \<times> string \<times> string option \<times> int option) \<times> (exn + result_data)"

definition invoke ::
  "'m library \<Rightarrow> string \<Rightarrow> string \<Rightarrow> string option \<Rightarrow> int option
     \<Rightarrow> filesystem \<times> invocation list \<Rightarrow> exn option \<times> filesystem \<times> invocation list" where
  "invoke L df_path project_name periodicity seasonality w =
     (case w of (fs, calls) \<Rightarrow>
     (case trigger_prediction L fs df_path project_name periodicity seasonality of (r, fs') \<Rightarrow>
        ((case r of Inl e \<Rightarrow> Some e | Inr d \<Rightarrow> None), fs',
         calls @ [((df_path, project_name, periodicity, seasonality), r)])))"

text \<open>Lines 160 to 189: the body of the loop for the index \<open>i\<close>.\<close>

definition process_index ::
  "'m library \<Rightarrow> string \<Rightarrow> string \<Rightarrow> string \<Rightarrow> string list \<Rightarrow> string list \<Rightarrow> string list
     \<Rightarrow> nat \<Rightarrow> filesystem \<times> invocation list \<Rightarrow> exn option \<times> filesystem \<times> invocation list" where
  "process_index L biweekly_data_path monthly_data_path complete_data_path
       biweekly_files monthly_files complete_files i w =
     (case index biweekly_files i of
        Inl e \<Rightarrow> (Some e, w)
      | Inr name \<Rightarrow>
          if name = ''.DS_Store'' then (None, w)
          else
     (case invoke L (os_path_join biweekly_data_path [name]) (take (length name - 4) name)
             (Some ''biweekly'') (Some 26) w of
        (Some e, w1) \<Rightarrow> (Some e, w1)
      | (None, w1) \<Rightarrow>
     (case index monthly_files i of
        Inl e \<Rightarrow> (Some e, w1)
      | Inr monthly_name \<Rightarrow>
     (case invoke L (os_path_join monthly_data_path [monthly_name]) (take (length name - 4) name)
             (Some ''monthly'') (Some 12) w1 of
        (Some e, w2) \<Rightarrow> (Some e, w2)
      | (None, w2) \<Rightarrow>
     (case index complete_files i of
        Inl e \<Rightarrow> (Some e, w2)
      | Inr complete_name \<Rightarrow>
          invoke L (os_path_join complete_data_path [complete_name]) (take (length name - 4) name)
            (Some ''complete'') None w2)))))"

text \<open>The loop of line 159 over the indices it has left.\<close>

fun for_index ::
  "'m library \<Rightarrow> string \<Rightarrow> string \<Rightarrow> string \<Rightarrow> string list \<Rightarrow> string list \<Rightarrow> string list
     \<Rightarrow> nat list \<Rightarrow> filesystem \<times> invocation list \<Rightarrow> exn option \<times> filesystem \<times> invocation list" where
  "for_index L bp mp cp biweekly_files monthly_files complete_files [] w = (None, w)"
| "for_index L bp mp cp biweekly_files monthly_files complete_files (i # rest) w =
     (case process_index L bp mp cp biweekly_files monthly_files complete_files i w of
        (Some e, w') \<Rightarrow> (Some e, w')
      | (None, w') \<Rightarrow> for_index L bp mp cp biweekly_files monthly_files complete_files rest w')"

text \<open>
  The function: the exception that ended it, if one did, the file system it leaves and
  the calls of \<open>trigger_prediction\<close> it made.
\<close>

definition bayesian_orbit ::
  "'m library \<Rightarrow> filesystem \<Rightarrow> exn option \<times> filesystem \<times> invocation list" where
  "bayesian_orbit L fs =
     (case listdir L (os_path_join (DATA_PATH L) [''biweekly_data_1'']) of
        Inl e \<Rightarrow> (Some e, fs, [])
      | Inr biweekly_files \<Rightarrow>
     (case listdir L (os_path_join (DATA_PATH L) [''monthly_data_1'']) of
        Inl e \<Rightarrow> (Some e, fs, [])
      | Inr monthly_files \<Rightarrow>
     (case listdir L (os_path_join (DATA_PATH L) [''complete_data_1'']) of
        Inl e \<Rightarrow> (Some e, fs, [])
      | Inr complete_files \<Rightarrow>
          for_index L (os_path_join (DATA_PATH L) [''biweekly_data_1''])
            (os_path_join (DATA_PATH L) [''monthly_data_1''])
            (os_path_join (DATA_PATH L) [''complete_data_1''])
            biweekly_files monthly_files complete_files [0..<length biweekly_files] (fs, []))))"

text \<open>
  The three calls the loop body makes for one file of the biweekly listing, as the
  arguments of \<open>trigger_prediction\<close>: the path, the project name (the biweekly name without
  its last four characters), the periodicity and the seasonality.
\<close>

definition project_calls ::
  "string \<Rightarrow> string \<Rightarrow> string \<Rightarrow> string \<Rightarrow> string \<Rightarrow> string
     \<Rightarrow> (string \<times> string \<times> string option \<times> int option) list" where
  "project_calls bp mp cp name monthly_name complete_name =
     [(os_path_join bp [name], take (length name - 4) name, Some ''biweekly'', Some 26),
      (os_path_join mp [monthly_name], take (length name - 4) name, Some ''monthly'', Some 12),
      (os_path_join cp [complete_name], take (length name - 4) name, Some ''complete'', None)]"

text \<open>A call of the trace that returned.\<close>

definition returned :: "invocation \<Rightarrow> bool" where
  "returned c = (case snd c of Inl e \<Rightarrow> False | Inr d \<Rightarrow> True)"

text \<open>
  The row of a call that returned is a line of the assessment file of the call's
  periodicity.
\<close>

definition recorded :: "'m library \<Rightarrow> filesystem \<Rightarrow> invocation \<Rightarrow> bool" where
  "recorded L fs c =
     (case c of ((df_path, project_name, periodicity, seasonality), r) \<Rightarrow>
        (case r of
           Inl e \<Rightarrow> True
         | Inr d \<Rightarrow>
             (case periodicity of
                None \<Rightarrow> False
              | Some q \<Rightarrow>
                  (case fs (assessment_path L q) of
                     Some (File ls) \<Rightarrow> csv_row L d \<in> set ls
                   | _ \<Rightarrow> False))))"

section \<open>A small library and file system\<close>

text \<open>
  One instance of the parameters, to run the program on: a parser that reads every field
  as text and an empty field as missing, five dates and four numbers that can be read, a
  model whose prediction depends on its trend only, and an error that is the distance of
  the one prediction from the one test value.
\<close>

definition demo_listdir ::
  "string list \<Rightarrow> string list \<Rightarrow> string list \<Rightarrow> string \<Rightarrow> exn + string list" where
  "demo_listdir bw mo co p =
     (if p = ''data/biweekly_data_1'' then Inr bw
      else if p = ''data/monthly_data_1'' then Inr mo
      else if p = ''data/complete_data_1'' then Inr co
      else Inl FileNotFoundError)"

definition demo_parse_csv :: "string list list \<Rightarrow> exn + frame" where
  "demo_parse_csv ls =
     (case ls of
        [] \<Rightarrow> Inl (LibraryError ''EmptyDataError'')
      | header # body \<Rightarrow>
          Inr \<lparr>columns = header,
               rows = map (\<lambda>l c. case map_of (zip header l) c of
                                    None \<Rightarrow> Flt NaN
                                  | Some s \<Rightarrow> if s = [] then Flt NaN else Txt s) body\<rparr>)"

definition demo_datetime_of :: "cell \<Rightarrow> exn + int option" where
  "demo_datetime_of c =
     (case c of
        Txt s \<Rightarrow> (case map_of [(''2024-01-01'', 1), (''2024-01-15'', 15), (''2024-01-29'', 29),
                                 (''2024-02-12'', 43), (''2024-02-26'', 57)] s of
                     None \<Rightarrow> Inl (LibraryError ''ParserError'')
                   | Some t \<Rightarrow> Inr (Some t))
      | _ \<Rightarrow> Inl (LibraryError ''ParserError''))"

definition demo_numeric_of :: "cell \<Rightarrow> pyfloat option" where
  "demo_numeric_of c =
     (case c of
        Txt s \<Rightarrow> map_of [(''10'', Finite 10), (''20'', Finite 20), (''30'', Finite 30),
                          (''40'', Finite 40)] s
      | _ \<Rightarrow> None)"

definition demo_predict :: "string \<times> string \<Rightarrow> frame \<Rightarrow> exn + frame" where
  "demo_predict m df =
     Inr \<lparr>columns = [''prediction''],
          rows = map (\<lambda>r c. Flt (Finite (if fst m = ''flat'' then 31 else 33))) (rows df)\<rparr>"

definition demo_error :: "cell list \<Rightarrow> cell list \<Rightarrow> exn + pyfloat" where
  "demo_error ys ps =
     (case (ys, ps) of
        ([Flt (Finite y)], [Flt (Finite p)]) \<Rightarrow> Inr (Finite \<bar>y - p\<bar>)
      | _ \<Rightarrow> Inl (LibraryError ''ValueError''))"

definition demo_library :: "(string \<times> string) library" where
  "demo_library =
     \<lparr>DATA_PATH = ''data'',
      listdir = demo_listdir [''.DS_Store'', ''ant.csv''] [''x.csv'', ''ant.csv'']
                  [''.DS_Store'', ''ant.csv''],
      parse_csv = demo_parse_csv,
      datetime_of = demo_datetime_of,
      numeric_of = demo_numeric_of,
      DLT = (\<lambda>seasonality response_col date_col es tr seed regressor_col draws sign. Inr (tr, es)),
      fit = (\<lambda>m df. Inr m),
      predict = demo_predict,
      mean_absolute_error = demo_error,
      MAE = demo_error,
      MAPE = (\<lambda>ps ys. Inr (Finite 3.333)),
      MSE = (\<lambda>ps ys. Inr (Finite 1)),
      RMSE = (\<lambda>ps ys. Inr (Finite 1)),
      round2 = (\<lambda>x. if x = Finite 3.333 then Finite 3.33 else x),
      csv_float = (\<lambda>x. if x = Finite 1 then ''1.0'' else if x = Finite 3.33 then ''3.33'' else ''?'')\<rparr>"

definition demo_lines :: "string list list" where
  "demo_lines =
     [[''COMMIT_DATE'', ''SQALE_INDEX''],
      [''2024-01-01'', ''10''],
      [''2024-01-15'', ''n/a''],
      [''2024-01-29'', ''20''],
      [[], ''30''],
      [''2024-02-26'', ''30'']]"

definition demo_fs :: filesystem where
  "demo_fs = [''data/biweekly_data_1/ant.csv'' \<mapsto> File demo_lines,
              ''data/monthly_data_1/ant.csv'' \<mapsto> File demo_lines,
              ''data/complete_data_1/ant.csv'' \<mapsto> File demo_lines]"


text \<open>The same library with a score that is always infinite, or always NaN.\<close>

definition inf_library :: "(string \<times> string) library" where
  "inf_library = demo_library\<lparr>mean_absolute_error := (\<lambda>ys ps. Inr PosInf)\<rparr>"

definition nan_library :: "(string \<times> string) library" where
  "nan_library = demo_library\<lparr>mean_absolute_error := (\<lambda>ys ps. Inr NaN)\<rparr>"

text \<open>The same library with a \<open>fit\<close>, or a \<open>predict\<close>, that raises.\<close>

definition failing_fit_library :: "(string \<times> string) library" where
  "failing_fit_library = demo_library\<lparr>fit := (\<lambda>m df. Inl (LibraryError ''fit''))\<rparr>"

definition failing_predict_library :: "(string \<times> string) library" where
  "failing_predict_library = demo_library\<lparr>predict := (\<lambda>m df. Inl (LibraryError ''predict''))\<rparr>"



text \<open>
  The frames and variables of the file \<open>demo_lines\<close> after lines 84 and 90: the rows
  with a date and a number that can be read, two for training and one for testing.
\<close>

definition demo_row :: "int \<Rightarrow> real \<Rightarrow> string \<Rightarrow> cell" where
  "demo_row t v c =
     (if c = ''COMMIT_DATE'' then Ts t else if c = ''SQALE_INDEX'' then Flt (Finite v) else Flt NaN)"

definition demo_training :: frame where
  "demo_training =
     \<lparr>columns = [''COMMIT_DATE'', ''SQALE_INDEX''], rows = [demo_row 1 10, demo_row 29 20]\<rparr>"

definition demo_testing :: frame where
  "demo_testing = \<lparr>columns = [''COMMIT_DATE'', ''SQALE_INDEX''], rows = [demo_row 57 30]\<rparr>"

definition demo_x :: frame where
  "demo_x = \<lparr>columns = [], rows = [demo_row 1 10, demo_row 29 20]\<rparr>"

text \<open>The frame of \<open>demo_lines\<close> after line 79, \<open>x_test\<close>, and the dictionary of a call.\<close>

definition demo_frame :: frame where
  "demo_frame =
     \<lparr>columns = [''COMMIT_DATE'', ''SQALE_INDEX''],
      rows = [demo_row 1 10, demo_row 29 20, demo_row 57 30]\<rparr>"

definition demo_xt :: frame where
  "demo_xt = \<lparr>columns = [], rows = [demo_row 57 30]\<rparr>"

definition demo_result :: "string \<Rightarrow> result_data" where
  "demo_result project_name =
     [(''Project'', Str project_name), (''Model'', Str ''DLT''), (''Trend'', Str ''flat''),
      (''Estimator'', Str ''stan-map''), (''Penalty'', PyNone), (''MAE'', Float (Finite 1)),
      (''MAPE'', Float (Finite 3.33)), (''RMSE'', Float (Finite 1)), (''MSE'', Float (Finite 1))]"

text \<open>The small file system with an assessment file that is there before any call.\<close>

definition stale_fs :: filesystem where
  "stale_fs = demo_fs(''data/ORBIT_ML/DLT_Result/biweekly/assessment.csv'' \<mapsto> File [[''kept'']])"



section \<open>The order of floats\<close>

lemma flt_less_irrefl: "\<not> flt_less a a"
  by (cases a) auto

lemma flt_less_PosInf_left: "\<not> flt_less PosInf b"
  by (cases b) auto

lemma not_below_PosInf: "\<not> flt_less v PosInf \<Longrightarrow> v = PosInf \<or> v = NaN"
  by (cases v) auto

lemma flt_less_below:
  "flt_less a b \<Longrightarrow> \<not> flt_less c b \<Longrightarrow> \<not> flt_less c a \<and> \<not> flt_le c a"
  by (cases a; cases b; cases c) (auto simp: flt_le_def)

lemma flt_less_trans: "flt_less a b \<Longrightarrow> flt_less b c \<Longrightarrow> flt_less a c"
  by (cases a; cases b; cases c) auto

lemma flt_le_total: "\<not> flt_less b a \<Longrightarrow> a \<noteq> NaN \<Longrightarrow> b \<noteq> NaN \<Longrightarrow> flt_le a b"
  by (cases a; cases b) (auto simp: flt_le_def)

lemma below_PosInf_not_NaN: "flt_less v PosInf \<Longrightarrow> v \<noteq> NaN"
  by (cases v) auto

section \<open>The loops of the search as one pass over the grid\<close>

lemma run_combos_append:
  "run_combos f (xs @ ys) s =
     (case run_combos f xs s of (s', Some e) \<Rightarrow> (s', Some e) | (s', None) \<Rightarrow> run_combos f ys s')"
  by (induction xs arbitrary: s) (auto split: sum.splits prod.splits option.splits)

lemma for_penalty_flat:
  "for_penalty L training_df x_train y_test testing_df seasonality tr es pens s =
     run_combos (score_config L training_df x_train y_test testing_df seasonality)
       (map (\<lambda>pen. \<lparr>trend = tr, estimator = es, penalty = pen\<rparr>) pens) s"
  by (induction pens arbitrary: s)
     (auto simp: try_combination_def score_config_def split: sum.splits prod.splits)

lemma for_estimator_flat:
  "for_estimator L training_df x_train y_test testing_df seasonality tr ess s =
     run_combos (score_config L training_df x_train y_test testing_df seasonality)
       (concat (map (\<lambda>es. map (\<lambda>pen. \<lparr>trend = tr, estimator = es, penalty = pen\<rparr>) penalties) ess)) s"
  by (induction ess arbitrary: s)
     (auto simp: for_penalty_flat run_combos_append split: prod.splits option.splits)

lemma for_trend_flat:
  "for_trend L training_df x_train y_test testing_df seasonality trs s =
     run_combos (score_config L training_df x_train y_test testing_df seasonality)
       (concat (map (\<lambda>tr. concat (map (\<lambda>es. map (\<lambda>pen.
            \<lparr>trend = tr, estimator = es, penalty = pen\<rparr>) penalties) estimators)) trs)) s"
  by (induction trs arbitrary: s)
     (auto simp: for_estimator_flat run_combos_append split: prod.splits option.splits)

lemma hypertune_flat:
  "hypertune_dlt_model L training_df y_train x_train y_test testing_df seasonality =
     (case run_combos (score_config L training_df x_train y_test testing_df seasonality) grid
             \<lparr>best_mae = PosInf, best_model = None, best_config = None, evaluated = []\<rparr> of
        (s, Some e) \<Rightarrow> (Inl e, evaluated s)
      | (s, None) \<Rightarrow> (Inr (best_model s, best_config s), evaluated s))"
  by (simp add: hypertune_dlt_model_def for_trend_flat grid_def)

lemma length_grid: "length grid = 32"
  by (simp add: grid_def trend_options_def estimators_def penalties_def)

lemma distinct_grid: "distinct grid"
  by (simp add: grid_def trend_options_def estimators_def penalties_def)

lemma run_combos_done:
  "run_combos f cs s = (s', None) \<Longrightarrow>
     evaluated s' = evaluated s @ cs \<and> (\<forall>c \<in> set cs. \<exists>m v. f c = Inr (m, v))"
  by (induction cs arbitrary: s) (auto simp: keep_better_def split: sum.splits prod.splits if_splits)

lemma run_combos_raised:
  "run_combos f cs s = (s', Some e) \<Longrightarrow>
     \<exists>k < length cs. f (cs ! k) = Inl e \<and> evaluated s' = evaluated s @ take k cs
        \<and> (\<forall>j < k. \<exists>m v. f (cs ! j) = Inr (m, v))"
proof (induction cs arbitrary: s)
  case Nil
  then show ?case by simp
next
  case (Cons c cs)
  show ?case
  proof (cases "f c")
    case (Inl e')
    with Cons.prems have "e' = e" "s' = s" by auto
    with Inl show ?thesis by (intro exI[of _ 0]) simp
  next
    case (Inr mv)
    obtain m v where mv: "mv = (m, v)" by (cases mv)
    with Inr Cons.prems have "run_combos f cs (keep_better s c m v) = (s', Some e)" by simp
    from Cons.IH[OF this] obtain k where k: "k < length cs" "f (cs ! k) = Inl e"
      "evaluated s' = evaluated (keep_better s c m v) @ take k cs"
      "\<forall>j < k. \<exists>m v. f (cs ! j) = Inr (m, v)" by blast
    have ev: "evaluated (keep_better s c m v) = evaluated s @ [c]"
      by (simp add: keep_better_def)
    show ?thesis
    proof (intro exI[of _ "Suc k"] conjI allI impI)
      show "Suc k < length (c # cs)" using k by simp
      show "f ((c # cs) ! Suc k) = Inl e" using k by simp
      show "evaluated s' = evaluated s @ take (Suc k) (c # cs)" using k ev by simp
      fix j assume "j < Suc k"
      then show "\<exists>m v. f ((c # cs) ! j) = Inr (m, v)"
        using k(4) Inr mv by (cases j) auto
    qed
  qed
qed

lemma run_combos_total:
  "\<forall>c \<in> set cs. \<exists>m v. f c = Inr (m, v) \<Longrightarrow> \<exists>s'. run_combos f cs s = (s', None)"
  by (induction cs arbitrary: s) auto

lemma hypertune_returns:
  assumes "hypertune_dlt_model L training_df y_train x_train y_test testing_df seasonality
             = (Inr (bm, bc), ev)"
  shows "\<exists>s. run_combos (score_config L training_df x_train y_test testing_df seasonality) grid
               \<lparr>best_mae = PosInf, best_model = None, best_config = None, evaluated = []\<rparr>
             = (s, None) \<and> bm = best_model s \<and> bc = best_config s \<and> ev = evaluated s"
  using assms by (auto simp: hypertune_flat split: prod.splits option.splits)

lemma hypertune_raises:
  assumes "hypertune_dlt_model L training_df y_train x_train y_test testing_df seasonality
             = (Inl e, ev)"
  shows "\<exists>s. run_combos (score_config L training_df x_train y_test testing_df seasonality) grid
               \<lparr>best_mae = PosInf, best_model = None, best_config = None, evaluated = []\<rparr>
             = (s, Some e) \<and> ev = evaluated s"
  using assms by (auto simp: hypertune_flat split: prod.splits option.splits)

lemma run_combos_never_better:
  "\<forall>c \<in> set cs. \<exists>m v. f c = Inr (m, v) \<and> \<not> flt_less v (best_mae s) \<Longrightarrow>
     run_combos f cs s = (s\<lparr>evaluated := evaluated s @ cs\<rparr>, None)"
  by (induction cs arbitrary: s) (auto simp: keep_better_def)

lemma grid_eq:
  "grid =
     [\<lparr>trend = ''linear'', estimator = ''stan-map'', penalty = None\<rparr>,
      \<lparr>trend = ''linear'', estimator = ''stan-map'', penalty = Some 0.01\<rparr>,
      \<lparr>trend = ''linear'', estimator = ''stan-map'', penalty = Some 0.1\<rparr>,
      \<lparr>trend = ''linear'', estimator = ''stan-map'', penalty = Some 1\<rparr>,
      \<lparr>trend = ''linear'', estimator = ''stan-mcmc'', penalty = None\<rparr>,
      \<lparr>trend = ''linear'', estimator = ''stan-mcmc'', penalty = Some 0.01\<rparr>,
      \<lparr>trend = ''linear'', estimator = ''stan-mcmc'', penalty = Some 0.1\<rparr>,
      \<lparr>trend = ''linear'', estimator = ''stan-mcmc'', penalty = Some 1\<rparr>,
      \<lparr>trend = ''loglinear'', estimator = ''stan-map'', penalty = None\<rparr>,
      \<lparr>trend = ''loglinear'', estimator = ''stan-map'', penalty = Some 0.01\<rparr>,
      \<lparr>trend = ''loglinear'', estimator = ''stan-map'', penalty = Some 0.1\<rparr>,
      \<lparr>trend = ''loglinear'', estimator = ''stan-map'', penalty = Some 1\<rparr>,
      \<lparr>trend = ''loglinear'', estimator = ''stan-mcmc'', penalty = None\<rparr>,
      \<lparr>trend = ''loglinear'', estimator = ''stan-mcmc'', penalty = Some 0.01\<rparr>,
      \<lparr>trend = ''loglinear'', estimator = ''stan-mcmc'', penalty = Some 0.1\<rparr>,
      \<lparr>trend = ''loglinear'', estimator = ''stan-mcmc'', penalty = Some 1\<rparr>,
      \<lparr>trend = ''flat'', estimator = ''stan-map'', penalty = None\<rparr>,
      \<lparr>trend = ''flat'', estimator = ''stan-map'', penalty = Some 0.01\<rparr>,
      \<lparr>trend = ''flat'', estimator = ''stan-map'', penalty = Some 0.1\<rparr>,
      \<lparr>trend = ''flat'', estimator = ''stan-map'', penalty = Some 1\<rparr>,
      \<lparr>trend = ''flat'', estimator = ''stan-mcmc'', penalty = None\<rparr>,
      \<lparr>trend = ''flat'', estimator = ''stan-mcmc'', penalty = Some 0.01\<rparr>,
      \<lparr>trend = ''flat'', estimator = ''stan-mcmc'', penalty = Some 0.1\<rparr>,
      \<lparr>trend = ''flat'', estimator = ''stan-mcmc'', penalty = Some 1\<rparr>,
      \<lparr>trend = ''logistic'', estimator = ''stan-map'', penalty = None\<rparr>,
      \<lparr>trend = ''logistic'', estimator = ''stan-map'', penalty = Some 0.01\<rparr>,
      \<lparr>trend = ''logistic'', estimator = ''stan-map'', penalty = Some 0.1\<rparr>,
      \<lparr>trend = ''logistic'', estimator = ''stan-map'', penalty = Some 1\<rparr>,
      \<lparr>trend = ''logistic'', estimator = ''stan-mcmc'', penalty = None\<rparr>,
      \<lparr>trend = ''logistic'', estimator = ''stan-mcmc'', penalty = Some 0.01\<rparr>,
      \<lparr>trend = ''logistic'', estimator = ''stan-mcmc'', penalty = Some 0.1\<rparr>,
      \<lparr>trend = ''logistic'', estimator = ''stan-mcmc'', penalty = Some 1\<rparr>]"
  by (simp add: grid_def trend_options_def estimators_def penalties_def)

lemma length_grid_product:
  "length grid = length trend_options * length estimators * length penalties"
  by (simp add: grid_def trend_options_def estimators_def penalties_def)

lemma set_grid:
  "set grid = {\<lparr>trend = tr, estimator = es, penalty = pen\<rparr> | tr es pen.
                 tr \<in> set trend_options \<and> es \<in> set estimators \<and> pen \<in> set penalties}"
  unfolding grid_def by auto

lemma demo_grid_16:
  "grid ! 16 = \<lparr>trend = ''flat'', estimator = ''stan-map'', penalty = None\<rparr>"
  by (simp add: grid_eq)

section \<open>What the search keeps\<close>

lemma selected_step:
  assumes inv: "selected f hist s" and fc: "f c = Inr (m, v)"
  shows "selected f (hist @ [c]) (keep_better s c m v)"
proof (cases "flt_less v (best_mae s)")
  case better: True
  have below: "flt_less v PosInf"
  proof (cases "best_config s")
    case None
    with inv better show ?thesis by (simp add: selected_def)
  next
    case (Some c0)
    with inv have "flt_less (best_mae s) PosInf" by (auto simp: selected_def)
    with better show ?thesis by (rule flt_less_trans)
  qed
  have older: "\<not> flt_less v' v \<and> \<not> flt_le v' v"
    if j: "j < length hist" and fj: "f (hist ! j) = Inr (m', v')" for j m' v'
  proof (cases "best_config s")
    case None
    with inv j fj have "\<not> flt_less v' (best_mae s)"
      by (auto simp: selected_def)
    then show ?thesis by (rule flt_less_below[OF better])
  next
    case (Some c0)
    with inv j fj have "\<not> flt_less v' (best_mae s)" by (auto simp: selected_def)
    then show ?thesis by (rule flt_less_below[OF better])
  qed
  have "\<forall>j < length (hist @ [c]). \<forall>m' v'.
          f ((hist @ [c]) ! j) = Inr (m', v') \<longrightarrow> \<not> flt_less v' v"
  proof (intro allI impI)
    fix j m' v'
    assume j: "j < length (hist @ [c])" and fj: "f ((hist @ [c]) ! j) = Inr (m', v')"
    show "\<not> flt_less v' v"
    proof (cases "j < length hist")
      case True
      with fj have "f (hist ! j) = Inr (m', v')" by (simp add: nth_append)
      with older True show ?thesis by blast
    next
      case False
      with j have "j = length hist" by simp
      with fj fc have "v' = v" by simp
      then show ?thesis by (simp add: flt_less_irrefl)
    qed
  qed
  moreover have "\<forall>j < length hist. \<forall>m' v'.
          f ((hist @ [c]) ! j) = Inr (m', v') \<longrightarrow> \<not> flt_le v' v"
    using older by (simp add: nth_append)
  ultimately have "\<exists>i < length (hist @ [c]). \<exists>m0 v0.
              (hist @ [c]) ! i = c \<and> f c = Inr (m0, v0) \<and> Some m = Some m0 \<and> v = v0
            \<and> flt_less v0 PosInf
            \<and> (\<forall>j < length (hist @ [c]). \<forall>m' v'. f ((hist @ [c]) ! j) = Inr (m', v') \<longrightarrow> \<not> flt_less v' v0)
            \<and> (\<forall>j < i. \<forall>m' v'. f ((hist @ [c]) ! j) = Inr (m', v') \<longrightarrow> \<not> flt_le v' v0)"
    using below fc by (intro exI[of _ "length hist"] exI[of _ m] exI[of _ v]) simp
  then show ?thesis
    using better by (simp add: selected_def keep_better_def del: length_append)
next
  case worse: False
  show ?thesis
  proof (cases "best_config s")
    case None
    with inv worse fc show ?thesis
      by (auto simp: selected_def keep_better_def nth_append less_Suc_eq)
  next
    case (Some c0)
    with inv obtain i m0 v0 where i: "i < length hist" "hist ! i = c0" "f c0 = Inr (m0, v0)"
      "best_model s = Some m0" "best_mae s = v0" "flt_less v0 PosInf"
      "\<forall>j < length hist. \<forall>m' v'. f (hist ! j) = Inr (m', v') \<longrightarrow> \<not> flt_less v' v0"
      "\<forall>j < i. \<forall>m' v'. f (hist ! j) = Inr (m', v') \<longrightarrow> \<not> flt_le v' v0"
      by (auto simp: selected_def)
    have all: "\<forall>j < length (hist @ [c]). \<forall>m' v'.
          f ((hist @ [c]) ! j) = Inr (m', v') \<longrightarrow> \<not> flt_less v' v0"
      using i(7) worse fc i(5) by (auto simp: nth_append less_Suc_eq)
    have first: "\<forall>j < i. \<forall>m' v'. f ((hist @ [c]) ! j) = Inr (m', v') \<longrightarrow> \<not> flt_le v' v0"
      using i(8) i(1) by (simp add: nth_append)
    have "i < length (hist @ [c])" "(hist @ [c]) ! i = c0" using i(1,2) by (simp_all add: nth_append)
    with all first i(3,4,5,6)
    have "\<exists>i < length (hist @ [c]). \<exists>m v.
              (hist @ [c]) ! i = c0 \<and> f c0 = Inr (m, v) \<and> best_model s = Some m \<and> best_mae s = v
            \<and> flt_less v PosInf
            \<and> (\<forall>j < length (hist @ [c]). \<forall>m' v'. f ((hist @ [c]) ! j) = Inr (m', v') \<longrightarrow> \<not> flt_less v' v)
            \<and> (\<forall>j < i. \<forall>m' v'. f ((hist @ [c]) ! j) = Inr (m', v') \<longrightarrow> \<not> flt_le v' v)"
      by (intro exI[of _ i] exI[of _ m0] exI[of _ v0]) simp
    with Some worse show ?thesis
      by (simp add: selected_def keep_better_def del: length_append)
  qed
qed

lemma selected_run:
  "run_combos f cs s = (s', None) \<Longrightarrow> selected f hist s \<Longrightarrow> selected f (hist @ cs) s'"
proof (induction cs arbitrary: s hist)
  case Nil
  then show ?case by simp
next
  case (Cons c cs)
  from Cons.prems(1) obtain m v where fc: "f c = Inr (m, v)"
    and run: "run_combos f cs (keep_better s c m v) = (s', None)"
    by (auto split: sum.splits prod.splits)
  from Cons.IH[OF run selected_step[OF Cons.prems(2) fc]] show ?case by simp
qed

lemma selected_init:
  "selected f [] \<lparr>best_mae = PosInf, best_model = None, best_config = None, evaluated = []\<rparr>"
  by (simp add: selected_def)


lemma keep_better_literal:
  "keep_better \<lparr>best_mae = b, best_model = bm, best_config = bc, evaluated = ev\<rparr> c m v =
     (if flt_less v b
      then \<lparr>best_mae = v, best_model = Some m, best_config = Some c, evaluated = ev @ [c]\<rparr>
      else \<lparr>best_mae = b, best_model = bm, best_config = bc, evaluated = ev @ [c]\<rparr>)"
  by (simp add: keep_better_def)

section \<open>The search on the small libraries\<close>

lemma demo_score:
  "score_config demo_library training_df x_train [Flt (Finite y)]
       \<lparr>columns = cs, rows = [r]\<rparr> seasonality c
     = Inr ((trend c, estimator c), Finite \<bar>y - (if trend c = ''flat'' then 31 else 33)\<bar>)"
  by (simp add: score_config_def fit_and_score_def demo_library_def demo_predict_def
        demo_error_def get_col_def)

lemma inf_score:
  "score_config inf_library training_df x_train y_test testing_df seasonality c
     = Inr ((trend c, estimator c), PosInf)"
  by (simp add: score_config_def fit_and_score_def inf_library_def demo_library_def
        demo_predict_def get_col_def)

lemma nan_score:
  "score_config nan_library training_df x_train y_test testing_df seasonality c
     = Inr ((trend c, estimator c), NaN)"
  by (simp add: score_config_def fit_and_score_def nan_library_def demo_library_def
        demo_predict_def get_col_def)

lemma failing_fit_score:
  "score_config failing_fit_library training_df x_train y_test testing_df seasonality c
     = Inl (LibraryError ''fit'')"
  by (simp add: score_config_def fit_and_score_def failing_fit_library_def demo_library_def)

lemma failing_predict_score:
  "score_config failing_predict_library training_df x_train y_test testing_df seasonality c
     = Inl (LibraryError ''predict'')"
  by (simp add: score_config_def fit_and_score_def failing_predict_library_def demo_library_def)

lemma demo_hypertune:
  "hypertune_dlt_model demo_library training_df y_train x_train [Flt (Finite 30)]
       \<lparr>columns = cs, rows = [r]\<rparr> seasonality
     = (Inr (Some (''flat'', ''stan-map''),
             Some \<lparr>trend = ''flat'', estimator = ''stan-map'', penalty = None\<rparr>), grid)"
  by (simp add: hypertune_flat grid_eq demo_score keep_better_literal)

lemma inf_hypertune:
  "hypertune_dlt_model inf_library training_df y_train x_train y_test testing_df seasonality
     = (Inr (None, None), grid)"
  by (simp add: hypertune_flat run_combos_never_better inf_score)

lemma nan_hypertune:
  "hypertune_dlt_model nan_library training_df y_train x_train y_test testing_df seasonality
     = (Inr (None, None), grid)"
  by (simp add: hypertune_flat run_combos_never_better nan_score)

lemma failing_fit_hypertune:
  "hypertune_dlt_model failing_fit_library training_df y_train x_train y_test testing_df seasonality
     = (Inl (LibraryError ''fit''), [])"
  by (simp add: hypertune_flat grid_eq failing_fit_score)

section \<open>Claims about hypertune_dlt_model\<close>

text \<open>
  C1, as amended. When \<open>hypertune_dlt_model\<close> returns and some combination of the grid has
  a score below infinity, the model and the configuration it returns are those of one
  combination of the grid; the score of that combination is at most the score of every
  combination whose score is not NaN, and no combination before it in the order of the
  loops (trend, then estimator, then penalty) has a score that is at most its score, so
  of the combinations with the least score it is the first.
\<close>

theorem hypertune_returns_first_minimum:
  assumes ret: "hypertune_dlt_model L training_df y_train x_train y_test testing_df seasonality
                  = (Inr (bm, bc), ev)"
    and some: "\<exists>c \<in> set grid. \<exists>m v.
                  score_config L training_df x_train y_test testing_df seasonality c = Inr (m, v)
                \<and> flt_less v PosInf"
  shows "\<exists>i < length grid. \<exists>m v.
            score_config L training_df x_train y_test testing_df seasonality (grid ! i) = Inr (m, v)
          \<and> bm = Some m \<and> bc = Some (grid ! i)
          \<and> (\<forall>j < length grid. \<forall>m' v'.
                score_config L training_df x_train y_test testing_df seasonality (grid ! j)
                  = Inr (m', v') \<longrightarrow> v' \<noteq> NaN \<longrightarrow> flt_le v v')
          \<and> (\<forall>j < i. \<forall>m' v'.
                score_config L training_df x_train y_test testing_df seasonality (grid ! j)
                  = Inr (m', v') \<longrightarrow> \<not> flt_le v' v)"
proof -
  let ?f = "score_config L training_df x_train y_test testing_df seasonality"
  from hypertune_returns[OF ret] obtain s where
    run: "run_combos ?f grid
            \<lparr>best_mae = PosInf, best_model = None, best_config = None, evaluated = []\<rparr> = (s, None)"
    and bm: "bm = best_model s" and bc: "bc = best_config s" by blast
  from selected_run[OF run selected_init] have sel: "selected ?f grid s" by simp
  show ?thesis
  proof (cases "best_config s")
    case None
    with sel have "\<forall>j < length grid. \<forall>m v. ?f (grid ! j) = Inr (m, v) \<longrightarrow> \<not> flt_less v PosInf"
      by (simp add: selected_def)
    with some show ?thesis by (auto simp: in_set_conv_nth)
  next
    case (Some c)
    with sel obtain i m v where i: "i < length grid" "grid ! i = c" "?f c = Inr (m, v)"
      "best_model s = Some m" "flt_less v PosInf"
      "\<forall>j < length grid. \<forall>m' v'. ?f (grid ! j) = Inr (m', v') \<longrightarrow> \<not> flt_less v' v"
      "\<forall>j < i. \<forall>m' v'. ?f (grid ! j) = Inr (m', v') \<longrightarrow> \<not> flt_le v' v"
      by (auto simp: selected_def)
    have "flt_le v v'" if "j < length grid" "?f (grid ! j) = Inr (m', v')" "v' \<noteq> NaN" for j m' v'
    proof -
      from i(6) that have "\<not> flt_less v' v" by blast
      moreover from i(5) have "v \<noteq> NaN" by (rule below_PosInf_not_NaN)
      ultimately show ?thesis using that(3) by (simp add: flt_le_total)
    qed
    with i Some bm bc show ?thesis
      by (intro exI[of _ i] exI[of _ m] exI[of _ v]) simp
  qed
qed

text \<open>
  An instance of C1 as amended: on the small library the first combination with trend
  \<^verbatim>\<open>flat\<close> is returned, the seventeenth of the grid, with the score 1 where the sixteen
  before it have the score 3.
\<close>

theorem hypertune_returns_first_minimum_witness:
  "hypertune_dlt_model demo_library demo_training [Flt (Finite 10), Flt (Finite 20)] demo_x
       [Flt (Finite 30)] demo_testing (Some 26)
     = (Inr (Some (''flat'', ''stan-map''),
             Some \<lparr>trend = ''flat'', estimator = ''stan-map'', penalty = None\<rparr>), grid)
   \<and> (\<exists>i < length grid. \<exists>m v.
          score_config demo_library demo_training demo_x [Flt (Finite 30)] demo_testing (Some 26)
            (grid ! i) = Inr (m, v)
        \<and> Some (''flat'', ''stan-map'') = Some m
        \<and> Some \<lparr>trend = ''flat'', estimator = ''stan-map'', penalty = None\<rparr> = Some (grid ! i)
        \<and> (\<forall>j < length grid. \<forall>m' v'.
              score_config demo_library demo_training demo_x [Flt (Finite 30)] demo_testing (Some 26)
                (grid ! j) = Inr (m', v') \<longrightarrow> v' \<noteq> NaN \<longrightarrow> flt_le v v')
        \<and> (\<forall>j < i. \<forall>m' v'.
              score_config demo_library demo_training demo_x [Flt (Finite 30)] demo_testing (Some 26)
                (grid ! j) = Inr (m', v') \<longrightarrow> \<not> flt_le v' v))"
proof -
  have ret: "hypertune_dlt_model demo_library demo_training [Flt (Finite 10), Flt (Finite 20)] demo_x
       [Flt (Finite 30)] demo_testing (Some 26)
     = (Inr (Some (''flat'', ''stan-map''),
             Some \<lparr>trend = ''flat'', estimator = ''stan-map'', penalty = None\<rparr>), grid)"
    unfolding demo_testing_def by (rule demo_hypertune)
  have "grid ! 16 \<in> set grid" by (simp add: length_grid)
  moreover have "score_config demo_library demo_training demo_x [Flt (Finite 30)] demo_testing
      (Some 26) (grid ! 16) = Inr ((''flat'', ''stan-map''), Finite 1)"
    unfolding demo_testing_def by (simp add: demo_score demo_grid_16)
  ultimately have some: "\<exists>c \<in> set grid. \<exists>m v.
      score_config demo_library demo_training demo_x [Flt (Finite 30)] demo_testing (Some 26) c
        = Inr (m, v) \<and> flt_less v PosInf"
    by (intro bexI[of _ "grid ! 16"] exI[of _ "(''flat'', ''stan-map'')"] exI[of _ "Finite 1"]) simp_all
  from hypertune_returns_first_minimum[OF ret some] ret show ?thesis by simp
qed

text \<open>
  C1 as stated fails: when every score is infinite, no score is below the initial
  \<^verbatim>\<open>best_mae\<close>, and the function returns \<^verbatim>\<open>(None, None)\<close> after all 32 combinations,
  which is no combination of the grid.
\<close>

theorem hypertune_all_infinite_counterexample:
  "hypertune_dlt_model inf_library demo_training [Flt (Finite 10), Flt (Finite 20)] demo_x
       [Flt (Finite 30)] demo_testing (Some 26) = (Inr (None, None), grid)"
  by (rule inf_hypertune)

section \<open>Claims about the search, continued\<close>

text \<open>
  C2, as amended. A call of \<open>hypertune_dlt_model\<close> that returns has fitted and scored
  exactly the 4 x 2 x 4 = 32 combinations of the grid, each once and in the order of the
  loops, whatever the earlier scores were; a call that raises has fitted and scored the
  combinations before the first one at which a library call raised, and no other.
\<close>

theorem hypertune_evaluates_whole_grid:
  "(hypertune_dlt_model L training_df y_train x_train y_test testing_df seasonality = (Inr r, ev)
      \<longrightarrow> ev = grid \<and> length ev = 4 * 2 * 4 \<and> distinct ev
          \<and> set ev = {\<lparr>trend = tr, estimator = es, penalty = pen\<rparr> | tr es pen.
                         tr \<in> set trend_options \<and> es \<in> set estimators \<and> pen \<in> set penalties}
          \<and> (\<forall>c \<in> set grid. \<exists>m v.
                 score_config L training_df x_train y_test testing_df seasonality c = Inr (m, v)))
   \<and> (hypertune_dlt_model L training_df y_train x_train y_test testing_df seasonality = (Inl e, ev)
      \<longrightarrow> (\<exists>k < length grid. ev = take k grid
            \<and> score_config L training_df x_train y_test testing_df seasonality (grid ! k) = Inl e
            \<and> (\<forall>j < k. \<exists>m v.
                  score_config L training_df x_train y_test testing_df seasonality (grid ! j)
                    = Inr (m, v))))"
proof (intro conjI impI)
  let ?f = "score_config L training_df x_train y_test testing_df seasonality"
  let ?init = "\<lparr>best_mae = PosInf, best_model = None, best_config = None, evaluated = []\<rparr>
                 :: 'a search"
  {
    assume ret: "hypertune_dlt_model L training_df y_train x_train y_test testing_df seasonality
                   = (Inr r, ev)"
    obtain bm bc where r: "r = (bm, bc)" by (cases r)
    from hypertune_returns[OF ret[unfolded r]] obtain s where
      run: "run_combos ?f grid ?init = (s, None)" and ev: "ev = evaluated s" by blast
    from run_combos_done[OF run] ev
    have all: "ev = grid" "\<forall>c \<in> set grid. \<exists>m v. ?f c = Inr (m, v)" by simp_all
    show "ev = grid" by (rule all(1))
    show "length ev = 4 * 2 * 4" using all(1) by (simp add: length_grid)
    show "distinct ev" using all(1) by (simp add: distinct_grid)
    show "set ev = {\<lparr>trend = tr, estimator = es, penalty = pen\<rparr> | tr es pen.
                         tr \<in> set trend_options \<and> es \<in> set estimators \<and> pen \<in> set penalties}"
      using all(1) by (simp add: set_grid)
    show "\<forall>c \<in> set grid. \<exists>m v. ?f c = Inr (m, v)" by (rule all(2))
  }
  {
    assume exc: "hypertune_dlt_model L training_df y_train x_train y_test testing_df seasonality
                   = (Inl e, ev)"
    from hypertune_raises[OF exc] obtain s where
      run: "run_combos ?f grid ?init = (s, Some e)" and ev: "ev = evaluated s" by blast
    from run_combos_raised[OF run] ev
    show "\<exists>k < length grid. ev = take k grid \<and> ?f (grid ! k) = Inl e
            \<and> (\<forall>j < k. \<exists>m v. ?f (grid ! j) = Inr (m, v))"
      by auto
  }
qed

text \<open>
  Two instances of C2 as amended: the small library, where the call returns after the
  whole grid, and the library whose \<open>fit\<close> raises, where it ends at the first combination.
\<close>

theorem hypertune_evaluates_whole_grid_witness:
  "hypertune_dlt_model demo_library demo_training [Flt (Finite 10), Flt (Finite 20)] demo_x
       [Flt (Finite 30)] demo_testing (Some 26)
     = (Inr (Some (''flat'', ''stan-map''),
             Some \<lparr>trend = ''flat'', estimator = ''stan-map'', penalty = None\<rparr>), grid)
   \<and> length grid = 4 * 2 * 4 \<and> distinct grid
   \<and> hypertune_dlt_model failing_fit_library demo_training [Flt (Finite 10), Flt (Finite 20)]
        demo_x [Flt (Finite 30)] demo_testing (Some 26) = (Inl (LibraryError ''fit''), [])
   \<and> (\<exists>k < length grid. [] = take k grid
        \<and> score_config failing_fit_library demo_training demo_x [Flt (Finite 30)] demo_testing
            (Some 26) (grid ! k) = Inl (LibraryError ''fit''))"
proof -
  have ret: "hypertune_dlt_model demo_library demo_training [Flt (Finite 10), Flt (Finite 20)] demo_x
       [Flt (Finite 30)] demo_testing (Some 26)
     = (Inr (Some (''flat'', ''stan-map''),
             Some \<lparr>trend = ''flat'', estimator = ''stan-map'', penalty = None\<rparr>), grid)"
    unfolding demo_testing_def by (rule demo_hypertune)
  have exc: "hypertune_dlt_model failing_fit_library demo_training [Flt (Finite 10), Flt (Finite 20)]
        demo_x [Flt (Finite 30)] demo_testing (Some 26) = (Inl (LibraryError ''fit''), [])"
    by (rule failing_fit_hypertune)
  from hypertune_evaluates_whole_grid[of demo_library demo_training
         "[Flt (Finite 10), Flt (Finite 20)]" demo_x "[Flt (Finite 30)]" demo_testing "Some 26"
         "(Some (''flat'', ''stan-map''),
             Some \<lparr>trend = ''flat'', estimator = ''stan-map'', penalty = None\<rparr>)" grid] ret
  have a: "length grid = 4 * 2 * 4 \<and> distinct grid" by blast
  from hypertune_evaluates_whole_grid[of failing_fit_library demo_training
         "[Flt (Finite 10), Flt (Finite 20)]" demo_x "[Flt (Finite 30)]" demo_testing "Some 26"
         _ "[]" "LibraryError ''fit''"] exc
  have b: "\<exists>k < length grid. [] = take k grid
        \<and> score_config failing_fit_library demo_training demo_x [Flt (Finite 30)] demo_testing
            (Some 26) (grid ! k) = Inl (LibraryError ''fit'')" by blast
  from ret exc a b show ?thesis by blast
qed

text \<open>
  C2 as stated fails: with a \<open>fit\<close> that raises, no combination is fitted and scored,
  not 32.
\<close>

theorem hypertune_fit_raises_counterexample:
  "hypertune_dlt_model failing_fit_library demo_training [Flt (Finite 10), Flt (Finite 20)]
        demo_x [Flt (Finite 30)] demo_testing (Some 26) = (Inl (LibraryError ''fit''), [])
   \<and> length ([] :: config list) \<noteq> 32"
  by (simp add: failing_fit_hypertune)

lemma hypertune_kept:
  assumes ret: "hypertune_dlt_model L training_df y_train x_train y_test testing_df seasonality
                  = (Inr (bm, bc), ev)"
  shows "(bc = None \<longrightarrow> bm = None \<and> (\<forall>c \<in> set grid. \<forall>m v.
            score_config L training_df x_train y_test testing_df seasonality c = Inr (m, v)
              \<longrightarrow> \<not> flt_less v PosInf))
       \<and> (bc \<noteq> None \<longrightarrow> bm \<noteq> None \<and> (\<exists>c \<in> set grid. \<exists>m v.
            score_config L training_df x_train y_test testing_df seasonality c = Inr (m, v)
              \<and> flt_less v PosInf))"
proof -
  let ?f = "score_config L training_df x_train y_test testing_df seasonality"
  from hypertune_returns[OF ret] obtain s where
    run: "run_combos ?f grid
            \<lparr>best_mae = PosInf, best_model = None, best_config = None, evaluated = []\<rparr> = (s, None)"
    and bm: "bm = best_model s" and bc: "bc = best_config s" by blast
  from selected_run[OF run selected_init] have sel: "selected ?f grid s" by simp
  show ?thesis
  proof (cases "best_config s")
    case None
    with sel bm bc show ?thesis by (auto simp: selected_def in_set_conv_nth)
  next
    case (Some c)
    with sel obtain i m v where "i < length grid" "grid ! i = c" "?f c = Inr (m, v)"
      "best_model s = Some m" "flt_less v PosInf"
      by (auto simp: selected_def)
    then have "c \<in> set grid" "?f c = Inr (m, v)" "best_model s = Some m"
      "flt_less v PosInf" by (auto simp: in_set_conv_nth)
    then have "bm \<noteq> None" "\<exists>c \<in> set grid. \<exists>m v. ?f c = Inr (m, v) \<and> flt_less v PosInf"
      using bm by auto
    with Some bc show ?thesis by simp
  qed
qed

lemma trigger_prediction_unfold:
  "trigger_prediction L fs df_path project_name periodicity seasonality =
     (case load_frame L fs df_path of
        Inl e \<Rightarrow> (Inl e, fs)
      | Inr df \<Rightarrow>
     (case split_variables (fst (train_test_split df)) (snd (train_test_split df)) of
        Inl e \<Rightarrow> (Inl e, fs)
      | Inr (y_train, x_train, y_test, x_test) \<Rightarrow>
     (case fst (hypertune_dlt_model L (fst (train_test_split df)) y_train x_train y_test
                  (snd (train_test_split df)) seasonality) of
        Inl e \<Rightarrow> (Inl e, fs)
      | Inr (bm, bc) \<Rightarrow>
     (case final_result L bm bc (snd (train_test_split df)) y_test project_name of
        Inl e \<Rightarrow> (Inl e, fs)
      | Inr d \<Rightarrow>
     (case save_result L fs periodicity d of
        (Some e, fs') \<Rightarrow> (Inl e, fs')
      | (None, fs') \<Rightarrow> (Inr d, fs'))))))"
  by (auto simp: trigger_prediction_def split: sum.splits prod.splits option.splits)

lemma hypertune_all_succeed:
  assumes "\<forall>c \<in> set grid. \<exists>m v.
             score_config L training_df x_train y_test testing_df seasonality c = Inr (m, v)"
  shows "\<exists>bm bc. hypertune_dlt_model L training_df y_train x_train y_test testing_df seasonality
           = (Inr (bm, bc), grid)"
proof -
  from run_combos_total[OF assms] obtain s where
    run: "run_combos (score_config L training_df x_train y_test testing_df seasonality) grid
            \<lparr>best_mae = PosInf, best_model = None, best_config = None, evaluated = []\<rparr> = (s, None)"
    by blast
  from run_combos_done[OF run] have "evaluated s = grid" by simp
  with run show ?thesis by (simp add: hypertune_flat)
qed

text \<open>
  C9. When \<open>hypertune_dlt_model\<close> returns, the model and the configuration are both kept
  or both \<^verbatim>\<open>None\<close>, and they are kept if and only if some combination of the grid has a
  score below infinity. When every score is NaN it returns \<^verbatim>\<open>(None, None)\<close>, and a call
  of \<open>trigger_prediction\<close> whose search returns \<^verbatim>\<open>None\<close> raises AttributeError at
  \<^verbatim>\<open>best_model.predict\<close> and writes nothing.
\<close>

theorem hypertune_none_iff_no_comparable_mae:
  "(hypertune_dlt_model L training_df y_train x_train y_test testing_df seasonality
       = (Inr (bm, bc), ev)
      \<longrightarrow> ((bm \<noteq> None \<and> bc \<noteq> None) \<longleftrightarrow>
             (\<exists>c \<in> set grid. \<exists>m v.
                 score_config L training_df x_train y_test testing_df seasonality c = Inr (m, v)
               \<and> flt_less v PosInf))
          \<and> (bm = None \<longleftrightarrow> bc = None))
   \<and> ((\<forall>c \<in> set grid. \<exists>m.
          score_config L training_df x_train y_test testing_df seasonality c = Inr (m, NaN))
      \<longrightarrow> hypertune_dlt_model L training_df y_train x_train y_test testing_df seasonality
            = (Inr (None, None), grid))
   \<and> (load_frame L fs df_path = Inr df
        \<and> split_variables (fst (train_test_split df)) (snd (train_test_split df))
            = Inr (ys, xs, yt, xt)
        \<and> fst (hypertune_dlt_model L (fst (train_test_split df)) ys xs yt
                 (snd (train_test_split df)) seasonality) = Inr (None, None)
      \<longrightarrow> trigger_prediction L fs df_path project_name periodicity seasonality
            = (Inl AttributeError, fs))"
proof (intro conjI impI)
  let ?f = "score_config L training_df x_train y_test testing_df seasonality"
  {
    assume ret: "hypertune_dlt_model L training_df y_train x_train y_test testing_df seasonality
                   = (Inr (bm, bc), ev)"
    from hypertune_kept[OF ret]
    show "(bm \<noteq> None \<and> bc \<noteq> None) \<longleftrightarrow>
             (\<exists>c \<in> set grid. \<exists>m v. ?f c = Inr (m, v) \<and> flt_less v PosInf)"
      by (cases bc) auto
    from hypertune_kept[OF ret] show "bm = None \<longleftrightarrow> bc = None" by (cases bc) auto
  }
  {
    assume nan: "\<forall>c \<in> set grid. \<exists>m. ?f c = Inr (m, NaN)"
    then have "\<forall>c \<in> set grid. \<exists>m v. ?f c = Inr (m, v)" by blast
    from hypertune_all_succeed[OF this] obtain bm' bc' where
      ret: "hypertune_dlt_model L training_df y_train x_train y_test testing_df seasonality
              = (Inr (bm', bc'), grid)" by blast
    have "bc' = None"
    proof (rule ccontr)
      assume "bc' \<noteq> None"
      with hypertune_kept[OF ret] obtain c m v where
        "c \<in> set grid" "?f c = Inr (m, v)" "flt_less v PosInf" by blast
      with nan show False by auto
    qed
    with hypertune_kept[OF ret] ret
    show "hypertune_dlt_model L training_df y_train x_train y_test testing_df seasonality
            = (Inr (None, None), grid)" by simp
  }
  {
    assume "load_frame L fs df_path = Inr df
        \<and> split_variables (fst (train_test_split df)) (snd (train_test_split df))
            = Inr (ys, xs, yt, xt)
        \<and> fst (hypertune_dlt_model L (fst (train_test_split df)) ys xs yt
                 (snd (train_test_split df)) seasonality) = Inr (None, None)"
    then show "trigger_prediction L fs df_path project_name periodicity seasonality
            = (Inl AttributeError, fs)"
      by (simp add: trigger_prediction_unfold final_result_def)
  }
qed

section \<open>The small library, evaluated\<close>

lemma demo_assessment_dir:
  "DATA_PATH L = ''data'' \<Longrightarrow> assessment_dir L ''biweekly'' = ''data/ORBIT_ML/DLT_Result/biweekly''"
  by (simp add: assessment_dir_def os_path_join_def join_step_def)

lemma demo_ancestors:
  "ancestors ''data/ORBIT_ML/DLT_Result/biweekly''
     = [''data'', ''data/ORBIT_ML'', ''data/ORBIT_ML/DLT_Result'']"
  by code_simp

lemma demo_parse:
  "demo_parse_csv demo_lines =
     Inr \<lparr>columns = [''COMMIT_DATE'', ''SQALE_INDEX''],
          rows = [(\<lambda>c. Flt NaN)(''COMMIT_DATE'' := Txt ''2024-01-01'', ''SQALE_INDEX'' := Txt ''10''),
                  (\<lambda>c. Flt NaN)(''COMMIT_DATE'' := Txt ''2024-01-15'', ''SQALE_INDEX'' := Txt ''n/a''),
                  (\<lambda>c. Flt NaN)(''COMMIT_DATE'' := Txt ''2024-01-29'', ''SQALE_INDEX'' := Txt ''20''),
                  (\<lambda>c. Flt NaN)(''COMMIT_DATE'' := Flt NaN, ''SQALE_INDEX'' := Txt ''30''),
                  (\<lambda>c. Flt NaN)(''COMMIT_DATE'' := Txt ''2024-02-26'', ''SQALE_INDEX'' := Txt ''30'')]\<rparr>"
  by (simp add: demo_parse_csv_def demo_lines_def fun_eq_iff)

lemma demo_load_frame:
  assumes "parse_csv L = demo_parse_csv" "datetime_of L = demo_datetime_of"
    "numeric_of L = demo_numeric_of" "fs p = Some (File demo_lines)"
  shows "load_frame L fs p = Inr demo_frame"
  using assms
  by (simp add: load_frame_def read_csv_def demo_parse get_col_def set_col_def
        to_datetime_def to_numeric_coerce_def isna_def demo_datetime_of_def demo_numeric_of_def
        dropna_def row_has_na_def demo_frame_def demo_row_def fun_eq_iff)

section \<open>The split point\<close>

lemma split_point_eq: "split_point n = (4 * n + 2) div 5"
proof -
  define q where "q = (4 * n) div 5"
  define r where "r = (4 * n) mod 5"
  have n4: "4 * n = 5 * q + r" and r5: "r < 5" by (simp_all add: q_def r_def)
  have x: "real n * 0.8 = real q + real r / 5"
  proof -
    have "real n * 0.8 = real (4 * n) / 5" by simp
    also have "\<dots> = real (5 * q + r) / 5" by (simp only: n4)
    also have "\<dots> = real q + real r / 5" by (simp add: add_divide_distrib)
    finally show ?thesis .
  qed
  have fl: "\<lfloor>real q + real r / 5\<rfloor> = int q"
  proof -
    have "0 \<le> real r / 5" "real r / 5 < 1" using r5 by simp_all
    then show ?thesis by (simp add: floor_unique)
  qed
  have res: "(4 * n + 2) div 5 = (if r \<le> 2 then q else q + 1)"
    using n4 r5 by auto
  consider "r = 0" | "r = 1" | "r = 2" | "r = 3" | "r = 4" using r5 by linarith
  then have pr: "py_round (real q + real r / 5) = int (if r \<le> 2 then q else q + 1)"
    by cases (simp_all add: py_round_def Let_def fl)
  have "split_point n = nat (py_round (real q + real r / 5))"
    unfolding split_point_def x ..
  also have "\<dots> = (if r \<le> 2 then q else q + 1)"
    unfolding pr by (rule nat_int)
  also have "\<dots> = (4 * n + 2) div 5"
    unfolding res ..
  finally show ?thesis .
qed

section \<open>Directories, files and the stages of trigger_prediction\<close>

lemma fold_mkdir:
  "fold (\<lambda>d f. f(d \<mapsto> Dir)) ds fs x = (if x \<in> set ds then Some Dir else fs x)"
  by (induction ds arbitrary: fs) auto

lemma makedirs_lookup:
  "makedirs fs p = Inr fs1 \<Longrightarrow>
     fs1 x = (if x \<in> set (ancestors p) \<or> x = p then Some Dir else fs x)"
  by (auto simp: makedirs_def fold_mkdir split: if_splits)

lemma makedirs_no_file:
  "makedirs fs p = Inr fs1 \<Longrightarrow> x \<in> set (ancestors p) \<or> x = p \<Longrightarrow> \<not> isfile fs x"
  by (auto simp: makedirs_def split: if_splits)

lemma makedirs_isfile:
  assumes "makedirs fs p = Inr fs1"
  shows "isfile fs1 x = isfile fs x" and "isfile fs x \<Longrightarrow> fs1 x = fs x"
  using makedirs_lookup[OF assms, of x] makedirs_no_file[OF assms, of x]
  by (auto simp: isfile_def)

lemma makedirs_raises: "makedirs fs p = Inl e \<Longrightarrow> e = NotADirectoryError \<or> e = FileExistsError"
  by (auto simp: makedirs_def split: if_splits)

lemma ancestors_shorter: "a \<in> set (ancestors p) \<Longrightarrow> length a < length p"
  by (auto simp: ancestors_def)

lemma assessment_path_longer: "length (assessment_dir L q) < length (assessment_path L q)"
  by (simp add: assessment_path_def os_path_join_def join_step_def)

lemma makedirs_assessment_path:
  assumes "makedirs fs (assessment_dir L q) = Inr fs1"
  shows "fs1 (assessment_path L q) = fs (assessment_path L q)"
proof -
  have "assessment_path L q \<notin> set (ancestors (assessment_dir L q))"
    using ancestors_shorter[of "assessment_path L q" "assessment_dir L q"]
      assessment_path_longer[of L q] by auto
  moreover have "assessment_path L q \<noteq> assessment_dir L q"
    using assessment_path_longer[of L q] by auto
  ultimately show ?thesis using makedirs_lookup[OF assms, of "assessment_path L q"] by simp
qed

text \<open>What is in the assessment file before a call writes its row.\<close>

lemma save_result_success:
  assumes "save_result L fs periodicity d = (None, fs')"
  shows "\<exists>q fs1. periodicity = Some q \<and> makedirs fs (assessment_dir L q) = Inr fs1
           \<and> fs (assessment_path L q) \<noteq> Some Dir
           \<and> fs' = fs1(assessment_path L q \<mapsto>
                  File ((case fs (assessment_path L q) of
                           Some (File old) \<Rightarrow> old | _ \<Rightarrow> [csv_header d]) @ [csv_row L d]))"
proof -
  from assms obtain q where q: "periodicity = Some q"
    by (cases periodicity) (auto simp: save_result_def)
  from assms q obtain fs1 where mk: "makedirs fs (assessment_dir L q) = Inr fs1"
    by (cases "makedirs fs (assessment_dir L q)") (auto simp: save_result_def)
  note same = makedirs_assessment_path[OF mk]
  from assms q mk same have "fs (assessment_path L q) \<noteq> Some Dir"
    by (auto simp: save_result_def isfile_def to_csv_def)
  moreover from assms q mk same
  have "fs' = fs1(assessment_path L q \<mapsto>
                  File ((case fs (assessment_path L q) of
                           Some (File old) \<Rightarrow> old | _ \<Rightarrow> [csv_header d]) @ [csv_row L d]))"
    by (auto simp: save_result_def isfile_def to_csv_def Let_def
          split: option.splits node.splits if_splits)
  ultimately show ?thesis using q mk by blast
qed

lemma save_result_run:
  assumes "makedirs fs (assessment_dir L q) = Inr fs1" "fs (assessment_path L q) \<noteq> Some Dir"
  shows "save_result L fs (Some q) d =
           (None, fs1(assessment_path L q \<mapsto>
                  File ((case fs (assessment_path L q) of
                           Some (File old) \<Rightarrow> old | _ \<Rightarrow> [csv_header d]) @ [csv_row L d])))"
  using assms makedirs_assessment_path[OF assms(1)]
  by (auto simp: save_result_def isfile_def to_csv_def Let_def split: option.splits node.splits)

lemma save_result_raises_files:
  assumes "save_result L fs periodicity d = (Some e, fs')"
  shows "isfile fs' x = isfile fs x" and "isfile fs x \<Longrightarrow> fs' x = fs x"
  using assms makedirs_isfile[of fs _ _ x]
  by (auto simp: save_result_def split: option.splits sum.splits)

lemma final_result_success:
  assumes "final_result L bm bc testing_df y_test project_name = Inr d"
  shows "\<exists>m c predicted_df predicted mae mape_value mse rmse.
           bm = Some m \<and> bc = Some c
         \<and> predict L m testing_df = Inr predicted_df
         \<and> get_col predicted_df ''prediction'' = Inr predicted
         \<and> MAE L predicted y_test = Inr mae \<and> MAPE L predicted y_test = Inr mape_value
         \<and> MSE L predicted y_test = Inr mse \<and> RMSE L predicted y_test = Inr rmse
         \<and> d = [(''Project'', Str project_name),
                (''Model'', Str ''DLT''),
                (''Trend'', Str (trend c)),
                (''Estimator'', Str (estimator c)),
                (''Penalty'', (case penalty c of None \<Rightarrow> PyNone | Some p \<Rightarrow> Float (Finite p))),
                (''MAE'', Float (round2 L mae)),
                (''MAPE'', Float (round2 L mape_value)),
                (''RMSE'', Float (round2 L rmse)),
                (''MSE'', Float (round2 L mse))]"
  using assms by (auto simp: final_result_def split: option.splits sum.splits)

lemma trigger_prediction_success:
  assumes "trigger_prediction L fs df_path project_name periodicity seasonality = (Inr d, fs')"
  shows "\<exists>df y_train x_train y_test x_test bm bc.
           load_frame L fs df_path = Inr df
         \<and> split_variables (fst (train_test_split df)) (snd (train_test_split df))
             = Inr (y_train, x_train, y_test, x_test)
         \<and> fst (hypertune_dlt_model L (fst (train_test_split df)) y_train x_train y_test
                  (snd (train_test_split df)) seasonality) = Inr (bm, bc)
         \<and> final_result L bm bc (snd (train_test_split df)) y_test project_name = Inr d
         \<and> save_result L fs periodicity d = (None, fs')"
  using assms
  by (auto simp: trigger_prediction_unfold split: sum.splits prod.splits option.splits)

lemma trigger_prediction_raises_files:
  assumes "trigger_prediction L fs df_path project_name periodicity seasonality = (Inl e, fs')"
  shows "isfile fs' x = isfile fs x" and "isfile fs x \<Longrightarrow> fs' x = fs x"
  using assms save_result_raises_files[of L fs periodicity _ _ fs' x]
  by (auto simp: trigger_prediction_unfold split: sum.splits prod.splits option.splits)

section \<open>Claims about trigger_prediction\<close>

lemma demo_split: "train_test_split demo_frame = (demo_training, demo_testing)"
  by (simp add: train_test_split_def split_point_eq len_def demo_frame_def demo_training_def
        demo_testing_def iloc_to_def iloc_from_def)

lemma demo_variables:
  "split_variables demo_training demo_testing
     = Inr ([Flt (Finite 10), Flt (Finite 20)], demo_x, [Flt (Finite 30)], demo_xt)"
  by (simp add: split_variables_def get_col_def drop_columns_def demo_training_def
        demo_testing_def demo_x_def demo_xt_def demo_row_def)

lemma demo_final_result:
  "final_result demo_library (Some (''flat'', ''stan-map''))
       (Some \<lparr>trend = ''flat'', estimator = ''stan-map'', penalty = None\<rparr>)
       demo_testing [Flt (Finite 30)] project_name = Inr (demo_result project_name)"
  by (simp add: final_result_def demo_library_def demo_predict_def demo_testing_def get_col_def
        demo_error_def demo_result_def)

lemma demo_prepared:
  assumes "fs p = Some (File demo_lines)"
  shows "load_frame demo_library fs p = Inr demo_frame"
    and "load_frame nan_library fs p = Inr demo_frame"
    and "load_frame failing_fit_library fs p = Inr demo_frame"
    and "load_frame failing_predict_library fs p = Inr demo_frame"
  using assms
  by (simp_all add: demo_load_frame demo_library_def nan_library_def failing_fit_library_def
        failing_predict_library_def)

lemma demo_trigger:
  assumes "fs p = Some (File demo_lines)"
    and "makedirs fs (assessment_dir demo_library q) = Inr fs1"
    and "fs (assessment_path demo_library q) \<noteq> Some Dir"
  shows "trigger_prediction demo_library fs p project_name (Some q) seasonality =
           (Inr (demo_result project_name),
            fs1(assessment_path demo_library q \<mapsto>
                  File ((case fs (assessment_path demo_library q) of
                           Some (File old) \<Rightarrow> old | _ \<Rightarrow> [csv_header (demo_result project_name)])
                        @ [csv_row demo_library (demo_result project_name)])))"
proof -
  have h: "hypertune_dlt_model demo_library demo_training [Flt (Finite 10), Flt (Finite 20)] demo_x
       [Flt (Finite 30)] demo_testing seasonality
     = (Inr (Some (''flat'', ''stan-map''),
             Some \<lparr>trend = ''flat'', estimator = ''stan-map'', penalty = None\<rparr>), grid)"
    unfolding demo_testing_def by (rule demo_hypertune)
  show ?thesis
    by (simp add: trigger_prediction_unfold demo_prepared(1)[of fs p, OF assms(1)] demo_split
          demo_variables h demo_final_result save_result_run[OF assms(2,3)])
qed

lemma demo_fs_biweekly: "demo_fs ''data/biweekly_data_1/ant.csv'' = Some (File demo_lines)"
  by (simp add: demo_fs_def)

text \<open>
  C3. The training frame is the first \<open>round(len(df) * 0.8)\<close> rows of the frame and the
  testing frame is the rest: the two have the columns of the frame, keep the order of its
  rows, share no position, and their lengths add up to its length. The split point is the
  integer nearest to four fifths of the length.
\<close>

theorem train_test_split_partition:
  "rows (fst (train_test_split df)) = take (split_point (len df)) (rows df)
   \<and> rows (snd (train_test_split df)) = drop (split_point (len df)) (rows df)
   \<and> split_point (len df) = nat (py_round (real (len df) * 0.8))
   \<and> split_point (len df) = (4 * len df + 2) div 5
   \<and> len (fst (train_test_split df)) = split_point (len df)
   \<and> len (fst (train_test_split df)) + len (snd (train_test_split df)) = len df
   \<and> rows (fst (train_test_split df)) @ rows (snd (train_test_split df)) = rows df
   \<and> columns (fst (train_test_split df)) = columns df
   \<and> columns (snd (train_test_split df)) = columns df
   \<and> (\<forall>i < len (fst (train_test_split df)). rows (fst (train_test_split df)) ! i = rows df ! i)
   \<and> (\<forall>j < len (snd (train_test_split df)).
         rows (snd (train_test_split df)) ! j = rows df ! (len (fst (train_test_split df)) + j))"
proof -
  have le: "split_point (len df) \<le> length (rows df)"
    by (simp add: split_point_eq len_def)
  then have m: "min (length (rows df)) (split_point (len df)) = split_point (len df)" by simp
  have a: "split_point (len df) = nat (py_round (real (len df) * 0.8))"
    by (rule split_point_def)
  have b: "split_point (len df) = (4 * len df + 2) div 5"
    by (rule split_point_eq)
  have c: "rows (fst (train_test_split df)) = take (split_point (len df)) (rows df)"
    "rows (snd (train_test_split df)) = drop (split_point (len df)) (rows df)"
    "columns (fst (train_test_split df)) = columns df"
    "columns (snd (train_test_split df)) = columns df"
    by (simp_all add: train_test_split_def iloc_to_def iloc_from_def)
  have d: "len (fst (train_test_split df)) = split_point (len df)"
    "len (fst (train_test_split df)) + len (snd (train_test_split df)) = len df"
    using le by (simp_all add: len_def c m)
  have e: "rows (fst (train_test_split df)) @ rows (snd (train_test_split df)) = rows df"
    by (simp add: c)
  have f: "\<forall>i < len (fst (train_test_split df)). rows (fst (train_test_split df)) ! i = rows df ! i"
    by (simp add: len_def c)
  have g: "\<forall>j < len (snd (train_test_split df)).
         rows (snd (train_test_split df)) ! j = rows df ! (len (fst (train_test_split df)) + j)"
    using le by (simp add: len_def c m)
  from a b c d e f g show ?thesis by blast
qed

text \<open>An instance of C3: three rows are split into two and one.\<close>

theorem train_test_split_partition_witness:
  "train_test_split demo_frame = (demo_training, demo_testing)
   \<and> split_point (len demo_frame) = 2 \<and> len demo_frame = 3
   \<and> len demo_training = 2 \<and> len demo_testing = 1
   \<and> rows demo_training @ rows demo_testing = rows demo_frame
   \<and> rows demo_training ! 0 = rows demo_frame ! 0
   \<and> rows demo_training ! 1 = rows demo_frame ! 1
   \<and> rows demo_testing ! 0 = rows demo_frame ! 2"
proof -
  have "rows (fst (train_test_split demo_frame)) @ rows (snd (train_test_split demo_frame))
          = rows demo_frame"
    using train_test_split_partition[of demo_frame] by blast
  then have "rows demo_training @ rows demo_testing = rows demo_frame"
    by (simp add: demo_split)
  moreover have "split_point (len demo_frame) = 2" "len demo_frame = 3"
    by (simp_all add: split_point_eq len_def demo_frame_def)
  moreover have "len demo_training = 2" "len demo_testing = 1"
    "rows demo_training ! 0 = rows demo_frame ! 0"
    "rows demo_training ! 1 = rows demo_frame ! 1"
    "rows demo_testing ! 0 = rows demo_frame ! 2"
    by (simp_all add: len_def demo_frame_def demo_training_def demo_testing_def)
  ultimately show ?thesis using demo_split by simp
qed

text \<open>
  Instances of C9: the small library keeps a combination, the library whose score is
  always NaN keeps none and makes \<open>trigger_prediction\<close> raise AttributeError.
\<close>

theorem hypertune_none_iff_no_comparable_mae_witness:
  "hypertune_dlt_model demo_library demo_training [Flt (Finite 10), Flt (Finite 20)] demo_x
       [Flt (Finite 30)] demo_testing (Some 26)
     = (Inr (Some (''flat'', ''stan-map''),
             Some \<lparr>trend = ''flat'', estimator = ''stan-map'', penalty = None\<rparr>), grid)
   \<and> (\<exists>c \<in> set grid. \<exists>m v.
          score_config demo_library demo_training demo_x [Flt (Finite 30)] demo_testing (Some 26) c
            = Inr (m, v) \<and> flt_less v PosInf)
   \<and> list_all (\<lambda>c. score_config nan_library demo_training demo_x [Flt (Finite 30)]
                      demo_testing (Some 26) c = Inr ((trend c, estimator c), NaN)) grid
   \<and> hypertune_dlt_model nan_library demo_training [Flt (Finite 10), Flt (Finite 20)] demo_x
        [Flt (Finite 30)] demo_testing (Some 26) = (Inr (None, None), grid)
   \<and> load_frame nan_library demo_fs ''data/biweekly_data_1/ant.csv'' = Inr demo_frame
   \<and> split_variables (fst (train_test_split demo_frame)) (snd (train_test_split demo_frame))
        = Inr ([Flt (Finite 10), Flt (Finite 20)], demo_x, [Flt (Finite 30)], demo_xt)
   \<and> trigger_prediction nan_library demo_fs ''data/biweekly_data_1/ant.csv'' ''ant''
        (Some ''biweekly'') (Some 26) = (Inl AttributeError, demo_fs)"
proof -
  have ret: "hypertune_dlt_model demo_library demo_training [Flt (Finite 10), Flt (Finite 20)]
       demo_x [Flt (Finite 30)] demo_testing (Some 26)
     = (Inr (Some (''flat'', ''stan-map''),
             Some \<lparr>trend = ''flat'', estimator = ''stan-map'', penalty = None\<rparr>), grid)"
    unfolding demo_testing_def by (rule demo_hypertune)
  have nan: "\<forall>c \<in> set grid. \<exists>m.
          score_config nan_library demo_training demo_x [Flt (Finite 30)] demo_testing (Some 26) c
            = Inr (m, NaN)"
    by (simp add: nan_score)
  have load: "load_frame nan_library demo_fs ''data/biweekly_data_1/ant.csv'' = Inr demo_frame"
    by (rule demo_prepared(2)[of demo_fs "''data/biweekly_data_1/ant.csv''", OF demo_fs_biweekly])
  have vars: "split_variables (fst (train_test_split demo_frame))
                (snd (train_test_split demo_frame))
        = Inr ([Flt (Finite 10), Flt (Finite 20)], demo_x, [Flt (Finite 30)], demo_xt)"
    by (simp add: demo_split demo_variables)
  have none: "fst (hypertune_dlt_model nan_library (fst (train_test_split demo_frame))
                 [Flt (Finite 10), Flt (Finite 20)] demo_x [Flt (Finite 30)]
                 (snd (train_test_split demo_frame)) (Some 26)) = Inr (None, None)"
    by (simp add: nan_hypertune)
  note a = hypertune_none_iff_no_comparable_mae[of demo_library demo_training
      "[Flt (Finite 10), Flt (Finite 20)]" demo_x "[Flt (Finite 30)]" demo_testing "Some 26"
      "Some (''flat'', ''stan-map'')"
      "Some \<lparr>trend = ''flat'', estimator = ''stan-map'', penalty = None\<rparr>" grid]
  note b = hypertune_none_iff_no_comparable_mae[of nan_library demo_training
      "[Flt (Finite 10), Flt (Finite 20)]" demo_x "[Flt (Finite 30)]" demo_testing "Some 26"
      _ _ _ demo_fs "''data/biweekly_data_1/ant.csv''" demo_frame
      "[Flt (Finite 10), Flt (Finite 20)]" demo_x "[Flt (Finite 30)]" demo_xt
      "''ant''" "Some ''biweekly''"]
  from a ret have 1: "\<exists>c \<in> set grid. \<exists>m v.
          score_config demo_library demo_training demo_x [Flt (Finite 30)] demo_testing (Some 26) c
            = Inr (m, v) \<and> flt_less v PosInf" by simp
  from b nan have 2: "hypertune_dlt_model nan_library demo_training
        [Flt (Finite 10), Flt (Finite 20)] demo_x
        [Flt (Finite 30)] demo_testing (Some 26) = (Inr (None, None), grid)" by blast
  from b load vars none have 3: "trigger_prediction nan_library demo_fs
        ''data/biweekly_data_1/ant.csv'' ''ant''
        (Some ''biweekly'') (Some 26) = (Inl AttributeError, demo_fs)" by blast
  have all: "list_all (\<lambda>c. score_config nan_library demo_training demo_x [Flt (Finite 30)]
                      demo_testing (Some 26) c = Inr ((trend c, estimator c), NaN)) grid"
    by (simp add: list_all_iff nan_score)
  from ret 1 all 2 load vars 3 show ?thesis by blast
qed

lemma run_combos_first_failure:
  "k < length cs \<Longrightarrow> f (cs ! k) = Inl e \<Longrightarrow> \<forall>j < k. \<exists>m v. f (cs ! j) = Inr (m, v) \<Longrightarrow>
     \<exists>s'. run_combos f cs s = (s', Some e)"
proof (induction cs arbitrary: k s)
  case Nil
  then show ?case by simp
next
  case (Cons c cs)
  show ?case
  proof (cases k)
    case 0
    with Cons.prems show ?thesis by simp
  next
    case (Suc k')
    with Cons.prems(3) obtain m v where fc: "f c = Inr (m, v)" by fastforce
    have "\<exists>s'. run_combos f cs (keep_better s c m v) = (s', Some e)"
    proof (rule Cons.IH)
      show "k' < length cs" using Cons.prems(1) Suc by simp
      show "f (cs ! k') = Inl e" using Cons.prems(2) Suc by simp
      show "\<forall>j < k'. \<exists>m v. f (cs ! j) = Inr (m, v)"
        using Cons.prems(3) Suc by fastforce
    qed
    with fc show ?thesis by simp
  qed
qed

lemma hypertune_first_failure:
  assumes "k < length grid"
    and "score_config L training_df x_train y_test testing_df seasonality (grid ! k) = Inl e"
    and "\<forall>j < k. \<exists>m v.
           score_config L training_df x_train y_test testing_df seasonality (grid ! j) = Inr (m, v)"
  shows "fst (hypertune_dlt_model L training_df y_train x_train y_test testing_df seasonality)
           = Inl e"
proof -
  from run_combos_first_failure[OF assms] obtain s' where
    "run_combos (score_config L training_df x_train y_test testing_df seasonality) grid
       \<lparr>best_mae = PosInf, best_model = None, best_config = None, evaluated = []\<rparr>
     = (s', Some e)" by blast
  then show ?thesis by (simp add: hypertune_flat)
qed

lemma load_frame_read_raises: "read_csv L fs df_path = Inl e \<Longrightarrow> load_frame L fs df_path = Inl e"
  by (simp add: load_frame_def)

text \<open>
  C7. An exception raised while the input file is read, or while a model of the search is
  fitted or predicts, is the exception \<open>trigger_prediction\<close> raises, and the file
  system is then as it was before the call: no assessment file is created or changed.
\<close>

theorem trigger_prediction_propagates:
  "(read_csv L fs df_path = Inl e
      \<longrightarrow> trigger_prediction L fs df_path project_name periodicity seasonality = (Inl e, fs))
   \<and> (load_frame L fs df_path = Inr df
        \<and> split_variables (fst (train_test_split df)) (snd (train_test_split df))
            = Inr (ys, xs, yt, xt)
        \<and> k < length grid
        \<and> (\<forall>j < k. \<exists>m v.
              score_config L (fst (train_test_split df)) xs yt (snd (train_test_split df))
                seasonality (grid ! j) = Inr (m, v))
        \<and> DLT L seasonality ''SQALE_INDEX'' ''COMMIT_DATE'' (estimator (grid ! k))
              (trend (grid ! k)) 8888 (columns xs) 1000
              (case penalty (grid ! k) of None \<Rightarrow> None
                 | Some p \<Rightarrow> Some (replicate (length (columns xs)) p)) = Inr model
        \<and> (fit L model (fst (train_test_split df)) = Inl e
             \<or> (\<exists>fitted. fit L model (fst (train_test_split df)) = Inr fitted
                   \<and> predict L fitted (snd (train_test_split df)) = Inl e))
      \<longrightarrow> trigger_prediction L fs df_path project_name periodicity seasonality = (Inl e, fs))"
proof (intro conjI impI)
  assume "read_csv L fs df_path = Inl e"
  then show "trigger_prediction L fs df_path project_name periodicity seasonality = (Inl e, fs)"
    by (simp add: trigger_prediction_unfold load_frame_read_raises)
next
  let ?tr = "fst (train_test_split df)" and ?te = "snd (train_test_split df)"
  assume h: "load_frame L fs df_path = Inr df
        \<and> split_variables ?tr ?te = Inr (ys, xs, yt, xt)
        \<and> k < length grid
        \<and> (\<forall>j < k. \<exists>m v. score_config L ?tr xs yt ?te seasonality (grid ! j) = Inr (m, v))
        \<and> DLT L seasonality ''SQALE_INDEX'' ''COMMIT_DATE'' (estimator (grid ! k))
              (trend (grid ! k)) 8888 (columns xs) 1000
              (case penalty (grid ! k) of None \<Rightarrow> None
                 | Some p \<Rightarrow> Some (replicate (length (columns xs)) p)) = Inr model
        \<and> (fit L model ?tr = Inl e
             \<or> (\<exists>fitted. fit L model ?tr = Inr fitted \<and> predict L fitted ?te = Inl e))"
  then have "score_config L ?tr xs yt ?te seasonality (grid ! k) = Inl e"
    by (auto simp: score_config_def fit_and_score_def)
  with h have "fst (hypertune_dlt_model L ?tr ys xs yt ?te seasonality) = Inl e"
    by (intro hypertune_first_failure[of k]) simp_all
  with h show "trigger_prediction L fs df_path project_name periodicity seasonality = (Inl e, fs)"
    by (simp add: trigger_prediction_unfold)
qed

section \<open>Claims about trigger_prediction, continued\<close>

lemma failing_prepared:
  "DLT failing_fit_library s r d es tr seed cols n sign = Inr (tr, es)"
  "fit failing_fit_library m df = Inl (LibraryError ''fit'')"
  "DLT failing_predict_library s r d es tr seed cols n sign = Inr (tr, es)"
  "fit failing_predict_library m df = Inr m"
  "predict failing_predict_library m df = Inl (LibraryError ''predict'')"
  by (simp_all add: failing_fit_library_def failing_predict_library_def demo_library_def)

lemma demo_grid_0:
  "grid ! 0 = \<lparr>trend = ''linear'', estimator = ''stan-map'', penalty = None\<rparr>"
  by (simp add: grid_eq)

text \<open>
  Three instances of C7: an input file that is not there, a \<open>fit\<close> that raises and a
  \<open>predict\<close> that raises; each time the exception is the outcome of the call and the
  file system is unchanged.
\<close>

theorem trigger_prediction_propagates_witness:
  "read_csv demo_library demo_fs ''data/biweekly_data_1/bee.csv'' = Inl FileNotFoundError
   \<and> trigger_prediction demo_library demo_fs ''data/biweekly_data_1/bee.csv'' ''bee''
        (Some ''biweekly'') (Some 26) = (Inl FileNotFoundError, demo_fs)
   \<and> fit failing_fit_library (''linear'', ''stan-map'') demo_training = Inl (LibraryError ''fit'')
   \<and> trigger_prediction failing_fit_library demo_fs ''data/biweekly_data_1/ant.csv'' ''ant''
        (Some ''biweekly'') (Some 26) = (Inl (LibraryError ''fit''), demo_fs)
   \<and> predict failing_predict_library (''linear'', ''stan-map'') demo_testing
        = Inl (LibraryError ''predict'')
   \<and> trigger_prediction failing_predict_library demo_fs ''data/biweekly_data_1/ant.csv'' ''ant''
        (Some ''biweekly'') (Some 26) = (Inl (LibraryError ''predict''), demo_fs)"
proof -
  have rd: "read_csv demo_library demo_fs ''data/biweekly_data_1/bee.csv'' = Inl FileNotFoundError"
    by (simp add: read_csv_def demo_fs_def)
  have vars: "split_variables (fst (train_test_split demo_frame))
                (snd (train_test_split demo_frame))
        = Inr ([Flt (Finite 10), Flt (Finite 20)], demo_x, [Flt (Finite 30)], demo_xt)"
    by (simp add: demo_split demo_variables)
  have k: "(0::nat) < length grid" by (simp add: length_grid)
  have tr: "fst (train_test_split demo_frame) = demo_training"
    "snd (train_test_split demo_frame) = demo_testing" by (simp_all add: demo_split)
  have 1: "trigger_prediction demo_library demo_fs ''data/biweekly_data_1/bee.csv'' ''bee''
        (Some ''biweekly'') (Some 26) = (Inl FileNotFoundError, demo_fs)"
    using trigger_prediction_propagates[where L = demo_library and fs = demo_fs
        and df_path = "''data/biweekly_data_1/bee.csv''" and e = FileNotFoundError] rd
    by blast
  have 2: "trigger_prediction failing_fit_library demo_fs ''data/biweekly_data_1/ant.csv'' ''ant''
        (Some ''biweekly'') (Some 26) = (Inl (LibraryError ''fit''), demo_fs)"
    using trigger_prediction_propagates[where L = failing_fit_library and fs = demo_fs
        and df_path = "''data/biweekly_data_1/ant.csv''" and e = "LibraryError ''fit''"
        and df = demo_frame and ys = "[Flt (Finite 10), Flt (Finite 20)]" and xs = demo_x
        and yt = "[Flt (Finite 30)]" and xt = demo_xt and k = 0
        and model = "(''linear'', ''stan-map'')" and seasonality = "Some 26"
        and project_name = "''ant''" and periodicity = "Some ''biweekly''"]
      demo_prepared(3)[of demo_fs "''data/biweekly_data_1/ant.csv''", OF demo_fs_biweekly]
      vars k
    by (simp add: failing_prepared demo_grid_0)
  have 3: "trigger_prediction failing_predict_library demo_fs ''data/biweekly_data_1/ant.csv''
        ''ant'' (Some ''biweekly'') (Some 26) = (Inl (LibraryError ''predict''), demo_fs)"
    using trigger_prediction_propagates[where L = failing_predict_library and fs = demo_fs
        and df_path = "''data/biweekly_data_1/ant.csv''" and e = "LibraryError ''predict''"
        and df = demo_frame and ys = "[Flt (Finite 10), Flt (Finite 20)]" and xs = demo_x
        and yt = "[Flt (Finite 30)]" and xt = demo_xt and k = 0
        and model = "(''linear'', ''stan-map'')" and seasonality = "Some 26"
        and project_name = "''ant''" and periodicity = "Some ''biweekly''"]
      demo_prepared(4)[of demo_fs "''data/biweekly_data_1/ant.csv''", OF demo_fs_biweekly]
      vars k
    by (simp add: failing_prepared demo_grid_0)
  from rd 1 2 3 show ?thesis by (simp add: failing_prepared)
qed

lemma save_result_other_files:
  assumes "save_result L fs (Some q) d = (None, fs')" "x \<noteq> assessment_path L q"
  shows "isfile fs' x = isfile fs x" and "isfile fs x \<Longrightarrow> fs' x = fs x"
proof -
  from save_result_success[OF assms(1)] obtain fs1 where
    mk: "makedirs fs (assessment_dir L q) = Inr fs1" and
    fs': "fs' = fs1(assessment_path L q \<mapsto>
                  File ((case fs (assessment_path L q) of
                           Some (File old) \<Rightarrow> old | _ \<Rightarrow> [csv_header d]) @ [csv_row L d]))"
    by auto
  from fs' assms(2) have "fs' x = fs1 x" by simp
  then show "isfile fs' x = isfile fs x" and "isfile fs x \<Longrightarrow> fs' x = fs x"
    using makedirs_isfile[OF mk, of x] by (simp_all add: isfile_def)
qed

text \<open>
  C4. A call of \<open>trigger_prediction\<close> that returns has a periodicity, and the dictionary
  it returns holds the project name, the model name \<^verbatim>\<open>DLT\<close>, the trend, estimator and
  penalty of the best configuration of the search, and the MAE, MAPE, RMSE and MSE of the
  best model's predictions for the testing frame against \<open>y_test\<close>, each passed through
  \<^verbatim>\<open>round(., 2)\<close>. The assessment file of that periodicity is, after the call, what it
  was before (or the header line, when it was not a file) followed by exactly one line,
  the row of that dictionary; no other file is created or changed.
\<close>

theorem trigger_prediction_records_row:
  assumes ok: "trigger_prediction L fs df_path project_name periodicity seasonality = (Inr d, fs')"
  shows "\<exists>q df y_train x_train y_test x_test model c ev predicted_df predicted
            mae mape_value mse rmse.
           periodicity = Some q
         \<and> load_frame L fs df_path = Inr df
         \<and> split_variables (fst (train_test_split df)) (snd (train_test_split df))
             = Inr (y_train, x_train, y_test, x_test)
         \<and> hypertune_dlt_model L (fst (train_test_split df)) y_train x_train y_test
             (snd (train_test_split df)) seasonality = (Inr (Some model, Some c), ev)
         \<and> predict L model (snd (train_test_split df)) = Inr predicted_df
         \<and> get_col predicted_df ''prediction'' = Inr predicted
         \<and> MAE L predicted y_test = Inr mae \<and> MAPE L predicted y_test = Inr mape_value
         \<and> MSE L predicted y_test = Inr mse \<and> RMSE L predicted y_test = Inr rmse
         \<and> d = [(''Project'', Str project_name),
                (''Model'', Str ''DLT''),
                (''Trend'', Str (trend c)),
                (''Estimator'', Str (estimator c)),
                (''Penalty'', (case penalty c of None \<Rightarrow> PyNone | Some p \<Rightarrow> Float (Finite p))),
                (''MAE'', Float (round2 L mae)),
                (''MAPE'', Float (round2 L mape_value)),
                (''RMSE'', Float (round2 L rmse)),
                (''MSE'', Float (round2 L mse))]
         \<and> csv_row L d = [project_name, ''DLT'', trend c, estimator c,
                (case penalty c of None \<Rightarrow> [] | Some p \<Rightarrow> csv_float L (Finite p)),
                csv_float L (round2 L mae), csv_float L (round2 L mape_value),
                csv_float L (round2 L rmse), csv_float L (round2 L mse)]
         \<and> fs' (assessment_path L q) =
              Some (File ((case fs (assessment_path L q) of
                             Some (File old) \<Rightarrow> old | _ \<Rightarrow> [csv_header d]) @ [csv_row L d]))
         \<and> (\<forall>x. x \<noteq> assessment_path L q \<longrightarrow>
                isfile fs' x = isfile fs x \<and> (isfile fs x \<longrightarrow> fs' x = fs x))"
proof -
  from trigger_prediction_success[OF ok] obtain df y_train x_train y_test x_test bm bc where
    load: "load_frame L fs df_path = Inr df"
    and vars: "split_variables (fst (train_test_split df)) (snd (train_test_split df))
             = Inr (y_train, x_train, y_test, x_test)"
    and tune: "fst (hypertune_dlt_model L (fst (train_test_split df)) y_train x_train y_test
                  (snd (train_test_split df)) seasonality) = Inr (bm, bc)"
    and fin: "final_result L bm bc (snd (train_test_split df)) y_test project_name = Inr d"
    and sav: "save_result L fs periodicity d = (None, fs')" by blast
  from final_result_success[OF fin] obtain model c predicted_df predicted mae mape_value mse rmse
    where m: "bm = Some model" "bc = Some c"
      and pr: "predict L model (snd (train_test_split df)) = Inr predicted_df"
        "get_col predicted_df ''prediction'' = Inr predicted"
      and me: "MAE L predicted y_test = Inr mae" "MAPE L predicted y_test = Inr mape_value"
        "MSE L predicted y_test = Inr mse" "RMSE L predicted y_test = Inr rmse"
      and d: "d = [(''Project'', Str project_name),
                (''Model'', Str ''DLT''),
                (''Trend'', Str (trend c)),
                (''Estimator'', Str (estimator c)),
                (''Penalty'', (case penalty c of None \<Rightarrow> PyNone | Some p \<Rightarrow> Float (Finite p))),
                (''MAE'', Float (round2 L mae)),
                (''MAPE'', Float (round2 L mape_value)),
                (''RMSE'', Float (round2 L rmse)),
                (''MSE'', Float (round2 L mse))]" by blast
  from save_result_success[OF sav] obtain q fs1 where q: "periodicity = Some q"
    and fs': "fs' = fs1(assessment_path L q \<mapsto>
                  File ((case fs (assessment_path L q) of
                           Some (File old) \<Rightarrow> old | _ \<Rightarrow> [csv_header d]) @ [csv_row L d]))"
    by blast
  define ev where "ev = snd (hypertune_dlt_model L (fst (train_test_split df)) y_train x_train
                  y_test (snd (train_test_split df)) seasonality)"
  have tune': "hypertune_dlt_model L (fst (train_test_split df)) y_train x_train y_test
             (snd (train_test_split df)) seasonality = (Inr (Some model, Some c), ev)"
    using tune m by (simp add: ev_def prod_eq_iff)
  have row: "csv_row L d = [project_name, ''DLT'', trend c, estimator c,
                (case penalty c of None \<Rightarrow> [] | Some p \<Rightarrow> csv_float L (Finite p)),
                csv_float L (round2 L mae), csv_float L (round2 L mape_value),
                csv_float L (round2 L rmse), csv_float L (round2 L mse)]"
    by (simp add: d csv_row_def csv_field_def split: option.splits)
  have written: "fs' (assessment_path L q) =
              Some (File ((case fs (assessment_path L q) of
                             Some (File old) \<Rightarrow> old | _ \<Rightarrow> [csv_header d]) @ [csv_row L d]))"
    by (simp add: fs')
  have others: "\<forall>x. x \<noteq> assessment_path L q \<longrightarrow>
                isfile fs' x = isfile fs x \<and> (isfile fs x \<longrightarrow> fs' x = fs x)"
    using save_result_other_files[OF sav[unfolded q]] by blast
  from q load vars tune' pr me d row written others show ?thesis by blast
qed

lemma demo_trigger_save:
  assumes "fs p = Some (File demo_lines)"
  shows "trigger_prediction demo_library fs p project_name (Some q) seasonality =
           (case save_result demo_library fs (Some q) (demo_result project_name) of
              (Some e, fs') \<Rightarrow> (Inl e, fs')
            | (None, fs') \<Rightarrow> (Inr (demo_result project_name), fs'))"
proof -
  have h: "hypertune_dlt_model demo_library demo_training [Flt (Finite 10), Flt (Finite 20)] demo_x
       [Flt (Finite 30)] demo_testing seasonality
     = (Inr (Some (''flat'', ''stan-map''),
             Some \<lparr>trend = ''flat'', estimator = ''stan-map'', penalty = None\<rparr>), grid)"
    unfolding demo_testing_def by (rule demo_hypertune)
  show ?thesis
    by (simp add: trigger_prediction_unfold demo_prepared(1)[of fs p, OF assms] demo_split
          demo_variables h demo_final_result)
qed

lemma demo_dirs:
  "assessment_dir demo_library ''biweekly'' = ''data/ORBIT_ML/DLT_Result/biweekly''"
  "assessment_dir demo_library ''monthly'' = ''data/ORBIT_ML/DLT_Result/monthly''"
  "assessment_dir demo_library ''complete'' = ''data/ORBIT_ML/DLT_Result/complete''"
  "assessment_path demo_library ''biweekly'' = ''data/ORBIT_ML/DLT_Result/biweekly/assessment.csv''"
  "assessment_path demo_library ''monthly'' = ''data/ORBIT_ML/DLT_Result/monthly/assessment.csv''"
  "assessment_path demo_library ''complete'' = ''data/ORBIT_ML/DLT_Result/complete/assessment.csv''"
  by (simp_all add: assessment_path_def assessment_dir_def os_path_join_def join_step_def
        demo_library_def)

lemma demo_ancestors_all:
  "ancestors ''data/ORBIT_ML/DLT_Result/biweekly''
     = [''data'', ''data/ORBIT_ML'', ''data/ORBIT_ML/DLT_Result'']"
  "ancestors ''data/ORBIT_ML/DLT_Result/monthly''
     = [''data'', ''data/ORBIT_ML'', ''data/ORBIT_ML/DLT_Result'']"
  "ancestors ''data/ORBIT_ML/DLT_Result/complete''
     = [''data'', ''data/ORBIT_ML'', ''data/ORBIT_ML/DLT_Result'']"
  by code_simp+

lemma demo_rows:
  "csv_header (demo_result project_name)
     = [''Project'', ''Model'', ''Trend'', ''Estimator'', ''Penalty'', ''MAE'', ''MAPE'', ''RMSE'', ''MSE'']"
  "csv_row demo_library (demo_result project_name)
     = [project_name, ''DLT'', ''flat'', ''stan-map'', [], ''1.0'', ''3.33'', ''1.0'', ''1.0'']"
  by (simp_all add: csv_header_def csv_row_def csv_field_def demo_result_def demo_library_def)

lemma demo_trigger_biweekly:
  "fst (trigger_prediction demo_library demo_fs ''data/biweekly_data_1/ant.csv'' ''ant''
          (Some ''biweekly'') (Some 26)) = Inr (demo_result ''ant'')"
  "snd (trigger_prediction demo_library demo_fs ''data/biweekly_data_1/ant.csv'' ''ant''
          (Some ''biweekly'') (Some 26)) ''data/ORBIT_ML/DLT_Result/biweekly/assessment.csv''
     = Some (File [[''Project'', ''Model'', ''Trend'', ''Estimator'', ''Penalty'', ''MAE'', ''MAPE'',
                    ''RMSE'', ''MSE''],
                   [''ant'', ''DLT'', ''flat'', ''stan-map'', [], ''1.0'', ''3.33'', ''1.0'', ''1.0'']])"
  by (simp_all add: demo_trigger_save[of demo_fs, OF demo_fs_biweekly] save_result_def demo_dirs
        makedirs_def demo_ancestors_all isfile_def to_csv_def demo_rows)
     (simp_all add: demo_fs_def)

text \<open>An instance of C4: the call for the project \<^verbatim>\<open>ant\<close> on the small library.\<close>

theorem trigger_prediction_records_row_witness:
  "fst (trigger_prediction demo_library demo_fs ''data/biweekly_data_1/ant.csv'' ''ant''
          (Some ''biweekly'') (Some 26)) = Inr (demo_result ''ant'')
   \<and> (\<exists>q df y_train x_train y_test x_test model c ev predicted_df predicted
            mae mape_value mse rmse.
           (Some ''biweekly'') = Some q
         \<and> load_frame demo_library demo_fs ''data/biweekly_data_1/ant.csv'' = Inr df
         \<and> split_variables (fst (train_test_split df)) (snd (train_test_split df))
             = Inr (y_train, x_train, y_test, x_test)
         \<and> hypertune_dlt_model demo_library (fst (train_test_split df)) y_train x_train y_test
             (snd (train_test_split df)) (Some 26) = (Inr (Some model, Some c), ev)
         \<and> predict demo_library model (snd (train_test_split df)) = Inr predicted_df
         \<and> get_col predicted_df ''prediction'' = Inr predicted
         \<and> MAE demo_library predicted y_test = Inr mae \<and> MAPE demo_library predicted y_test = Inr mape_value
         \<and> MSE demo_library predicted y_test = Inr mse \<and> RMSE demo_library predicted y_test = Inr rmse
         \<and> demo_result ''ant'' = [(''Project'', Str ''ant''),
                (''Model'', Str ''DLT''),
                (''Trend'', Str (trend c)),
                (''Estimator'', Str (estimator c)),
                (''Penalty'', (case penalty c of None \<Rightarrow> PyNone | Some p \<Rightarrow> Float (Finite p))),
                (''MAE'', Float (round2 demo_library mae)),
                (''MAPE'', Float (round2 demo_library mape_value)),
                (''RMSE'', Float (round2 demo_library rmse)),
                (''MSE'', Float (round2 demo_library mse))]
         \<and> csv_row demo_library (demo_result ''ant'') = [''ant'', ''DLT'', trend c, estimator c,
                (case penalty c of None \<Rightarrow> [] | Some p \<Rightarrow> csv_float demo_library (Finite p)),
                csv_float demo_library (round2 demo_library mae), csv_float demo_library (round2 demo_library mape_value),
                csv_float demo_library (round2 demo_library rmse), csv_float demo_library (round2 demo_library mse)]
         \<and> (snd (trigger_prediction demo_library demo_fs ''data/biweekly_data_1/ant.csv'' ''ant''
                (Some ''biweekly'') (Some 26))) (assessment_path demo_library q) =
              Some (File ((case demo_fs (assessment_path demo_library q) of
                             Some (File old) \<Rightarrow> old | _ \<Rightarrow> [csv_header (demo_result ''ant'')]) @ [csv_row demo_library (demo_result ''ant'')]))
         \<and> (\<forall>x. x \<noteq> assessment_path demo_library q \<longrightarrow>
                isfile (snd (trigger_prediction demo_library demo_fs ''data/biweekly_data_1/ant.csv'' ''ant''
                (Some ''biweekly'') (Some 26))) x = isfile demo_fs x \<and> (isfile demo_fs x \<longrightarrow> (snd (trigger_prediction demo_library demo_fs ''data/biweekly_data_1/ant.csv'' ''ant''
                (Some ''biweekly'') (Some 26))) x = demo_fs x)))"
proof -
  let ?call = "trigger_prediction demo_library demo_fs ''data/biweekly_data_1/ant.csv'' ''ant''
                 (Some ''biweekly'') (Some 26)"
  have ok: "?call = (Inr (demo_result ''ant''), snd ?call)"
    by (simp add: prod_eq_iff demo_trigger_biweekly(1))
  show ?thesis
    by (rule conjI[OF demo_trigger_biweekly(1) trigger_prediction_records_row[OF ok]])
qed

lemma trigger_prediction_written:
  assumes ok: "trigger_prediction L fs df_path project_name periodicity seasonality = (Inr d, fs')"
  obtains q and c :: config and mae mape_value mse rmse where
    "periodicity = Some q"
    "d = [(''Project'', Str project_name),
          (''Model'', Str ''DLT''),
          (''Trend'', Str (trend c)),
          (''Estimator'', Str (estimator c)),
          (''Penalty'', (case penalty c of None \<Rightarrow> PyNone | Some p \<Rightarrow> Float (Finite p))),
          (''MAE'', Float (round2 L mae)),
          (''MAPE'', Float (round2 L mape_value)),
          (''RMSE'', Float (round2 L rmse)),
          (''MSE'', Float (round2 L mse))]"
    "fs' (assessment_path L q) =
       Some (File ((case fs (assessment_path L q) of
                      Some (File old) \<Rightarrow> old | _ \<Rightarrow> [csv_header d]) @ [csv_row L d]))"
proof -
  from trigger_prediction_success[OF ok] obtain df y_train x_train y_test x_test bm bc where
    fin: "final_result L bm bc (snd (train_test_split df)) y_test project_name = Inr d"
    and sav: "save_result L fs periodicity d = (None, fs')" by blast
  from final_result_success[OF fin] obtain model c predicted_df predicted mae mape_value mse rmse
    where m: "bm = Some model" "bc = Some c"
      and pr: "predict L model (snd (train_test_split df)) = Inr predicted_df"
        "get_col predicted_df ''prediction'' = Inr predicted"
      and me: "MAE L predicted y_test = Inr mae" "MAPE L predicted y_test = Inr mape_value"
        "MSE L predicted y_test = Inr mse" "RMSE L predicted y_test = Inr rmse"
      and d: "d = [(''Project'', Str project_name),
          (''Model'', Str ''DLT''),
          (''Trend'', Str (trend c)),
          (''Estimator'', Str (estimator c)),
          (''Penalty'', (case penalty c of None \<Rightarrow> PyNone | Some p \<Rightarrow> Float (Finite p))),
          (''MAE'', Float (round2 L mae)),
          (''MAPE'', Float (round2 L mape_value)),
          (''RMSE'', Float (round2 L rmse)),
          (''MSE'', Float (round2 L mse))]" by blast
  from save_result_success[OF sav] obtain q fs1 where q: "periodicity = Some q"
    and fs': "fs' = fs1(assessment_path L q \<mapsto>
                  File ((case fs (assessment_path L q) of
                           Some (File old) \<Rightarrow> old | _ \<Rightarrow> [csv_header d]) @ [csv_row L d]))"
    by blast
  from fs' have w: "fs' (assessment_path L q) =
       Some (File ((case fs (assessment_path L q) of
                      Some (File old) \<Rightarrow> old | _ \<Rightarrow> [csv_header d]) @ [csv_row L d]))"
    by simp
  show thesis by (rule that[OF q d w])
qed

lemma trigger_prediction_header:
  assumes "trigger_prediction L fs df_path project_name periodicity seasonality = (Inr d, fs')"
  shows "csv_header d = [''Project'', ''Model'', ''Trend'', ''Estimator'', ''Penalty'', ''MAE'',
                         ''MAPE'', ''RMSE'', ''MSE'']"
    and "csv_row L d \<noteq> [''Project'', ''Model'', ''Trend'', ''Estimator'', ''Penalty'', ''MAE'',
                         ''MAPE'', ''RMSE'', ''MSE'']"
proof -
  from assms obtain c :: config and mae mape_value mse rmse where
    d: "d = [(''Project'', Str project_name),
                (''Model'', Str ''DLT''),
                (''Trend'', Str (trend c)),
                (''Estimator'', Str (estimator c)),
                (''Penalty'', (case penalty c of None \<Rightarrow> PyNone | Some p \<Rightarrow> Float (Finite p))),
                (''MAE'', Float (round2 L mae)),
                (''MAPE'', Float (round2 L mape_value)),
                (''RMSE'', Float (round2 L rmse)),
                (''MSE'', Float (round2 L mse))]" by (rule trigger_prediction_written)
  show "csv_header d = [''Project'', ''Model'', ''Trend'', ''Estimator'', ''Penalty'', ''MAE'',
                         ''MAPE'', ''RMSE'', ''MSE'']"
    by (simp add: d csv_header_def)
  show "csv_row L d \<noteq> [''Project'', ''Model'', ''Trend'', ''Estimator'', ''Penalty'', ''MAE'',
                         ''MAPE'', ''RMSE'', ''MSE'']"
    by (simp add: d csv_row_def csv_field_def)
qed

lemma trigger_prediction_file:
  assumes "trigger_prediction L fs df_path project_name (Some q) seasonality = (Inr d, fs')"
  shows "fs' (assessment_path L q) =
           Some (File ((case fs (assessment_path L q) of
                          Some (File old) \<Rightarrow> old
                        | _ \<Rightarrow> [[''Project'', ''Model'', ''Trend'', ''Estimator'', ''Penalty'',
                                 ''MAE'', ''MAPE'', ''RMSE'', ''MSE'']]) @ [csv_row L d]))"
proof -
  from assms obtain q' where
    "Some q = Some q'" and
    "fs' (assessment_path L q') =
       Some (File ((case fs (assessment_path L q') of
                      Some (File old) \<Rightarrow> old | _ \<Rightarrow> [csv_header d]) @ [csv_row L d]))"
    by (rule trigger_prediction_written)
  then show ?thesis unfolding trigger_prediction_header(1)[OF assms] by simp
qed

lemma not_isfile_case:
  "\<not> isfile fs x \<Longrightarrow> (case fs x of Some (File old) \<Rightarrow> old | _ \<Rightarrow> h) = h"
  by (auto simp: isfile_def split: option.splits node.splits)

lemma successive_calls_Cons_success:
  assumes "successive_calls L fs q ((p, n, s) # rest) = (Inr ds, fs'')"
  shows "\<exists>d fs1 ds'. trigger_prediction L fs p n (Some q) s = (Inr d, fs1)
           \<and> successive_calls L fs1 q rest = (Inr ds', fs'') \<and> ds = d # ds'"
proof -
  obtain r fs1 where one: "trigger_prediction L fs p n (Some q) s = (r, fs1)"
    by (cases "trigger_prediction L fs p n (Some q) s")
  obtain r' fs2 where more: "successive_calls L fs1 q rest = (r', fs2)"
    by (cases "successive_calls L fs1 q rest")
  from assms one obtain d where r: "r = Inr d" by (cases r) simp_all
  from assms one more r obtain ds' where r': "r' = Inr ds'" by (cases r') simp_all
  from assms one more r r' have "ds = d # ds'" "fs2 = fs''" by simp_all
  with one more r r' show ?thesis by simp
qed

lemma successive_calls_appends:
  "successive_calls L fs q calls = (Inr ds, fs') \<Longrightarrow> fs (assessment_path L q) = Some (File old)
     \<Longrightarrow> length ds = length calls
         \<and> fs' (assessment_path L q) = Some (File (old @ map (csv_row L) ds))
         \<and> (\<forall>d \<in> set ds. csv_row L d \<noteq> [''Project'', ''Model'', ''Trend'', ''Estimator'',
               ''Penalty'', ''MAE'', ''MAPE'', ''RMSE'', ''MSE''])"
proof (induction calls arbitrary: fs ds old)
  case Nil
  then show ?case by simp
next
  case (Cons call calls)
  obtain df_path project_name seasonality where call: "call = (df_path, project_name, seasonality)"
    by (cases call)
  from successive_calls_Cons_success[OF Cons.prems(1)[unfolded call]] obtain d fs1 ds' where
    one: "trigger_prediction L fs df_path project_name (Some q) seasonality = (Inr d, fs1)"
    and more: "successive_calls L fs1 q calls = (Inr ds', fs')" and ds: "ds = d # ds'"
    by blast
  from trigger_prediction_file[OF one] Cons.prems(2)
  have "fs1 (assessment_path L q) = Some (File (old @ [csv_row L d]))" by simp
  from Cons.IH[OF more this] trigger_prediction_header(2)[OF one] ds show ?case by simp
qed

text \<open>
  C5. A call that returns creates the assessment file with the header line and one data row
  when the file does not exist; it appends one data row, without a header and with the
  earlier lines unchanged, when the file exists; so after \<open>n \<ge> 1\<close> calls that return,
  starting without the file, the file is the header line followed by the \<open>n\<close> data rows
  of the calls, in order, and no data row is the header line.
\<close>

theorem assessment_file_grows:
  "(trigger_prediction L fs df_path project_name (Some q) seasonality = (Inr d, fs')
      \<and> \<not> isfile fs (assessment_path L q)
     \<longrightarrow> fs' (assessment_path L q) =
           Some (File [[''Project'', ''Model'', ''Trend'', ''Estimator'', ''Penalty'', ''MAE'',
                        ''MAPE'', ''RMSE'', ''MSE''], csv_row L d]))
   \<and> (trigger_prediction L fs df_path project_name (Some q) seasonality = (Inr d, fs')
      \<and> fs (assessment_path L q) = Some (File old)
     \<longrightarrow> fs' (assessment_path L q) = Some (File (old @ [csv_row L d])))
   \<and> (successive_calls L fs q calls = (Inr ds, fs'') \<and> calls \<noteq> []
      \<and> \<not> isfile fs (assessment_path L q)
     \<longrightarrow> length ds = length calls
         \<and> fs'' (assessment_path L q) =
             Some (File ([''Project'', ''Model'', ''Trend'', ''Estimator'', ''Penalty'', ''MAE'',
                          ''MAPE'', ''RMSE'', ''MSE''] # map (csv_row L) ds))
         \<and> [''Project'', ''Model'', ''Trend'', ''Estimator'', ''Penalty'', ''MAE'',
              ''MAPE'', ''RMSE'', ''MSE''] \<notin> set (map (csv_row L) ds))"
proof (intro conjI impI)
  let ?header = "[''Project'', ''Model'', ''Trend'', ''Estimator'', ''Penalty'', ''MAE'',
                  ''MAPE'', ''RMSE'', ''MSE'']"
  {
    assume "trigger_prediction L fs df_path project_name (Some q) seasonality = (Inr d, fs')
              \<and> \<not> isfile fs (assessment_path L q)"
    then show "fs' (assessment_path L q) = Some (File [?header, csv_row L d])"
      using trigger_prediction_file[of L fs df_path project_name q seasonality d fs']
      by (simp add: not_isfile_case)
  }
  {
    assume "trigger_prediction L fs df_path project_name (Some q) seasonality = (Inr d, fs')
              \<and> fs (assessment_path L q) = Some (File old)"
    then show "fs' (assessment_path L q) = Some (File (old @ [csv_row L d]))"
      using trigger_prediction_file[of L fs df_path project_name q seasonality d fs'] by simp
  }
  {
    assume h: "successive_calls L fs q calls = (Inr ds, fs'') \<and> calls \<noteq> []
                 \<and> \<not> isfile fs (assessment_path L q)"
    then obtain call rest where calls: "calls = call # rest" by (cases calls) auto
    obtain p n s where call: "call = (p, n, s)" by (cases call)
    from h calls call have "successive_calls L fs q ((p, n, s) # rest) = (Inr ds, fs'')"
      by simp
    from successive_calls_Cons_success[OF this] obtain d1 fs1 ds' where
      one: "trigger_prediction L fs p n (Some q) s = (Inr d1, fs1)"
      and more: "successive_calls L fs1 q rest = (Inr ds', fs'')" and ds: "ds = d1 # ds'"
      by blast
    from h trigger_prediction_file[OF one]
    have first: "fs1 (assessment_path L q) = Some (File [?header, csv_row L d1])"
      by (simp add: not_isfile_case)
    note rest = successive_calls_appends[OF more first]
    show "length ds = length calls" using rest ds calls by simp
    show "fs'' (assessment_path L q) = Some (File (?header # map (csv_row L) ds))"
      using rest ds by simp
    show "?header \<notin> set (map (csv_row L) ds)"
      using rest ds trigger_prediction_header(2)[OF one] by auto
  }
qed

lemma stale_fs_biweekly: "stale_fs ''data/biweekly_data_1/ant.csv'' = Some (File demo_lines)"
  by (simp add: stale_fs_def demo_fs_def)

lemma demo_trigger_stale:
  "fst (trigger_prediction demo_library stale_fs ''data/biweekly_data_1/ant.csv'' ''bee''
          (Some ''biweekly'') (Some 26)) = Inr (demo_result ''bee'')"
  by (simp add: demo_trigger_save[of stale_fs, OF stale_fs_biweekly] save_result_def demo_dirs
        makedirs_def demo_ancestors_all isfile_def to_csv_def demo_rows)
     (simp add: stale_fs_def demo_fs_def)

lemma demo_successive:
  "fst (successive_calls demo_library demo_fs ''biweekly''
          [(''data/biweekly_data_1/ant.csv'', ''ant'', Some 26),
           (''data/biweekly_data_1/ant.csv'', ''bee'', Some 26)])
     = Inr [demo_result ''ant'', demo_result ''bee'']"
  by (simp add: demo_trigger_save save_result_def demo_dirs
        makedirs_def demo_ancestors_all isfile_def to_csv_def demo_rows demo_fs_def)

text \<open>
  Instances of C5: a first call, a call that finds a file with one line, and two calls one
  after the other.
\<close>

theorem assessment_file_grows_witness:
  "fst (trigger_prediction demo_library demo_fs ''data/biweekly_data_1/ant.csv'' ''ant''
          (Some ''biweekly'') (Some 26)) = Inr (demo_result ''ant'')
   \<and> \<not> isfile demo_fs (assessment_path demo_library ''biweekly'')
   \<and> snd (trigger_prediction demo_library demo_fs ''data/biweekly_data_1/ant.csv'' ''ant''
          (Some ''biweekly'') (Some 26)) (assessment_path demo_library ''biweekly'')
       = Some (File [[''Project'', ''Model'', ''Trend'', ''Estimator'', ''Penalty'', ''MAE'',
                      ''MAPE'', ''RMSE'', ''MSE''], csv_row demo_library (demo_result ''ant'')])
   \<and> fst (trigger_prediction demo_library stale_fs ''data/biweekly_data_1/ant.csv'' ''bee''
          (Some ''biweekly'') (Some 26)) = Inr (demo_result ''bee'')
   \<and> stale_fs (assessment_path demo_library ''biweekly'') = Some (File [[''kept'']])
   \<and> snd (trigger_prediction demo_library stale_fs ''data/biweekly_data_1/ant.csv'' ''bee''
          (Some ''biweekly'') (Some 26)) (assessment_path demo_library ''biweekly'')
       = Some (File ([[''kept'']] @ [csv_row demo_library (demo_result ''bee'')]))
   \<and> fst (successive_calls demo_library demo_fs ''biweekly''
          [(''data/biweekly_data_1/ant.csv'', ''ant'', Some 26),
           (''data/biweekly_data_1/ant.csv'', ''bee'', Some 26)])
       = Inr [demo_result ''ant'', demo_result ''bee'']
   \<and> snd (successive_calls demo_library demo_fs ''biweekly''
          [(''data/biweekly_data_1/ant.csv'', ''ant'', Some 26),
           (''data/biweekly_data_1/ant.csv'', ''bee'', Some 26)])
          (assessment_path demo_library ''biweekly'')
       = Some (File ([''Project'', ''Model'', ''Trend'', ''Estimator'', ''Penalty'', ''MAE'',
                      ''MAPE'', ''RMSE'', ''MSE'']
                     # map (csv_row demo_library) [demo_result ''ant'', demo_result ''bee'']))"
proof -
  let ?p = "''data/biweekly_data_1/ant.csv''"
  let ?one = "trigger_prediction demo_library demo_fs ?p ''ant'' (Some ''biweekly'') (Some 26)"
  let ?two = "trigger_prediction demo_library stale_fs ?p ''bee'' (Some ''biweekly'') (Some 26)"
  let ?calls = "[(?p, ''ant'', Some 26), (?p, ''bee'', Some 26)]"
  let ?all = "successive_calls demo_library demo_fs ''biweekly'' ?calls"
  have one: "?one = (Inr (demo_result ''ant''), snd ?one)"
    by (simp add: prod_eq_iff demo_trigger_biweekly(1))
  have two: "?two = (Inr (demo_result ''bee''), snd ?two)"
    by (simp add: prod_eq_iff demo_trigger_stale)
  have all: "?all = (Inr [demo_result ''ant'', demo_result ''bee''], snd ?all)"
    by (simp only: prod_eq_iff fst_conv snd_conv demo_successive simp_thms)
  have absent: "\<not> isfile demo_fs (assessment_path demo_library ''biweekly'')"
    by (simp add: isfile_def demo_dirs demo_fs_def)
  have stale: "stale_fs (assessment_path demo_library ''biweekly'') = Some (File [[''kept'']])"
    by (simp add: demo_dirs stale_fs_def)
  have ne: "?calls \<noteq> []" by simp
  note g1 = assessment_file_grows[where L = demo_library and fs = demo_fs and df_path = ?p
      and project_name = "''ant''" and q = "''biweekly''" and seasonality = "Some 26"
      and d = "demo_result ''ant''" and fs' = "snd ?one" and calls = ?calls
      and ds = "[demo_result ''ant'', demo_result ''bee'']" and fs'' = "snd ?all"]
  note g2 = assessment_file_grows[where L = demo_library and fs = stale_fs and df_path = ?p
      and project_name = "''bee''" and q = "''biweekly''" and seasonality = "Some 26"
      and d = "demo_result ''bee''" and fs' = "snd ?two" and old = "[[''kept'']]"]
  from g1 one absent have a: "snd ?one (assessment_path demo_library ''biweekly'')
       = Some (File [[''Project'', ''Model'', ''Trend'', ''Estimator'', ''Penalty'', ''MAE'',
                      ''MAPE'', ''RMSE'', ''MSE''], csv_row demo_library (demo_result ''ant'')])"
    by - (rule g1[THEN conjunct1, THEN mp, OF conjI[OF one absent]])
  from g2 two stale have b: "snd ?two (assessment_path demo_library ''biweekly'')
       = Some (File ([[''kept'']] @ [csv_row demo_library (demo_result ''bee'')]))"
    by - (rule g2[THEN conjunct2, THEN conjunct1, THEN mp, OF conjI[OF two stale]])
  from g1 all ne absent have c: "snd ?all (assessment_path demo_library ''biweekly'')
       = Some (File ([''Project'', ''Model'', ''Trend'', ''Estimator'', ''Penalty'', ''MAE'',
                      ''MAPE'', ''RMSE'', ''MSE'']
                     # map (csv_row demo_library) [demo_result ''ant'', demo_result ''bee'']))"
    by - (rule g1[THEN conjunct2, THEN conjunct2, THEN mp, OF conjI[OF all conjI[OF ne absent]],
            THEN conjunct2, THEN conjunct1])
  from demo_trigger_biweekly(1) absent a demo_trigger_stale stale b demo_successive c
  show ?thesis by (intro conjI)
qed

section \<open>The rows that reach the split\<close>

lemma collect_map:
  "collect (map f xs) = Inr ys \<Longrightarrow>
     length ys = length xs \<and> (\<forall>i < length xs. f (xs ! i) = Inr (ys ! i))"
proof (induction xs arbitrary: ys)
  case Nil
  then show ?case by simp
next
  case (Cons x xs)
  from Cons.prems obtain y ys' where fx: "f x = Inr y" and rest: "collect (map f xs) = Inr ys'"
    and ys: "ys = y # ys'"
    by (cases "f x"; cases "collect (map f xs)") auto
  from Cons.IH[OF rest] fx ys show ?case by (auto simp: nth_Cons split: nat.splits)
qed

lemma collect_total:
  "\<forall>x \<in> set xs. \<exists>y. f x = Inr y \<Longrightarrow> \<exists>ys. collect (map f xs) = Inr ys"
  by (induction xs) auto

lemma zip_map_same:
  "map (\<lambda>(r, v). g r v) (zip xs (map h xs)) = map (\<lambda>r. g r (h r)) xs"
  by (induction xs) auto

lemma to_datetime_result: "to_datetime L c = Inr c' \<Longrightarrow> c' = NaT \<or> (\<exists>t. c' = Ts t)"
  by (auto simp: to_datetime_def split: if_splits sum.splits option.splits)

lemma to_datetime_na: "isna c \<Longrightarrow> to_datetime L c = Inr NaT"
  by (simp add: to_datetime_def)

lemma to_numeric_coerce_result: "\<exists>v. to_numeric_coerce L c = Flt v"
  by (auto simp: to_numeric_coerce_def split: cell.splits option.splits)

lemma to_numeric_coerce_na: "isna c \<Longrightarrow> to_numeric_coerce L c = Flt NaN"
  by (simp add: to_numeric_coerce_def)

lemma columns_set_col: "name \<in> set (columns df) \<Longrightarrow> columns (set_col df name vs) = columns df"
  by (simp add: set_col_def)

lemma rows_set_col:
  "rows (set_col df name vs) = map (\<lambda>(r, v). r(name := v)) (zip (rows df) vs)"
  by (simp add: set_col_def)

text \<open>The rows of the frame before \<open>dropna\<close>: every row with its two columns converted.\<close>

lemma load_frame_rows:
  assumes "load_frame L fs df_path = Inr df"
  shows "\<exists>raw parsed.
           read_csv L fs df_path = Inr raw
         \<and> ''COMMIT_DATE'' \<in> set (columns raw) \<and> ''SQALE_INDEX'' \<in> set (columns raw)
         \<and> collect (map (to_datetime L) (map (\<lambda>r. r ''COMMIT_DATE'') (rows raw))) = Inr parsed
         \<and> columns df = columns raw
         \<and> rows df = filter (\<lambda>r. \<not> row_has_na (columns raw) r)
              (map (\<lambda>(r, t). r(''COMMIT_DATE'' := t,
                                ''SQALE_INDEX'' := to_numeric_coerce L (r ''SQALE_INDEX'')))
                 (zip (rows raw) parsed))"
proof -
  from assms obtain raw where raw: "read_csv L fs df_path = Inr raw"
    by (cases "read_csv L fs df_path") (auto simp: load_frame_def)
  from assms raw have cd: "''COMMIT_DATE'' \<in> set (columns raw)"
    by (auto simp: load_frame_def get_col_def split: if_splits)
  from assms raw cd obtain parsed where
    parsed: "collect (map (to_datetime L) (map (\<lambda>r. r ''COMMIT_DATE'') (rows raw))) = Inr parsed"
    by (cases "collect (map (to_datetime L) (map (\<lambda>r. r ''COMMIT_DATE'') (rows raw)))")
       (auto simp: load_frame_def get_col_def)
  let ?df1 = "set_col raw ''COMMIT_DATE'' parsed"
  have c1: "columns ?df1 = columns raw" using cd by (rule columns_set_col)
  from assms raw cd parsed have si: "''SQALE_INDEX'' \<in> set (columns raw)"
    by (auto simp: load_frame_def get_col_def c1 split: if_splits)
  have r1: "rows ?df1 = map (\<lambda>(r, t). r(''COMMIT_DATE'' := t)) (zip (rows raw) parsed)"
    by (rule rows_set_col)
  define sq where "sq = map (\<lambda>r. to_numeric_coerce L (r ''SQALE_INDEX'')) (rows ?df1)"
  let ?df2 = "set_col ?df1 ''SQALE_INDEX'' sq"
  have c2: "columns ?df2 = columns raw" using si c1 by (simp add: columns_set_col)
  have "rows ?df2 = map (\<lambda>(r, v). r(''SQALE_INDEX'' := v))
                      (zip (rows ?df1) (map (\<lambda>r. to_numeric_coerce L (r ''SQALE_INDEX'')) (rows ?df1)))"
    unfolding sq_def by (rule rows_set_col)
  also have "\<dots> = map (\<lambda>r. r(''SQALE_INDEX'' := to_numeric_coerce L (r ''SQALE_INDEX''))) (rows ?df1)"
    by (rule zip_map_same)
  also have "\<dots> = map (\<lambda>(r, t). r(''COMMIT_DATE'' := t,
                                ''SQALE_INDEX'' := to_numeric_coerce L (r ''SQALE_INDEX'')))
                 (zip (rows raw) parsed)"
    by (simp add: r1 case_prod_beta)
  finally have r2: "rows ?df2 = map (\<lambda>(r, t). r(''COMMIT_DATE'' := t,
                                ''SQALE_INDEX'' := to_numeric_coerce L (r ''SQALE_INDEX'')))
                 (zip (rows raw) parsed)" .
  from assms raw cd parsed si have df: "df = dropna ?df2"
    by (simp add: load_frame_def get_col_def c1 sq_def comp_def)
  have "columns df = columns raw" unfolding df by (simp add: dropna_def c2)
  moreover have "rows df = filter (\<lambda>r. \<not> row_has_na (columns raw) r)
              (map (\<lambda>(r, t). r(''COMMIT_DATE'' := t,
                                ''SQALE_INDEX'' := to_numeric_coerce L (r ''SQALE_INDEX'')))
                 (zip (rows raw) parsed))"
    unfolding df by (simp add: dropna_def c2 r2)
  ultimately show ?thesis using raw cd si parsed by blast
qed

lemma split_rows: "set (rows (fst (train_test_split df))) \<union> set (rows (snd (train_test_split df)))
                     = set (rows df)"
proof -
  have "rows (fst (train_test_split df)) @ rows (snd (train_test_split df)) = rows df"
    by (simp add: train_test_split_def iloc_to_def iloc_from_def)
  then have "set (rows (fst (train_test_split df)) @ rows (snd (train_test_split df)))
               = set (rows df)" by simp
  then show ?thesis by simp
qed

lemma converted_row_complete:
  assumes cd: "''COMMIT_DATE'' \<in> set cols" and si: "''SQALE_INDEX'' \<in> set cols"
    and t: "t = NaT \<or> (\<exists>u. t = Ts u)"
    and r: "r = r0(''COMMIT_DATE'' := t, ''SQALE_INDEX'' := to_numeric_coerce L (r0 ''SQALE_INDEX''))"
    and ok: "\<not> row_has_na cols r"
  shows "(\<exists>u. r ''COMMIT_DATE'' = Ts u) \<and> (\<exists>v. r ''SQALE_INDEX'' = Flt v \<and> v \<noteq> NaN)"
proof -
  from ok cd si have a: "\<not> isna (r ''COMMIT_DATE'')" and b: "\<not> isna (r ''SQALE_INDEX'')"
    by (auto simp: row_has_na_def)
  have "r ''COMMIT_DATE'' = t" by (simp add: r)
  with a t have 1: "\<exists>u. r ''COMMIT_DATE'' = Ts u" by (auto simp: isna_def)
  obtain v where v: "to_numeric_coerce L (r0 ''SQALE_INDEX'') = Flt v"
    using to_numeric_coerce_result by blast
  then have "r ''SQALE_INDEX'' = Flt v" by (simp add: r)
  with b have 2: "\<exists>v. r ''SQALE_INDEX'' = Flt v \<and> v \<noteq> NaN" by (auto simp: isna_def)
  from 1 2 show ?thesis ..
qed

lemma converted_row_incomplete:
  assumes cd: "''COMMIT_DATE'' \<in> set cols" and si: "''SQALE_INDEX'' \<in> set cols"
    and t: "to_datetime L (r0 ''COMMIT_DATE'') = Inr t"
    and bad: "to_numeric_coerce L (r0 ''SQALE_INDEX'') = Flt NaN \<or> row_has_na cols r0"
  shows "row_has_na cols
           (r0(''COMMIT_DATE'' := t, ''SQALE_INDEX'' := to_numeric_coerce L (r0 ''SQALE_INDEX'')))"
proof -
  let ?r = "r0(''COMMIT_DATE'' := t, ''SQALE_INDEX'' := to_numeric_coerce L (r0 ''SQALE_INDEX''))"
  from bad show ?thesis
  proof
    assume "to_numeric_coerce L (r0 ''SQALE_INDEX'') = Flt NaN"
    then have "isna (?r ''SQALE_INDEX'')" by (simp add: isna_def)
    with si show ?thesis unfolding row_has_na_def by blast
  next
    assume "row_has_na cols r0"
    then obtain c where c: "c \<in> set cols" "isna (r0 c)" by (auto simp: row_has_na_def)
    have "isna (?r c)"
    proof (cases "c = ''SQALE_INDEX''")
      case True
      with c(2) show ?thesis by (simp add: to_numeric_coerce_na isna_def)
    next
      case False
      show ?thesis
      proof (cases "c = ''COMMIT_DATE''")
        case True
        with c(2) t have "t = NaT" by (simp add: to_datetime_na)
        with True show ?thesis by (simp add: isna_def)
      next
        case False
        with \<open>c \<noteq> ''SQALE_INDEX''\<close> c(2) show ?thesis by simp
      qed
    qed
    with c(1) show ?thesis unfolding row_has_na_def by blast
  qed
qed

lemma load_frame_total:
  assumes raw: "read_csv L fs df_path = Inr raw"
    and cd: "''COMMIT_DATE'' \<in> set (columns raw)" and si: "''SQALE_INDEX'' \<in> set (columns raw)"
    and dates: "\<forall>r \<in> set (rows raw). \<not> isna (r ''COMMIT_DATE'')
                  \<longrightarrow> (\<exists>t. datetime_of L (r ''COMMIT_DATE'') = Inr t)"
  shows "\<exists>df. load_frame L fs df_path = Inr df"
proof -
  have "\<forall>c \<in> set (map (\<lambda>r. r ''COMMIT_DATE'') (rows raw)). \<exists>y. to_datetime L c = Inr y"
    using dates by (auto simp: to_datetime_def split: sum.splits option.splits)
  from collect_total[OF this] obtain parsed where
    "collect (map (to_datetime L) (map (\<lambda>r. r ''COMMIT_DATE'') (rows raw))) = Inr parsed" by blast
  with raw cd si show ?thesis
    by (simp add: load_frame_def get_col_def columns_set_col)
qed

text \<open>
  C8. When lines 74 to 79 return a frame, every row of the training and of the testing
  frame has a timestamp in \<^verbatim>\<open>COMMIT_DATE\<close>, a number that is not NaN in
  \<^verbatim>\<open>SQALE_INDEX\<close> and no missing value in any column, so \<open>y_train\<close> and \<open>y_test\<close> hold
  no NaN. The two frames together are the converted rows of the file without a missing
  value, in order: a row of the file whose \<^verbatim>\<open>SQALE_INDEX\<close> is not numeric, or that has
  a missing field, is in neither. Such rows raise nothing: the frame is returned whenever
  the file is read, has the two columns, and every date that is present can be parsed.
\<close>

theorem load_frame_rows_complete:
  "(load_frame L fs df_path = Inr df \<longrightarrow>
      (\<forall>r \<in> set (rows (fst (train_test_split df))) \<union> set (rows (snd (train_test_split df))).
          (\<exists>t. r ''COMMIT_DATE'' = Ts t) \<and> (\<exists>v. r ''SQALE_INDEX'' = Flt v \<and> v \<noteq> NaN)
        \<and> \<not> row_has_na (columns df) r)
    \<and> (\<forall>ys xs yt xt.
          split_variables (fst (train_test_split df)) (snd (train_test_split df))
            = Inr (ys, xs, yt, xt)
          \<longrightarrow> (\<forall>c \<in> set ys \<union> set yt. \<exists>v. c = Flt v \<and> v \<noteq> NaN))
    \<and> (\<exists>raw parsed.
          read_csv L fs df_path = Inr raw
        \<and> collect (map (to_datetime L) (map (\<lambda>r. r ''COMMIT_DATE'') (rows raw))) = Inr parsed
        \<and> length parsed = length (rows raw)
        \<and> rows (fst (train_test_split df)) @ rows (snd (train_test_split df))
            = filter (\<lambda>r. \<not> row_has_na (columns raw) r)
                (map (\<lambda>(r, t). r(''COMMIT_DATE'' := t,
                                  ''SQALE_INDEX'' := to_numeric_coerce L (r ''SQALE_INDEX'')))
                   (zip (rows raw) parsed))
        \<and> (\<forall>i < length (rows raw).
              to_numeric_coerce L ((rows raw ! i) ''SQALE_INDEX'') = Flt NaN
                \<or> row_has_na (columns raw) (rows raw ! i)
              \<longrightarrow> (rows raw ! i)(''COMMIT_DATE'' := parsed ! i,
                     ''SQALE_INDEX'' := to_numeric_coerce L ((rows raw ! i) ''SQALE_INDEX''))
                    \<notin> set (rows (fst (train_test_split df)))
                        \<union> set (rows (snd (train_test_split df))))))
   \<and> (read_csv L fs df_path = Inr raw'
        \<and> ''COMMIT_DATE'' \<in> set (columns raw') \<and> ''SQALE_INDEX'' \<in> set (columns raw')
        \<and> (\<forall>r \<in> set (rows raw'). \<not> isna (r ''COMMIT_DATE'')
              \<longrightarrow> (\<exists>t. datetime_of L (r ''COMMIT_DATE'') = Inr t))
      \<longrightarrow> (\<exists>df'. load_frame L fs df_path = Inr df'))"
proof (intro conjI impI)
  let ?tr = "fst (train_test_split df)" and ?te = "snd (train_test_split df)"
  {
    assume load: "load_frame L fs df_path = Inr df"
    from load_frame_rows[OF load] obtain raw parsed where
      raw: "read_csv L fs df_path = Inr raw"
      and cd: "''COMMIT_DATE'' \<in> set (columns raw)" and si: "''SQALE_INDEX'' \<in> set (columns raw)"
      and parsed: "collect (map (to_datetime L) (map (\<lambda>r. r ''COMMIT_DATE'') (rows raw)))
                     = Inr parsed"
      and cols: "columns df = columns raw"
      and rws: "rows df = filter (\<lambda>r. \<not> row_has_na (columns raw) r)
              (map (\<lambda>(r, t). r(''COMMIT_DATE'' := t,
                                ''SQALE_INDEX'' := to_numeric_coerce L (r ''SQALE_INDEX'')))
                 (zip (rows raw) parsed))" by blast
    from collect_map[OF parsed] have len: "length parsed = length (rows raw)"
      and each: "\<forall>i < length (rows raw). to_datetime L ((rows raw ! i) ''COMMIT_DATE'')
                    = Inr (parsed ! i)" by simp_all
    have kept: "(\<exists>t. r ''COMMIT_DATE'' = Ts t) \<and> (\<exists>v. r ''SQALE_INDEX'' = Flt v \<and> v \<noteq> NaN)
                 \<and> \<not> row_has_na (columns df) r" if "r \<in> set (rows df)" for r
    proof -
      from that rws obtain r0 t where z: "(r0, t) \<in> set (zip (rows raw) parsed)"
        and r: "r = r0(''COMMIT_DATE'' := t,
                       ''SQALE_INDEX'' := to_numeric_coerce L (r0 ''SQALE_INDEX''))"
        and ok: "\<not> row_has_na (columns raw) r" by auto
      from z obtain i where i: "i < length (rows raw)" "r0 = rows raw ! i" "t = parsed ! i"
        using len by (auto simp: set_zip)
      with each have "to_datetime L (r0 ''COMMIT_DATE'') = Inr t" by simp
      then have "t = NaT \<or> (\<exists>u. t = Ts u)" by (rule to_datetime_result)
      from converted_row_complete[OF cd si this r ok] ok cols show ?thesis by simp
    qed
    show "\<forall>r \<in> set (rows ?tr) \<union> set (rows ?te).
          (\<exists>t. r ''COMMIT_DATE'' = Ts t) \<and> (\<exists>v. r ''SQALE_INDEX'' = Flt v \<and> v \<noteq> NaN)
        \<and> \<not> row_has_na (columns df) r"
      unfolding split_rows using kept by blast
    show "\<forall>ys xs yt xt. split_variables ?tr ?te = Inr (ys, xs, yt, xt)
          \<longrightarrow> (\<forall>c \<in> set ys \<union> set yt. \<exists>v. c = Flt v \<and> v \<noteq> NaN)"
    proof (intro allI impI ballI)
      fix ys xs yt xt c
      assume v: "split_variables ?tr ?te = Inr (ys, xs, yt, xt)" and c: "c \<in> set ys \<union> set yt"
      from v have "ys = map (\<lambda>r. r ''SQALE_INDEX'') (rows ?tr)"
        "yt = map (\<lambda>r. r ''SQALE_INDEX'') (rows ?te)"
        by (auto simp: split_variables_def get_col_def split: if_splits sum.splits)
      with c obtain r where "r \<in> set (rows ?tr) \<union> set (rows ?te)" "c = r ''SQALE_INDEX''"
        by auto
      then show "\<exists>v. c = Flt v \<and> v \<noteq> NaN" using kept unfolding split_rows by blast
    qed
    have app: "rows ?tr @ rows ?te = rows df"
      by (simp add: train_test_split_def iloc_to_def iloc_from_def)
    have excl: "\<forall>i < length (rows raw).
              to_numeric_coerce L ((rows raw ! i) ''SQALE_INDEX'') = Flt NaN
                \<or> row_has_na (columns raw) (rows raw ! i)
              \<longrightarrow> (rows raw ! i)(''COMMIT_DATE'' := parsed ! i,
                     ''SQALE_INDEX'' := to_numeric_coerce L ((rows raw ! i) ''SQALE_INDEX''))
                    \<notin> set (rows ?tr) \<union> set (rows ?te)"
    proof (intro allI impI)
      fix i
      assume i: "i < length (rows raw)"
        and bad: "to_numeric_coerce L ((rows raw ! i) ''SQALE_INDEX'') = Flt NaN
                    \<or> row_has_na (columns raw) (rows raw ! i)"
      from each i have "to_datetime L ((rows raw ! i) ''COMMIT_DATE'') = Inr (parsed ! i)" by simp
      from converted_row_incomplete[OF cd si this bad] kept cols
      show "(rows raw ! i)(''COMMIT_DATE'' := parsed ! i,
                     ''SQALE_INDEX'' := to_numeric_coerce L ((rows raw ! i) ''SQALE_INDEX''))
                    \<notin> set (rows ?tr) \<union> set (rows ?te)"
        unfolding split_rows by auto
    qed
    from raw parsed len app rws excl
    show "\<exists>raw parsed.
          read_csv L fs df_path = Inr raw
        \<and> collect (map (to_datetime L) (map (\<lambda>r. r ''COMMIT_DATE'') (rows raw))) = Inr parsed
        \<and> length parsed = length (rows raw)
        \<and> rows ?tr @ rows ?te
            = filter (\<lambda>r. \<not> row_has_na (columns raw) r)
                (map (\<lambda>(r, t). r(''COMMIT_DATE'' := t,
                                  ''SQALE_INDEX'' := to_numeric_coerce L (r ''SQALE_INDEX'')))
                   (zip (rows raw) parsed))
        \<and> (\<forall>i < length (rows raw).
              to_numeric_coerce L ((rows raw ! i) ''SQALE_INDEX'') = Flt NaN
                \<or> row_has_na (columns raw) (rows raw ! i)
              \<longrightarrow> (rows raw ! i)(''COMMIT_DATE'' := parsed ! i,
                     ''SQALE_INDEX'' := to_numeric_coerce L ((rows raw ! i) ''SQALE_INDEX''))
                    \<notin> set (rows ?tr) \<union> set (rows ?te))"
      by (intro exI[of _ raw] exI[of _ parsed]) simp
  }
  {
    assume "read_csv L fs df_path = Inr raw'
        \<and> ''COMMIT_DATE'' \<in> set (columns raw') \<and> ''SQALE_INDEX'' \<in> set (columns raw')
        \<and> (\<forall>r \<in> set (rows raw'). \<not> isna (r ''COMMIT_DATE'')
              \<longrightarrow> (\<exists>t. datetime_of L (r ''COMMIT_DATE'') = Inr t))"
    then show "\<exists>df'. load_frame L fs df_path = Inr df'"
      using load_frame_total[of L fs df_path raw'] by blast
  }
qed

lemma demo_read:
  "read_csv demo_library demo_fs ''data/biweekly_data_1/ant.csv'' = demo_parse_csv demo_lines"
  by (simp add: read_csv_def demo_fs_def demo_library_def)

text \<open>
  An instance of C8: of the five rows of the small file, the one with \<^verbatim>\<open>n/a\<close> and the
  one without a date are dropped, and three complete rows are split.
\<close>

theorem load_frame_rows_complete_witness:
  "load_frame demo_library demo_fs ''data/biweekly_data_1/ant.csv'' = Inr demo_frame
   \<and> list_all (\<lambda>r. (\<exists>t. r ''COMMIT_DATE'' = Ts t) \<and> (\<exists>v. r ''SQALE_INDEX'' = Flt v \<and> v \<noteq> NaN)
                     \<and> \<not> row_has_na (columns demo_frame) r)
        (rows demo_training @ rows demo_testing)
   \<and> length (rows demo_training @ rows demo_testing) = 3
   \<and> length demo_lines = 6
   \<and> split_variables demo_training demo_testing
        = Inr ([Flt (Finite 10), Flt (Finite 20)], demo_x, [Flt (Finite 30)], demo_xt)
   \<and> list_all (\<lambda>c. \<exists>v. c = Flt v \<and> v \<noteq> NaN)
        ([Flt (Finite 10), Flt (Finite 20)] @ [Flt (Finite 30)])
   \<and> (\<exists>df'. load_frame demo_library demo_fs ''data/biweekly_data_1/ant.csv'' = Inr df')"
proof -
  let ?p = "''data/biweekly_data_1/ant.csv''"
  have load: "load_frame demo_library demo_fs ?p = Inr demo_frame"
    by (rule demo_prepared(1)[of demo_fs ?p, OF demo_fs_biweekly])
  note t = load_frame_rows_complete[where L = demo_library and fs = demo_fs and df_path = ?p
      and df = demo_frame]
  note a = t[THEN conjunct1, THEN mp, OF load]
  have vars: "split_variables (fst (train_test_split demo_frame))
                (snd (train_test_split demo_frame))
        = Inr ([Flt (Finite 10), Flt (Finite 20)], demo_x, [Flt (Finite 30)], demo_xt)"
    by (simp add: demo_split demo_variables)
  from a have "\<forall>r \<in> set (rows (fst (train_test_split demo_frame)))
                      \<union> set (rows (snd (train_test_split demo_frame))).
          (\<exists>t. r ''COMMIT_DATE'' = Ts t) \<and> (\<exists>v. r ''SQALE_INDEX'' = Flt v \<and> v \<noteq> NaN)
        \<and> \<not> row_has_na (columns demo_frame) r" by (rule conjunct1)
  then have 1: "list_all (\<lambda>r. (\<exists>t. r ''COMMIT_DATE'' = Ts t)
                     \<and> (\<exists>v. r ''SQALE_INDEX'' = Flt v \<and> v \<noteq> NaN)
                     \<and> \<not> row_has_na (columns demo_frame) r)
        (rows demo_training @ rows demo_testing)"
    unfolding list_all_iff set_append demo_split fst_conv snd_conv .
  from a[THEN conjunct2, THEN conjunct1, rule_format, OF vars]
  have 2: "list_all (\<lambda>c. \<exists>v. c = Flt v \<and> v \<noteq> NaN)
        ([Flt (Finite 10), Flt (Finite 20)] @ [Flt (Finite 30)])"
    unfolding list_all_iff set_append by blast
  let ?raw = "\<lparr>columns = [''COMMIT_DATE'', ''SQALE_INDEX''],
          rows = [(\<lambda>c. Flt NaN)(''COMMIT_DATE'' := Txt ''2024-01-01'', ''SQALE_INDEX'' := Txt ''10''),
                  (\<lambda>c. Flt NaN)(''COMMIT_DATE'' := Txt ''2024-01-15'', ''SQALE_INDEX'' := Txt ''n/a''),
                  (\<lambda>c. Flt NaN)(''COMMIT_DATE'' := Txt ''2024-01-29'', ''SQALE_INDEX'' := Txt ''20''),
                  (\<lambda>c. Flt NaN)(''COMMIT_DATE'' := Flt NaN, ''SQALE_INDEX'' := Txt ''30''),
                  (\<lambda>c. Flt NaN)(''COMMIT_DATE'' := Txt ''2024-02-26'', ''SQALE_INDEX'' := Txt ''30'')]\<rparr>"
  have h1: "read_csv demo_library demo_fs ?p = Inr ?raw"
    by (simp only: demo_read demo_parse)
  have h2: "''COMMIT_DATE'' \<in> set (columns ?raw)" "''SQALE_INDEX'' \<in> set (columns ?raw)"
    by simp_all
  have h3: "\<forall>r \<in> set (rows ?raw). \<not> isna (r ''COMMIT_DATE'')
              \<longrightarrow> (\<exists>t. datetime_of demo_library (r ''COMMIT_DATE'') = Inr t)"
    by (simp add: isna_def demo_library_def demo_datetime_of_def)
  have 3: "\<exists>df'. load_frame demo_library demo_fs ?p = Inr df'"
    by (rule load_frame_rows_complete[where L = demo_library and fs = demo_fs and df_path = ?p
          and raw' = ?raw, THEN conjunct2, THEN mp, OF conjI[OF h1 conjI[OF h2(1) conjI[OF h2(2) h3]]]])
  have 4: "length (rows demo_training @ rows demo_testing) = 3" "length demo_lines = 6"
    by (simp_all add: demo_training_def demo_testing_def demo_lines_def)
  from load 1 4 demo_variables 2 3 show ?thesis by (intro conjI)
qed

section \<open>The trace of bayesian_orbit\<close>

lemma invoke_appends:
  assumes "invoke L p pn per seas (fs, calls) = (e, fs', calls')"
  shows "calls' = calls @ [((p, pn, per, seas), fst (trigger_prediction L fs p pn per seas))]"
    and "fs' = snd (trigger_prediction L fs p pn per seas)"
    and "e = (case fst (trigger_prediction L fs p pn per seas) of Inl x \<Rightarrow> Some x | Inr d \<Rightarrow> None)"
  using assms by (simp_all add: invoke_def split: prod.splits)

lemma invoke_returned:
  assumes "invoke L p pn per seas (fs, calls) = (None, fs', calls')"
  shows "\<exists>d. calls' = calls @ [((p, pn, per, seas), Inr d)]
           \<and> trigger_prediction L fs p pn per seas = (Inr d, fs')"
proof -
  note a = invoke_appends[OF assms]
  from a(3) obtain d where d: "fst (trigger_prediction L fs p pn per seas) = Inr d"
    by (cases "fst (trigger_prediction L fs p pn per seas)") simp_all
  with a(1,2) show ?thesis by (simp add: prod_eq_iff)
qed


lemma process_index_skip:
  "i < length bw \<Longrightarrow> bw ! i = ''.DS_Store'' \<Longrightarrow>
     process_index L bp mp cp bw mo co i w = (None, w)"
  by (simp add: process_index_def index_def)

text \<open>The body of the loop for a file that is not skipped, one call after the other.\<close>

lemma process_index_steps:
  assumes i: "i < length bw" and name: "bw ! i \<noteq> ''.DS_Store''"
  shows "process_index L bp mp cp bw mo co i w =
     (case invoke L (os_path_join bp [bw ! i]) (take (length (bw ! i) - 4) (bw ! i))
             (Some ''biweekly'') (Some 26) w of
        (Some e, w1) \<Rightarrow> (Some e, w1)
      | (None, w1) \<Rightarrow>
          if length mo \<le> i then (Some IndexError, w1)
          else
     (case invoke L (os_path_join mp [mo ! i]) (take (length (bw ! i) - 4) (bw ! i))
             (Some ''monthly'') (Some 12) w1 of
        (Some e, w2) \<Rightarrow> (Some e, w2)
      | (None, w2) \<Rightarrow>
          if length co \<le> i then (Some IndexError, w2)
          else invoke L (os_path_join cp [co ! i]) (take (length (bw ! i) - 4) (bw ! i))
                 (Some ''complete'') None w2))"
  using assms
  by (auto simp: process_index_def index_def split: prod.splits option.splits)

lemma process_index_done:
  assumes run: "process_index L bp mp cp bw mo co i (fs, calls) = (None, fs', calls')"
    and i: "i < length bw"
  shows "\<exists>new. calls' = calls @ new
           \<and> map fst new = (if bw ! i = ''.DS_Store'' then []
                             else project_calls bp mp cp (bw ! i) (mo ! i) (co ! i))
           \<and> list_all returned new
           \<and> (bw ! i \<noteq> ''.DS_Store'' \<longrightarrow> i < length mo \<and> i < length co)"
proof (cases "bw ! i = ''.DS_Store''")
  case True
  with run i have "calls' = calls" by (simp add: process_index_skip)
  with True show ?thesis by simp
next
  case False
  let ?pn = "take (length (bw ! i) - 4) (bw ! i)"
  note steps = process_index_steps[OF i False, of L bp mp cp mo co]
  obtain e1 fs1 c1 where one: "invoke L (os_path_join bp [bw ! i]) ?pn (Some ''biweekly'')
      (Some 26) (fs, calls) = (e1, fs1, c1)" by (metis prod_cases3)
  from run one have e1: "e1 = None" by (cases e1) (simp_all add: steps)
  from run one e1 have mo: "i < length mo" by (simp add: steps split: if_splits)
  obtain e2 fs2 c2 where two: "invoke L (os_path_join mp [mo ! i]) ?pn (Some ''monthly'')
      (Some 12) (fs1, c1) = (e2, fs2, c2)" by (metis prod_cases3)
  from run one e1 mo two have e2: "e2 = None" by (cases e2) (simp_all add: steps)
  from run one e1 mo two e2 have co: "i < length co" by (simp add: steps split: if_splits)
  from run one e1 mo two e2 co
  have three: "invoke L (os_path_join cp [co ! i]) ?pn (Some ''complete'') None (fs2, c2)
                 = (None, fs', calls')" by (simp add: steps)
  from invoke_returned[OF one[unfolded e1]] obtain d1 where
    c1: "c1 = calls @ [((os_path_join bp [bw ! i], ?pn, Some ''biweekly'', Some 26), Inr d1)]"
    by blast
  from invoke_returned[OF two[unfolded e2]] obtain d2 where
    c2: "c2 = c1 @ [((os_path_join mp [mo ! i], ?pn, Some ''monthly'', Some 12), Inr d2)]"
    by blast
  from invoke_returned[OF three] obtain d3 where
    c3: "calls' = c2 @ [((os_path_join cp [co ! i], ?pn, Some ''complete'', None), Inr d3)]"
    by blast
  let ?new = "[((os_path_join bp [bw ! i], ?pn, Some ''biweekly'', Some 26), Inr d1),
               ((os_path_join mp [mo ! i], ?pn, Some ''monthly'', Some 12), Inr d2),
               ((os_path_join cp [co ! i], ?pn, Some ''complete'', None), Inr d3)]"
  have "calls' = calls @ ?new" by (simp add: c1 c2 c3)
  moreover have "map fst ?new = project_calls bp mp cp (bw ! i) (mo ! i) (co ! i)"
    by (simp add: project_calls_def)
  moreover have "list_all returned ?new" by (simp add: returned_def)
  ultimately show ?thesis using False mo co by (intro exI[of _ ?new]) simp
qed


lemma for_index_done:
  "for_index L bp mp cp bw mo co js (fs, calls) = (None, fs', calls') \<Longrightarrow>
   \<forall>i \<in> set js. i < length bw \<Longrightarrow>
     \<exists>new. calls' = calls @ new
       \<and> map fst new = concat (map (\<lambda>i. if bw ! i = ''.DS_Store'' then []
                                          else project_calls bp mp cp (bw ! i) (mo ! i) (co ! i)) js)
       \<and> list_all returned new
       \<and> (\<forall>i \<in> set js. bw ! i \<noteq> ''.DS_Store'' \<longrightarrow> i < length mo \<and> i < length co)"
proof (induction js arbitrary: fs calls)
  case Nil
  then show ?case by simp
next
  case (Cons j js)
  obtain e1 fs1 c1 where body: "process_index L bp mp cp bw mo co j (fs, calls) = (e1, fs1, c1)"
    by (metis prod_cases3)
  from Cons.prems(1) body have e1: "e1 = None" by (cases e1) simp_all
  from Cons.prems(1) body e1
  have rest: "for_index L bp mp cp bw mo co js (fs1, c1) = (None, fs', calls')" by simp
  from Cons.prems(2) have j: "j < length bw" and js: "\<forall>i \<in> set js. i < length bw" by simp_all
  from process_index_done[OF body[unfolded e1] j] obtain new1 where
    n1: "c1 = calls @ new1"
      "map fst new1 = (if bw ! j = ''.DS_Store'' then []
                       else project_calls bp mp cp (bw ! j) (mo ! j) (co ! j))"
      "list_all returned new1"
      "bw ! j \<noteq> ''.DS_Store'' \<longrightarrow> j < length mo \<and> j < length co" by blast
  from Cons.IH[OF rest js] obtain new2 where
    n2: "calls' = c1 @ new2"
      "map fst new2 = concat (map (\<lambda>i. if bw ! i = ''.DS_Store'' then []
                                          else project_calls bp mp cp (bw ! i) (mo ! i) (co ! i)) js)"
      "list_all returned new2"
      "\<forall>i \<in> set js. bw ! i \<noteq> ''.DS_Store'' \<longrightarrow> i < length mo \<and> i < length co" by blast
  from n1 n2 show ?case by (intro exI[of _ "new1 @ new2"]) simp
qed


lemma trigger_prediction_keeps_lines:
  assumes "trigger_prediction L fs df_path project_name periodicity seasonality = (r, fs')"
    and "fs x = Some (File ls)"
  shows "\<exists>ls'. fs' x = Some (File ls') \<and> set ls \<subseteq> set ls'"
proof (cases r)
  case (Inl e)
  from assms(2) have "isfile fs x" by (simp add: isfile_def)
  from trigger_prediction_raises_files(2)[OF assms(1)[unfolded Inl] this] assms(2)
  show ?thesis by simp
next
  case (Inr d)
  from trigger_prediction_success[OF assms(1)[unfolded Inr]]
  have sav: "save_result L fs periodicity d = (None, fs')" by blast
  from save_result_success[OF sav] obtain q fs1 where q: "periodicity = Some q"
    and fs': "fs' = fs1(assessment_path L q \<mapsto>
                  File ((case fs (assessment_path L q) of
                           Some (File old) \<Rightarrow> old | _ \<Rightarrow> [csv_header d]) @ [csv_row L d]))"
    by blast
  show ?thesis
  proof (cases "x = assessment_path L q")
    case True
    with fs' assms(2) show ?thesis by auto
  next
    case False
    from assms(2) have "isfile fs x" by (simp add: isfile_def)
    from save_result_other_files(2)[OF sav[unfolded q] False this] assms(2)
    show ?thesis by simp
  qed
qed

lemma recorded_kept:
  assumes "recorded L fs c"
    and "\<And>x ls. fs x = Some (File ls) \<Longrightarrow> \<exists>ls'. fs' x = Some (File ls') \<and> set ls \<subseteq> set ls'"
  shows "recorded L fs' c"
proof -
  obtain a r where ar: "c = (a, r)" by (cases c)
  obtain p pn per s where a: "a = (p, pn, per, s)" by (cases a)
  from ar a have c: "c = ((p, pn, per, s), r)" by simp
  show ?thesis
  proof (cases r)
    case (Inl e)
    with c show ?thesis by (simp add: recorded_def)
  next
    case (Inr d)
    with assms(1) c obtain q ls where q: "per = Some q" "fs (assessment_path L q) = Some (File ls)"
      "csv_row L d \<in> set ls"
      by (auto simp: recorded_def split: option.splits node.splits)
    from assms(2)[OF q(2)] obtain ls' where "fs' (assessment_path L q) = Some (File ls')"
      "set ls \<subseteq> set ls'" by blast
    with q c Inr show ?thesis by (auto simp: recorded_def)
  qed
qed

lemma invoke_recorded:
  assumes run: "invoke L p pn per seas (fs, calls) = (e, fs', calls')"
    and inv: "list_all (recorded L fs) calls"
  shows "list_all (recorded L fs') calls'"
proof -
  note a = invoke_appends[OF run]
  let ?t = "trigger_prediction L fs p pn per seas"
  have t: "?t = (fst ?t, fs')" using a(2) by (simp add: prod_eq_iff)
  have old: "list_all (recorded L fs') calls"
    using inv trigger_prediction_keeps_lines[OF t] recorded_kept[of L fs _ fs']
    by (simp add: list_all_iff)
  have new: "recorded L fs' ((p, pn, per, seas), fst ?t)"
  proof (cases "fst ?t")
    case (Inl x)
    then show ?thesis by (simp add: recorded_def)
  next
    case (Inr d)
    from trigger_prediction_success[OF t[unfolded Inr]]
    have sav: "save_result L fs per d = (None, fs')" by blast
    from save_result_success[OF sav] obtain q fs1 where q: "per = Some q"
      and fs': "fs' = fs1(assessment_path L q \<mapsto>
                  File ((case fs (assessment_path L q) of
                           Some (File old) \<Rightarrow> old | _ \<Rightarrow> [csv_header d]) @ [csv_row L d]))"
      by blast
    from fs' have "fs' (assessment_path L q) =
        Some (File ((case fs (assessment_path L q) of
                           Some (File old) \<Rightarrow> old | _ \<Rightarrow> [csv_header d]) @ [csv_row L d]))"
      by simp
    with q Inr show ?thesis by (simp add: recorded_def)
  qed
  from old new a(1) show ?thesis by simp
qed

text \<open>Only \<open>bayesian_orbit\<close> lists directories.\<close>

lemma listdir_irrelevant:
  "load_frame (L\<lparr>listdir := f\<rparr>) = load_frame L"
  "score_config (L\<lparr>listdir := f\<rparr>) = score_config L"
  "final_result (L\<lparr>listdir := f\<rparr>) = final_result L"
  "save_result (L\<lparr>listdir := f\<rparr>) = save_result L"
proof -
  have a: "to_datetime (L\<lparr>listdir := f\<rparr>) = to_datetime L"
    "to_numeric_coerce (L\<lparr>listdir := f\<rparr>) = to_numeric_coerce L"
    "read_csv (L\<lparr>listdir := f\<rparr>) = read_csv L"
    by (simp_all add: fun_eq_iff to_datetime_def to_numeric_coerce_def read_csv_def cong: option.case_cong node.case_cong cell.case_cong sum.case_cong prod.case_cong)
  show "load_frame (L\<lparr>listdir := f\<rparr>) = load_frame L"
    by (simp add: fun_eq_iff load_frame_def a cong: option.case_cong node.case_cong cell.case_cong sum.case_cong prod.case_cong)
  show "score_config (L\<lparr>listdir := f\<rparr>) = score_config L"
    by (simp add: fun_eq_iff score_config_def fit_and_score_def cong: option.case_cong node.case_cong cell.case_cong sum.case_cong prod.case_cong)
  show "final_result (L\<lparr>listdir := f\<rparr>) = final_result L"
    by (simp add: fun_eq_iff final_result_def cong: option.case_cong node.case_cong cell.case_cong sum.case_cong prod.case_cong)
  have b: "assessment_dir (L\<lparr>listdir := f\<rparr>) = assessment_dir L"
    "csv_row (L\<lparr>listdir := f\<rparr>) = csv_row L"
    by (simp_all add: fun_eq_iff assessment_dir_def csv_row_def csv_field_def cong: pyval.case_cong)
  have c: "assessment_path (L\<lparr>listdir := f\<rparr>) = assessment_path L"
    by (simp add: fun_eq_iff assessment_path_def b)
  have d: "to_csv (L\<lparr>listdir := f\<rparr>) = to_csv L"
    by (simp add: fun_eq_iff to_csv_def b cong: option.case_cong node.case_cong cell.case_cong sum.case_cong prod.case_cong)
  show "save_result (L\<lparr>listdir := f\<rparr>) = save_result L"
    by (simp add: fun_eq_iff save_result_def b c d cong: option.case_cong node.case_cong cell.case_cong sum.case_cong prod.case_cong if_cong)
qed

lemma trigger_prediction_listdir:
  "trigger_prediction (L\<lparr>listdir := f\<rparr>) = trigger_prediction L"
  by (simp add: fun_eq_iff trigger_prediction_unfold hypertune_flat listdir_irrelevant cong: option.case_cong node.case_cong cell.case_cong sum.case_cong prod.case_cong)

lemma invoke_listdir: "invoke (L\<lparr>listdir := f\<rparr>) = invoke L"
  by (simp add: fun_eq_iff invoke_def trigger_prediction_listdir cong: option.case_cong node.case_cong cell.case_cong sum.case_cong prod.case_cong)

lemma process_index_listdir: "process_index (L\<lparr>listdir := f\<rparr>) = process_index L"
  by (simp add: fun_eq_iff process_index_def invoke_listdir cong: option.case_cong node.case_cong cell.case_cong sum.case_cong prod.case_cong if_cong)

lemma for_index_listdir:
  "for_index (L\<lparr>listdir := f\<rparr>) bp mp cp bw mo co js w = for_index L bp mp cp bw mo co js w"
  by (induction js arbitrary: w) (simp_all add: process_index_listdir cong: option.case_cong node.case_cong cell.case_cong sum.case_cong prod.case_cong)

section \<open>bayesian_orbit on the small libraries\<close>

lemma demo_orbit:
  "bayesian_orbit (demo_library\<lparr>listdir := demo_listdir bw mo co\<rparr>) fs =
     for_index demo_library ''data/biweekly_data_1'' ''data/monthly_data_1''
       ''data/complete_data_1'' bw mo co [0..<length bw] (fs, [])"
proof -
  have "DATA_PATH demo_library = ''data''" by (simp add: demo_library_def)
  then show ?thesis
    by (simp add: bayesian_orbit_def os_path_join_def join_step_def demo_listdir_def
          for_index_listdir)
qed

lemma demo_library_listing:
  "demo_library = demo_library\<lparr>listdir := demo_listdir [''.DS_Store'', ''ant.csv'']
                                 [''x.csv'', ''ant.csv''] [''.DS_Store'', ''ant.csv'']\<rparr>"
  by (simp add: demo_library_def)

lemma trigger_prediction_missing:
  "fs p = None \<Longrightarrow> trigger_prediction L fs p pn per seas = (Inl FileNotFoundError, fs)"
  by (simp add: trigger_prediction_unfold load_frame_def read_csv_def)

lemma upt_two: "[0..<2] = [0, 1]" and upt_one: "[0..<1] = [0]"
  by code_simp+

lemma demo_joins:
  "os_path_join ''data/biweekly_data_1'' [''ant.csv''] = ''data/biweekly_data_1/ant.csv''"
  "os_path_join ''data/monthly_data_1'' [''ant.csv''] = ''data/monthly_data_1/ant.csv''"
  "os_path_join ''data/complete_data_1'' [''ant.csv''] = ''data/complete_data_1/ant.csv''"
  "os_path_join ''data/complete_data_1'' [''.DS_Store''] = ''data/complete_data_1/.DS_Store''"
  by (simp_all add: os_path_join_def join_step_def)

lemmas demo_run_simps =
  process_index_def index_def invoke_def demo_joins demo_trigger_save
  trigger_prediction_missing save_result_def demo_dirs makedirs_def demo_ancestors_all isfile_def
  to_csv_def demo_rows demo_fs_def

lemma demo_orbit_run:
  "fst (bayesian_orbit demo_library demo_fs) = None"
  "snd (snd (bayesian_orbit demo_library demo_fs)) =
     [((''data/biweekly_data_1/ant.csv'', ''ant'', Some ''biweekly'', Some 26),
       Inr (demo_result ''ant'')),
      ((''data/monthly_data_1/ant.csv'', ''ant'', Some ''monthly'', Some 12),
       Inr (demo_result ''ant'')),
      ((''data/complete_data_1/ant.csv'', ''ant'', Some ''complete'', None),
       Inr (demo_result ''ant''))]"
  by (subst demo_library_listing, simp add: demo_orbit upt_two demo_run_simps)+







lemma demo_body_run:
  "fst (process_index demo_library ''data/biweekly_data_1'' ''data/monthly_data_1''
          ''data/complete_data_1'' [''.DS_Store'', ''ant.csv''] [''x.csv'', ''ant.csv'']
          [''.DS_Store'', ''ant.csv''] 1 (demo_fs, [])) = None"
  by (simp add: demo_run_simps)

section \<open>Claims about bayesian_orbit\<close>

lemma process_index_recorded:
  assumes run: "process_index L bp mp cp bw mo co i (fs, calls) = (e, fs', calls')"
    and i: "i < length bw" and inv: "list_all (recorded L fs) calls"
  shows "list_all (recorded L fs') calls'"
proof (cases "bw ! i = ''.DS_Store''")
  case True
  with run i inv show ?thesis by (simp add: process_index_skip)
next
  case False
  let ?pn = "take (length (bw ! i) - 4) (bw ! i)"
  note steps = process_index_steps[OF i False, of L bp mp cp mo co]
  obtain e1 fs1 c1 where one: "invoke L (os_path_join bp [bw ! i]) ?pn (Some ''biweekly'')
      (Some 26) (fs, calls) = (e1, fs1, c1)" by (metis prod_cases3)
  note r1 = invoke_recorded[OF one inv]
  obtain e2 fs2 c2 where two: "invoke L (os_path_join mp [mo ! i]) ?pn (Some ''monthly'')
      (Some 12) (fs1, c1) = (e2, fs2, c2)" by (metis prod_cases3)
  note r2 = invoke_recorded[OF two r1]
  obtain e3 fs3 c3 where three: "invoke L (os_path_join cp [co ! i]) ?pn (Some ''complete'')
      None (fs2, c2) = (e3, fs3, c3)" by (metis prod_cases3)
  note r3 = invoke_recorded[OF three r2]
  from run one two three r1 r2 r3 show ?thesis
    by (auto simp: steps split: option.splits if_splits)
qed

lemma for_index_recorded:
  "for_index L bp mp cp bw mo co js (fs, calls) = (e, fs', calls') \<Longrightarrow>
   \<forall>i \<in> set js. i < length bw \<Longrightarrow> list_all (recorded L fs) calls \<Longrightarrow>
     list_all (recorded L fs') calls'"
proof (induction js arbitrary: fs calls)
  case Nil
  then show ?case by simp
next
  case (Cons j js)
  obtain e1 fs1 c1 where body: "process_index L bp mp cp bw mo co j (fs, calls) = (e1, fs1, c1)"
    by (metis prod_cases3)
  from Cons.prems(2) have j: "j < length bw" and js: "\<forall>i \<in> set js. i < length bw" by simp_all
  note r1 = process_index_recorded[OF body j Cons.prems(3)]
  show ?case
  proof (cases e1)
    case None
    with Cons.prems(1) body
    have "for_index L bp mp cp bw mo co js (fs1, c1) = (e, fs', calls')" by simp
    from Cons.IH[OF this js r1] show ?thesis .
  next
    case (Some x)
    with Cons.prems(1) body r1 show ?thesis by simp
  qed
qed

text \<open>The run of the whole function in terms of its loop.\<close>

lemma bayesian_orbit_listed:
  assumes "listdir L (os_path_join (DATA_PATH L) [''biweekly_data_1'']) = Inr bw"
    and "listdir L (os_path_join (DATA_PATH L) [''monthly_data_1'']) = Inr mo"
    and "listdir L (os_path_join (DATA_PATH L) [''complete_data_1'']) = Inr co"
  shows "bayesian_orbit L fs =
           for_index L (os_path_join (DATA_PATH L) [''biweekly_data_1''])
             (os_path_join (DATA_PATH L) [''monthly_data_1''])
             (os_path_join (DATA_PATH L) [''complete_data_1''])
             bw mo co [0..<length bw] (fs, [])"
  using assms by (simp add: bayesian_orbit_def)

lemma bayesian_orbit_done_listed:
  assumes "bayesian_orbit L fs = (None, fs', calls)"
  shows "\<exists>bw mo co. listdir L (os_path_join (DATA_PATH L) [''biweekly_data_1'']) = Inr bw
           \<and> listdir L (os_path_join (DATA_PATH L) [''monthly_data_1'']) = Inr mo
           \<and> listdir L (os_path_join (DATA_PATH L) [''complete_data_1'']) = Inr co"
  using assms by (auto simp: bayesian_orbit_def split: sum.splits)

lemma join_step_plain:
  "take 1 b \<noteq> ''/'' \<Longrightarrow> path \<noteq> [] \<Longrightarrow> last path \<noteq> CHR ''/'' \<Longrightarrow>
     join_step path b = path @ ''/'' @ b"
  by (simp add: join_step_def)

lemma join_step_ends:
  "take 1 b \<noteq> ''/'' \<Longrightarrow> b \<noteq> [] \<Longrightarrow> join_step path b \<noteq> [] \<and> last (join_step path b) = last b"
  by (simp add: join_step_def)

lemma assessment_dir_named:
  assumes "q = ''biweekly'' \<or> q = ''monthly'' \<or> q = ''complete''"
  shows "assessment_dir L q = os_path_join (DATA_PATH L) [''ORBIT_ML'', ''DLT_Result''] @ ''/'' @ q"
    and "assessment_path L q = assessment_dir L q @ ''/assessment.csv''"
proof -
  let ?x = "os_path_join (DATA_PATH L) [''ORBIT_ML'', ''DLT_Result'']"
  have x: "?x = join_step (join_step (DATA_PATH L) ''ORBIT_ML'') ''DLT_Result''"
    by (simp add: os_path_join_def)
  have ends: "?x \<noteq> [] \<and> last ?x = last ''DLT_Result''"
    unfolding x by (rule join_step_ends) simp_all
  have d: "assessment_dir L q = join_step ?x q"
    by (simp add: assessment_dir_def os_path_join_def)
  from assms have q: "take 1 q \<noteq> ''/''" "q \<noteq> []" "last q \<noteq> CHR ''/''" by auto
  from ends have "?x \<noteq> []" "last ?x \<noteq> CHR ''/''" by simp_all
  from join_step_plain[OF q(1) this] d
  show dir: "assessment_dir L q = ?x @ ''/'' @ q" by simp
  from q have "assessment_dir L q \<noteq> []" "last (assessment_dir L q) \<noteq> CHR ''/''"
    by (simp_all add: dir)
  then have "join_step (assessment_dir L q) ''assessment.csv''
               = assessment_dir L q @ ''/'' @ ''assessment.csv''"
    by (intro join_step_plain) simp_all
  then show "assessment_path L q = assessment_dir L q @ ''/assessment.csv''"
    by (simp add: assessment_path_def os_path_join_def)
qed

text \<open>
  C6. For every project file processed by \<open>bayesian_orbit\<close> (an entry of the biweekly listing
  other than \<open>.DS_Store\<close>), \<open>trigger_prediction\<close> is invoked exactly three times, in this
  order: biweekly with seasonality 26, monthly with seasonality 12, complete with seasonality
  None. A run that finishes has made these three calls for each such entry, in the order of
  the listing, and nothing else; every call returned and its row is in the assessment file of
  its periodicity. One pass of the loop body that finishes appends exactly these three calls.
  The three output directories end in the periodicity and the three assessment files are
  distinct.
\<close>

theorem bayesian_orbit_three_calls:
  "(bayesian_orbit L fs = (None, fs', calls) \<longrightarrow>
      (\<exists>bw mo co.
          listdir L (os_path_join (DATA_PATH L) [''biweekly_data_1'']) = Inr bw
        \<and> listdir L (os_path_join (DATA_PATH L) [''monthly_data_1'']) = Inr mo
        \<and> listdir L (os_path_join (DATA_PATH L) [''complete_data_1'']) = Inr co
        \<and> map fst calls =
            concat (map (\<lambda>i. if bw ! i = ''.DS_Store'' then []
                              else project_calls
                                     (os_path_join (DATA_PATH L) [''biweekly_data_1''])
                                     (os_path_join (DATA_PATH L) [''monthly_data_1''])
                                     (os_path_join (DATA_PATH L) [''complete_data_1''])
                                     (bw ! i) (mo ! i) (co ! i))
                      [0..<length bw])
        \<and> list_all returned calls
        \<and> list_all (recorded L fs') calls))
   \<and> (process_index L bp mp cp bw' mo' co' i (fs0, calls0) = (None, fs1, calls1)
        \<and> i < length bw' \<and> bw' ! i \<noteq> ''.DS_Store''
      \<longrightarrow> (\<exists>new. calls1 = calls0 @ new \<and> length new = 3
             \<and> map fst new = project_calls bp mp cp (bw' ! i) (mo' ! i) (co' ! i)
             \<and> list_all returned new))
   \<and> assessment_dir L ''biweekly''
        = os_path_join (DATA_PATH L) [''ORBIT_ML'', ''DLT_Result''] @ ''/biweekly''
   \<and> assessment_dir L ''monthly''
        = os_path_join (DATA_PATH L) [''ORBIT_ML'', ''DLT_Result''] @ ''/monthly''
   \<and> assessment_dir L ''complete''
        = os_path_join (DATA_PATH L) [''ORBIT_ML'', ''DLT_Result''] @ ''/complete''
   \<and> distinct [assessment_path L ''biweekly'', assessment_path L ''monthly'',
                assessment_path L ''complete'']"
proof (intro conjI impI)
  {
    assume run: "bayesian_orbit L fs = (None, fs', calls)"
    from bayesian_orbit_done_listed[OF run] obtain bw mo co where
      ls: "listdir L (os_path_join (DATA_PATH L) [''biweekly_data_1'']) = Inr bw"
        "listdir L (os_path_join (DATA_PATH L) [''monthly_data_1'']) = Inr mo"
        "listdir L (os_path_join (DATA_PATH L) [''complete_data_1'']) = Inr co" by blast
    let ?bp = "os_path_join (DATA_PATH L) [''biweekly_data_1'']"
    let ?mp = "os_path_join (DATA_PATH L) [''monthly_data_1'']"
    let ?cp = "os_path_join (DATA_PATH L) [''complete_data_1'']"
    from run have loop: "for_index L ?bp ?mp ?cp bw mo co [0..<length bw] (fs, [])
                           = (None, fs', calls)"
      by (simp add: bayesian_orbit_listed[OF ls])
    have range: "\<forall>i \<in> set [0..<length bw]. i < length bw" by simp
    from for_index_done[OF loop range]
    have a: "map fst calls =
            concat (map (\<lambda>i. if bw ! i = ''.DS_Store'' then []
                              else project_calls ?bp ?mp ?cp (bw ! i) (mo ! i) (co ! i))
                      [0..<length bw])"
      and b: "list_all returned calls" by auto
    have c: "list_all (recorded L fs') calls"
      by (rule for_index_recorded[OF loop range]) simp
    from ls a b c
    show "\<exists>bw mo co.
          listdir L ?bp = Inr bw \<and> listdir L ?mp = Inr mo \<and> listdir L ?cp = Inr co
        \<and> map fst calls =
            concat (map (\<lambda>i. if bw ! i = ''.DS_Store'' then []
                              else project_calls ?bp ?mp ?cp (bw ! i) (mo ! i) (co ! i))
                      [0..<length bw])
        \<and> list_all returned calls
        \<and> list_all (recorded L fs') calls"
      by (intro exI[of _ bw] exI[of _ mo] exI[of _ co]) simp
  }
  {
    assume h: "process_index L bp mp cp bw' mo' co' i (fs0, calls0) = (None, fs1, calls1)
        \<and> i < length bw' \<and> bw' ! i \<noteq> ''.DS_Store''"
    then have run: "process_index L bp mp cp bw' mo' co' i (fs0, calls0) = (None, fs1, calls1)"
      and i: "i < length bw'" and name: "bw' ! i \<noteq> ''.DS_Store''" by simp_all
    from process_index_done[OF run i] name obtain new where
      new: "calls1 = calls0 @ new"
        "map fst new = project_calls bp mp cp (bw' ! i) (mo' ! i) (co' ! i)"
        "list_all returned new" by auto
    from new(2) have "length (map fst new) = 3" by (simp add: project_calls_def)
    then have "length new = 3" by simp
    with new show "\<exists>new. calls1 = calls0 @ new \<and> length new = 3
             \<and> map fst new = project_calls bp mp cp (bw' ! i) (mo' ! i) (co' ! i)
             \<and> list_all returned new" by blast
  }
  show "assessment_dir L ''biweekly''
        = os_path_join (DATA_PATH L) [''ORBIT_ML'', ''DLT_Result''] @ ''/biweekly''"
    by (simp add: assessment_dir_named(1))
  show "assessment_dir L ''monthly''
        = os_path_join (DATA_PATH L) [''ORBIT_ML'', ''DLT_Result''] @ ''/monthly''"
    by (simp add: assessment_dir_named(1))
  show "assessment_dir L ''complete''
        = os_path_join (DATA_PATH L) [''ORBIT_ML'', ''DLT_Result''] @ ''/complete''"
    by (simp add: assessment_dir_named(1))
  show "distinct [assessment_path L ''biweekly'', assessment_path L ''monthly'',
                assessment_path L ''complete'']"
    by (simp add: assessment_dir_named)
qed





text \<open>
  C6, on the small library: the run finishes with the three calls for \<open>ant.csv\<close>, all
  returned and recorded, and the loop body at index 1 of a listing appends three calls.
\<close>

theorem bayesian_orbit_three_calls_witness:
  "fst (bayesian_orbit demo_library demo_fs) = None
   \<and> snd (snd (bayesian_orbit demo_library demo_fs)) =
       [((''data/biweekly_data_1/ant.csv'', ''ant'', Some ''biweekly'', Some 26),
         Inr (demo_result ''ant'')),
        ((''data/monthly_data_1/ant.csv'', ''ant'', Some ''monthly'', Some 12),
         Inr (demo_result ''ant'')),
        ((''data/complete_data_1/ant.csv'', ''ant'', Some ''complete'', None),
         Inr (demo_result ''ant''))]
   \<and> list_all (recorded demo_library (fst (snd (bayesian_orbit demo_library demo_fs))))
        (snd (snd (bayesian_orbit demo_library demo_fs)))
   \<and> list_all returned (snd (snd (bayesian_orbit demo_library demo_fs)))
   \<and> fst (process_index demo_library ''data/biweekly_data_1'' ''data/monthly_data_1''
          ''data/complete_data_1'' [''.DS_Store'', ''ant.csv''] [''x.csv'', ''ant.csv'']
          [''.DS_Store'', ''ant.csv''] 1 (demo_fs, [])) = None
   \<and> length (snd (snd (process_index demo_library ''data/biweekly_data_1''
          ''data/monthly_data_1'' ''data/complete_data_1'' [''.DS_Store'', ''ant.csv'']
          [''x.csv'', ''ant.csv''] [''.DS_Store'', ''ant.csv''] 1 (demo_fs, [])))) = 3"
proof -
  let ?run = "bayesian_orbit demo_library demo_fs"
  let ?body = "process_index demo_library ''data/biweekly_data_1'' ''data/monthly_data_1''
          ''data/complete_data_1'' [''.DS_Store'', ''ant.csv''] [''x.csv'', ''ant.csv'']
          [''.DS_Store'', ''ant.csv''] 1 (demo_fs, [])"
  have run: "?run = (None, fst (snd ?run), snd (snd ?run))"
    by (simp add: prod_eq_iff demo_orbit_run(1))
  have body: "?body = (None, fst (snd ?body), snd (snd ?body))"
    using demo_body_run by (simp add: prod_eq_iff)
  note t = bayesian_orbit_three_calls[where L = demo_library and fs = demo_fs
      and fs' = "fst (snd ?run)" and calls = "snd (snd ?run)"
      and bp = "''data/biweekly_data_1''" and mp = "''data/monthly_data_1''"
      and cp = "''data/complete_data_1''" and bw' = "[''.DS_Store'', ''ant.csv'']"
      and mo' = "[''x.csv'', ''ant.csv'']" and co' = "[''.DS_Store'', ''ant.csv'']"
      and i = 1 and ?fs0.0 = demo_fs and ?calls0.0 = "[]"
      and ?fs1.0 = "fst (snd ?body)" and ?calls1.0 = "snd (snd ?body)"]
  from t[THEN conjunct1, THEN mp, OF run]
  have a: "list_all returned (snd (snd ?run))"
    "list_all (recorded demo_library (fst (snd ?run))) (snd (snd ?run))" by blast+
  have h: "?body = (None, fst (snd ?body), snd (snd ?body))
             \<and> 1 < length [''.DS_Store'', ''ant.csv'']
             \<and> [''.DS_Store'', ''ant.csv''] ! 1 \<noteq> ''.DS_Store''"
    using body by simp
  from t[THEN conjunct2, THEN conjunct1, THEN mp, OF h]
  have b: "length (snd (snd ?body)) = 3" by auto
  from demo_orbit_run a demo_body_run b show ?thesis by (intro conjI)
qed

end
